theory Spec2Isabelle
  imports Main
begin

section \<open>Text\<close>

text \<open>
  A Python \<open>str\<close> is modelled as a \<open>string\<close>: a list of characters, each standing
  for the code point of the same number. The model therefore covers texts whose code
  points are below 256 (ASCII and the Latin-1 supplement); the character classes below
  are the ones Python's \<open>re\<close> and \<open>str\<close> methods use on those code points.
\<close>

definition ord :: "char \<Rightarrow> nat" where
  "ord c = of_char c"

text \<open>\<open>\s\<close> of \<open>re\<close>, and the characters \<open>str.strip()\<close> and \<open>str.split()\<close> treat as
  whitespace: tab to carriage return, the four separators 0x1C-0x1F, the space, NEL and
  the no-break space.\<close>

definition is_space :: "char \<Rightarrow> bool" where
  "is_space c \<longleftrightarrow> (9 \<le> ord c \<and> ord c \<le> 13) \<or> (28 \<le> ord c \<and> ord c \<le> 32) \<or> ord c = 133 \<or> ord c = 160"

text \<open>\<open>\d\<close> and \<open>[0-9]\<close>: below 256 the only decimal digits are the ASCII ones.\<close>

definition is_digit :: "char \<Rightarrow> bool" where
  "is_digit c \<longleftrightarrow> 48 \<le> ord c \<and> ord c \<le> 57"

text \<open>\<open>[a-zA-Z]\<close>.\<close>

definition is_ascii_letter :: "char \<Rightarrow> bool" where
  "is_ascii_letter c \<longleftrightarrow> (65 \<le> ord c \<and> ord c \<le> 90) \<or> (97 \<le> ord c \<and> ord c \<le> 122)"

text \<open>\<open>\w\<close> as \<open>\b\<close> reads it: the alphanumeric characters and the underscore. Beyond
  ASCII these are the Latin-1 letters (0xAA, 0xB5, 0xBA, 0xC0-0xFF without the two
  operators 0xD7 and 0xF7) and the numeric characters 0xB2, 0xB3, 0xB9, 0xBC-0xBE.\<close>

definition is_word :: "char \<Rightarrow> bool" where
  "is_word c \<longleftrightarrow> is_digit c \<or> is_ascii_letter c \<or> ord c = 95
     \<or> ord c = 170 \<or> ord c = 178 \<or> ord c = 179 \<or> ord c = 181 \<or> ord c = 185 \<or> ord c = 186
     \<or> (188 \<le> ord c \<and> ord c \<le> 190)
     \<or> (192 \<le> ord c \<and> ord c \<noteq> 215 \<and> ord c \<noteq> 247)"

text \<open>\<open>str.lower()\<close>: the ASCII capitals and the Latin-1 capitals 0xC0-0xDE (without the
  multiplication sign 0xD7) move up by 32; every other character stays.\<close>

definition lower_char :: "char \<Rightarrow> char" where
  "lower_char c =
     (if (65 \<le> ord c \<and> ord c \<le> 90) \<or> (192 \<le> ord c \<and> ord c \<le> 222 \<and> ord c \<noteq> 215)
      then char_of (ord c + 32) else c)"

definition lower :: "string \<Rightarrow> string" where
  "lower s = map lower_char s"

text \<open>\<open>str.strip()\<close> without arguments.\<close>

definition strip :: "string \<Rightarrow> string" where
  "strip s = rev (dropWhile is_space (rev (dropWhile is_space s)))"

text \<open>\<open>str.split()\<close> without arguments: the maximal runs of characters that are not
  whitespace, in order.\<close>

function split_ws :: "string \<Rightarrow> string list" where
  "split_ws [] = []"
| "split_ws (c # cs) =
     (if is_space c then split_ws cs
      else takeWhile (\<lambda>x. \<not> is_space x) (c # cs) # split_ws (dropWhile (\<lambda>x. \<not> is_space x) cs))"
  by pat_completeness auto
termination
  by (relation "measure length") (auto simp: less_Suc_eq_le length_dropWhile_le)

text \<open>\<open>sep.join(parts)\<close>.\<close>

fun join :: "string \<Rightarrow> string list \<Rightarrow> string" where
  "join sep [] = []"
| "join sep [x] = x"
| "join sep (x # y # ys) = x @ sep @ join sep (y # ys)"

section \<open>The validator\<close>

text \<open>
  \<open>os.path.splitext(p)[1]\<close> and \<open>os.path.basename(p)\<close> on a POSIX system: the base name
  starts after the last slash; the extension starts at the last dot of the base name,
  leading dots not counted, and is empty when there is no such dot.
\<close>

definition basename :: "string \<Rightarrow> string" where
  "basename p = rev (takeWhile (\<lambda>c. c \<noteq> CHR ''/'') (rev p))"

definition splitext_ext :: "string \<Rightarrow> string" where
  "splitext_ext p =
     (let b = dropWhile (\<lambda>c. c = CHR ''.'') (basename p)
      in if CHR ''.'' \<in> set b then CHR ''.'' # rev (takeWhile (\<lambda>c. c \<noteq> CHR ''.'') (rev b)) else [])"

definition splitext_root :: "string \<Rightarrow> string" where
  "splitext_root p = take (length p - length (splitext_ext p)) p"

text \<open>The files the program can see: a path that exists has a size in bytes
  (\<open>os.path.exists\<close>, \<open>os.path.getsize\<close>).\<close>

type_synonym files = "string \<Rightarrow> nat option"

definition SUPPORTED_EXTENSIONS :: "(string \<times> string) list" where
  "SUPPORTED_EXTENSIONS =
     [(''.pdf'', ''PDF Document''),
      (''.docx'', ''Word Document''),
      (''.doc'', ''Word Document (Legacy)''),
      (''.xlsx'', ''Excel Spreadsheet''),
      (''.xls'', ''Excel Spreadsheet (Legacy)''),
      (''.csv'', ''CSV File''),
      (''.txt'', ''Text File'')]"

definition MAX_FILE_SIZE :: nat where
  "MAX_FILE_SIZE = 50 * 1024 * 1024"

text \<open>
  \<open>FileValidator.validate_file\<close>. The text of the oversize message holds a float printed
  with two decimals; \<open>mb\<close> stands for that rendering of \<open>file_size / (1024*1024)\<close>.
\<close>

definition validate_file :: "(nat \<Rightarrow> string) \<Rightarrow> files \<Rightarrow> string \<Rightarrow> bool \<times> string" where
  "validate_file mb fs file_path =
     (case fs file_path of
        None \<Rightarrow> (False, ''File does not exist'')
      | Some file_size \<Rightarrow>
          (let ext = lower (splitext_ext file_path) in
           if ext \<notin> set (map fst SUPPORTED_EXTENSIONS)
           then (False, ''Unsupported file type: '' @ ext @ ''. Supported types: ''
                          @ join '', '' (map fst SUPPORTED_EXTENSIONS))
           else if file_size > MAX_FILE_SIZE
           then (False, ''File too large: '' @ mb file_size @ ''MB. Maximum size: 50.0MB'')
           else if file_size = 0
           then (False, ''File is empty'')
           else (True, ''Valid '' @ the (map_of SUPPORTED_EXTENSIONS ext))))"

definition supported_extension :: "string \<Rightarrow> bool" where
  "supported_extension p \<longleftrightarrow>
     lower (splitext_ext p) \<in> {''.pdf'', ''.docx'', ''.doc'', ''.xlsx'', ''.xls'', ''.csv'', ''.txt''}"

section \<open>Python values\<close>

text \<open>
  The records the program passes around are dictionaries of arbitrary values. A value is
  \<open>None\<close>, a bool, an int, a str, a list, a dict, or an object of any other type (a float,
  a date), which is given by the text \<open>str()\<close> prints for it and by its truth value. A dict is
  the list of its items in insertion order; its keys are pairwise different.
\<close>

datatype pyval =
    PNone
  | PBool bool
  | PInt int
  | PStr string
  | PList "pyval list"
  | PDict "(pyval \<times> pyval) list"
  | PObj string bool

type_synonym pydict = "(pyval \<times> pyval) list"

text \<open>An exception, by its class; \<open>LibraryError\<close> is one raised inside a parsing library
  or by the operating system, with the text \<open>str(e)\<close> gives for it.\<close>

datatype exn =
    KeyError
  | TypeError
  | AttributeError
  | IndexError
  | ValueError
  | UnboundLocalError
  | LibraryError string

text \<open>
  What the Python runtime and its standard library print, taken as given:
  \<open>repr(v)\<close> (which \<open>str()\<close> uses for a list or a dict), \<open>str(e)\<close> of an exception,
  \<open>json.dumps(v)\<close>, \<open>json.dumps(v, indent=2, ensure_ascii=False, default=str)\<close>, the same
  without \<open>indent\<close>, and a size in bytes divided by \<open>1024*1024\<close> printed with two decimals.
  \<open>rt_open path\<close> is the exception that opening \<open>path\<close> for writing raises (a missing
  directory, a path that is a directory, no permission), \<open>None\<close> when the file opens.
\<close>

record runtime =
  rt_repr :: "pyval \<Rightarrow> string"
  rt_str_exn :: "exn \<Rightarrow> string"
  rt_json_dumps :: "pyval \<Rightarrow> exn + string"
  rt_json_pretty :: "pyval \<Rightarrow> exn + string"
  rt_json_compact :: "pyval \<Rightarrow> exn + string"
  rt_size_mb :: "nat \<Rightarrow> string"
  rt_open :: "string \<Rightarrow> exn option"

text \<open>Decimal digits of an int, as \<open>str()\<close> prints them.\<close>

function str_nat :: "nat \<Rightarrow> string" where
  "str_nat n = (if n < 10 then [char_of (48 + n)] else str_nat (n div 10) @ [char_of (48 + n mod 10)])"
  by pat_completeness auto
termination
  by (relation "measure id") auto

definition str_int :: "int \<Rightarrow> string" where
  "str_int i = (if i < 0 then CHR ''-'' # str_nat (nat (- i)) else str_nat (nat i))"

text \<open>\<open>str(v)\<close>, which is also what an f-string puts for \<open>{v}\<close>.\<close>

fun py_str :: "runtime \<Rightarrow> pyval \<Rightarrow> string" where
  "py_str rt PNone = ''None''"
| "py_str rt (PBool b) = (if b then ''True'' else ''False'')"
| "py_str rt (PInt i) = str_int i"
| "py_str rt (PStr s) = s"
| "py_str rt (PObj t b) = t"
| "py_str rt v = rt_repr rt v"

text \<open>The truth value of a value in a condition.\<close>

fun truthy :: "pyval \<Rightarrow> bool" where
  "truthy PNone = False"
| "truthy (PBool b) = b"
| "truthy (PInt i) = (i \<noteq> 0)"
| "truthy (PStr s) = (s \<noteq> [])"
| "truthy (PList xs) = (xs \<noteq> [])"
| "truthy (PDict d) = (d \<noteq> [])"
| "truthy (PObj t b) = b"

text \<open>\<open>len(v)\<close>.\<close>

fun py_len :: "pyval \<Rightarrow> exn + nat" where
  "py_len (PStr s) = Inr (length s)"
| "py_len (PList xs) = Inr (length xs)"
| "py_len (PDict d) = Inr (length d)"
| "py_len v = Inl TypeError"

text \<open>\<open>k in d\<close>, \<open>d.get(k, default)\<close>, \<open>d[k]\<close> and \<open>d[k] = v\<close> on a dict.\<close>

definition has_key :: "pydict \<Rightarrow> pyval \<Rightarrow> bool" where
  "has_key d k \<longleftrightarrow> k \<in> set (map fst d)"

definition dict_get :: "pydict \<Rightarrow> pyval \<Rightarrow> pyval \<Rightarrow> pyval" where
  "dict_get d k dflt = (case map_of d k of Some v \<Rightarrow> v | None \<Rightarrow> dflt)"

definition dict_item :: "pydict \<Rightarrow> pyval \<Rightarrow> exn + pyval" where
  "dict_item d k = (case map_of d k of Some v \<Rightarrow> Inr v | None \<Rightarrow> Inl KeyError)"

fun dict_set :: "pydict \<Rightarrow> pyval \<Rightarrow> pyval \<Rightarrow> pydict" where
  "dict_set [] k v = [(k, v)]"
| "dict_set ((k', v') # d) k v = (if k' = k then (k, v) # d else (k', v') # dict_set d k v)"

text \<open>Whether a value can be a key of a dict: lists and dicts are not hashable.\<close>

fun hashable :: "pyval \<Rightarrow> bool" where
  "hashable (PList xs) = False"
| "hashable (PDict d) = False"
| "hashable v = True"

text \<open>\<open>v[0]\<close>, \<open>v[1:]\<close> and \<open>v[key]\<close> with a str key, and the items \<open>iter(v)\<close> yields.\<close>

fun py_first :: "pyval \<Rightarrow> exn + pyval" where
  "py_first (PList xs) = (case xs of [] \<Rightarrow> Inl IndexError | x # _ \<Rightarrow> Inr x)"
| "py_first (PStr s) = (case s of [] \<Rightarrow> Inl IndexError | c # _ \<Rightarrow> Inr (PStr [c]))"
| "py_first (PDict d) = dict_item d (PInt 0)"
| "py_first v = Inl TypeError"

fun py_rest :: "pyval \<Rightarrow> exn + pyval" where
  "py_rest (PList xs) = Inr (PList (tl xs))"
| "py_rest (PStr s) = Inr (PStr (tl s))"
| "py_rest v = Inl TypeError"

fun py_field :: "pyval \<Rightarrow> string \<Rightarrow> exn + pyval" where
  "py_field (PDict d) k = dict_item d (PStr k)"
| "py_field v k = Inl TypeError"

fun py_iter :: "pyval \<Rightarrow> exn + pyval list" where
  "py_iter (PList xs) = Inr xs"
| "py_iter (PStr s) = Inr (map (\<lambda>c. PStr [c]) s)"
| "py_iter (PDict d) = Inr (map fst d)"
| "py_iter v = Inl TypeError"

text \<open>\<open>dict(pairs)\<close>: the pairs are stored one after the other, a later value replacing
  an earlier one under the same key.\<close>

fun dict_of_pairs :: "pydict \<Rightarrow> (pyval \<times> pyval) list \<Rightarrow> exn + pydict" where
  "dict_of_pairs acc [] = Inr acc"
| "dict_of_pairs acc ((k, v) # ps) =
     (if hashable k then dict_of_pairs (dict_set acc k v) ps else Inl TypeError)"

section \<open>The formatter\<close>

text \<open>
  The files the program writes: a path with what was written to it. A text file holds
  its text; a CSV file holds the rows handed to \<open>csv.writer\<close>, each the list of its
  fields before they are printed and quoted; an archive holds its members, each a path
  with what the file held when the archive was made. Opening a file for writing may fail
  (\<open>rt_open\<close>); an open file is empty, and writing to it and closing it are taken to succeed.
\<close>

datatype content = Text string | Csv "pyval list list" | Zip "(string \<times> content) list"

type_synonym outputs = "(string \<times> content) list"

fun write_file :: "outputs \<Rightarrow> string \<Rightarrow> content \<Rightarrow> outputs" where
  "write_file [] path c = [(path, c)]"
| "write_file ((p, c') # out) path c = (if p = path then (path, c) # out else (p, c') # write_file out path c)"

text \<open>\<open>DataFormatter.to_json\<close>.\<close>

definition to_json :: "runtime \<Rightarrow> pydict \<Rightarrow> bool \<Rightarrow> exn + string" where
  "to_json rt data pretty = (if pretty then rt_json_pretty rt (PDict data) else rt_json_compact rt (PDict data))"

text \<open>
  \<open>DataFormatter.to_csv\<close>. The dict comprehension that builds \<open>cleaned_row\<close>: a dict or a
  list becomes its JSON text, any other value stays.
\<close>

fun cleaned_row :: "runtime \<Rightarrow> pydict \<Rightarrow> exn + pydict" where
  "cleaned_row rt [] = Inr []"
| "cleaned_row rt ((k, v) # kvs) =
     (case (case v of PDict d \<Rightarrow> map_sum id PStr (rt_json_dumps rt v)
                    | PList xs \<Rightarrow> map_sum id PStr (rt_json_dumps rt v)
                    | _ \<Rightarrow> Inr v) of
        Inl e \<Rightarrow> Inl e
      | Inr v' \<Rightarrow> (case cleaned_row rt kvs of Inl e \<Rightarrow> Inl e | Inr r \<Rightarrow> Inr ((k, v') # r)))"

text \<open>\<open>csv.DictWriter.writerow\<close> with the defaults \<open>restval=''\<close> and
  \<open>extrasaction='raise'\<close>: a key outside the field names raises \<open>ValueError\<close>; the row
  written has one field per field name, empty where the dict has no such key.\<close>

definition writerow :: "pyval list \<Rightarrow> pydict \<Rightarrow> exn + pyval list" where
  "writerow fieldnames rowdict =
     (if \<exists>k \<in> set (map fst rowdict). k \<notin> set fieldnames then Inl ValueError
      else Inr (map (\<lambda>f. dict_get rowdict f (PStr [])) fieldnames))"

text \<open>The loop over the rows; \<open>written\<close> are the rows in the file so far. An exception
  ends the loop and leaves the file as it is.\<close>

fun write_rows :: "runtime \<Rightarrow> pyval list \<Rightarrow> pyval list \<Rightarrow> pyval list list \<Rightarrow> pyval list list \<times> exn option" where
  "write_rows rt fieldnames [] written = (written, None)"
| "write_rows rt fieldnames (row # rows) written =
     (case row of
        PDict d \<Rightarrow>
          (case cleaned_row rt d of
             Inl e \<Rightarrow> (written, Some e)
           | Inr cr \<Rightarrow>
               (case writerow fieldnames cr of
                  Inl e \<Rightarrow> (written, Some e)
                | Inr line \<Rightarrow> write_rows rt fieldnames rows (written @ [line])))
      | _ \<Rightarrow> (written, Some AttributeError))"

text \<open>The body of the \<open>with\<close> block: the rows in the file when it is closed, and the
  exception that ended the block, if one did.\<close>

definition csv_body :: "runtime \<Rightarrow> pyval \<Rightarrow> pyval list list \<times> exn option" where
  "csv_body rt data =
     (case py_first data of
        Inl e \<Rightarrow> ([], Some e)
      | Inr first \<Rightarrow>
          (case first of
             PDict d0 \<Rightarrow>
               (let fieldnames = map fst d0 in
                case py_iter data of
                  Inl e \<Rightarrow> ([fieldnames], Some e)
                | Inr rows \<Rightarrow> write_rows rt fieldnames rows [fieldnames])
           | _ \<Rightarrow> ([], Some AttributeError)))"

text \<open>\<open>to_csv\<close> itself: the test for no data, the \<open>open\<close> that starts the \<open>try\<close> block,
  the body, and the \<open>except\<close> clause, which turns every exception into the returned text.\<close>

definition to_csv :: "runtime \<Rightarrow> pyval \<Rightarrow> string \<Rightarrow> outputs \<Rightarrow> string \<times> outputs" where
  "to_csv rt data output_path out =
     (if \<not> truthy data then (''No data to convert to CSV'', out)
      else case rt_open rt output_path of
             Some e \<Rightarrow> (''Error creating CSV: '' @ rt_str_exn rt e, out)
           | None \<Rightarrow>
               (case csv_body rt data of
                  (written, None) \<Rightarrow> (output_path, write_file out output_path (Csv written))
                | (written, Some e) \<Rightarrow>
                    (''Error creating CSV: '' @ rt_str_exn rt e, write_file out output_path (Csv written))))"

text \<open>\<open>key.replace(' ', '_').replace('-', '_')\<close>.\<close>

definition replace_char :: "char \<Rightarrow> char \<Rightarrow> string \<Rightarrow> string" where
  "replace_char a b s = map (\<lambda>c. if c = a then b else c) s"

definition safe_key :: "string \<Rightarrow> string" where
  "safe_key key = replace_char (CHR ''-'') (CHR ''_'') (replace_char (CHR '' '') (CHR ''_'') key)"

text \<open>\<open>"  " * indent_level\<close>.\<close>

definition indent_of :: "nat \<Rightarrow> string" where
  "indent_of indent_level = concat (replicate indent_level ''  '')"

text \<open>
  \<open>DataFormatter.dict_to_xml_helper\<close>, with the loop over the items of the dict
  (\<open>helper_items\<close>) and the loop over the items of a list value (\<open>helper_list\<close>). A key
  that is not a str has no \<open>replace\<close>: \<open>AttributeError\<close>.
\<close>

fun dict_to_xml_helper :: "runtime \<Rightarrow> pydict \<Rightarrow> string \<Rightarrow> nat \<Rightarrow> exn + string"
and helper_items :: "runtime \<Rightarrow> pydict \<Rightarrow> nat \<Rightarrow> exn + string"
and helper_list :: "runtime \<Rightarrow> pyval list \<Rightarrow> string \<Rightarrow> nat \<Rightarrow> exn + string"
where
  "dict_to_xml_helper rt d tag indent_level =
     (case helper_items rt d indent_level of
        Inl e \<Rightarrow> Inl e
      | Inr body \<Rightarrow>
          Inr (''<'' @ tag @ ''>\<newline>'' @ body @ indent_of indent_level @ ''</'' @ tag @ ''>''))"
| "helper_items rt [] indent_level = Inr []"
| "helper_items rt ((key, v) # rest) indent_level =
     (case key of
        PStr k \<Rightarrow>
          (case (case v of
                   PDict d' \<Rightarrow>
                     (case dict_to_xml_helper rt d' (safe_key k) (indent_level + 1) of
                        Inl e \<Rightarrow> Inl e
                      | Inr x \<Rightarrow> Inr (indent_of indent_level @ ''  '' @ x @ ''\<newline>''))
                 | PList items \<Rightarrow> helper_list rt items (safe_key k) indent_level
                 | _ \<Rightarrow>
                     Inr (indent_of indent_level @ ''  <'' @ safe_key k @ ''>'' @ py_str rt v
                            @ ''</'' @ safe_key k @ ''>\<newline>'')) of
             Inl e \<Rightarrow> Inl e
           | Inr x \<Rightarrow>
               (case helper_items rt rest indent_level of Inl e \<Rightarrow> Inl e | Inr y \<Rightarrow> Inr (x @ y)))
      | _ \<Rightarrow> Inl AttributeError)"
| "helper_list rt [] tag indent_level = Inr []"
| "helper_list rt (item # items) tag indent_level =
     (case (case item of
              PDict d' \<Rightarrow>
                (case dict_to_xml_helper rt d' tag (indent_level + 1) of
                   Inl e \<Rightarrow> Inl e
                 | Inr x \<Rightarrow> Inr (indent_of indent_level @ ''  '' @ x @ ''\<newline>''))
            | _ \<Rightarrow>
                Inr (indent_of indent_level @ ''  <'' @ tag @ ''>'' @ py_str rt item
                       @ ''</'' @ tag @ ''>\<newline>'')) of
        Inl e \<Rightarrow> Inl e
      | Inr x \<Rightarrow>
          (case helper_list rt items tag indent_level of Inl e \<Rightarrow> Inl e | Inr y \<Rightarrow> Inr (x @ y)))"

text \<open>
  The function \<open>dict_to_xml\<close> inside \<open>DataFormatter.to_xml\<close>, with its two loops
  (\<open>xml_items\<close> over the items of the dict, \<open>xml_list\<close> over the items of a list value),
  and \<open>to_xml\<close> itself.
\<close>

fun xml_list :: "runtime \<Rightarrow> pyval list \<Rightarrow> string \<Rightarrow> exn + string" where
  "xml_list rt [] tag = Inr []"
| "xml_list rt (item # items) tag =
     (case (case item of
              PDict d' \<Rightarrow>
                (case dict_to_xml_helper rt d' tag 2 of
                   Inl e \<Rightarrow> Inl e
                 | Inr x \<Rightarrow> Inr (''  '' @ x @ ''\<newline>''))
            | _ \<Rightarrow> Inr (''  <'' @ tag @ ''>'' @ py_str rt item @ ''</'' @ tag @ ''>\<newline>'')) of
        Inl e \<Rightarrow> Inl e
      | Inr x \<Rightarrow> (case xml_list rt items tag of Inl e \<Rightarrow> Inl e | Inr y \<Rightarrow> Inr (x @ y)))"

fun xml_items :: "runtime \<Rightarrow> pydict \<Rightarrow> exn + string" where
  "xml_items rt [] = Inr []"
| "xml_items rt ((key, v) # rest) =
     (case key of
        PStr k \<Rightarrow>
          (case (case v of
                   PDict d' \<Rightarrow>
                     (case dict_to_xml_helper rt d' (safe_key k) 2 of
                        Inl e \<Rightarrow> Inl e
                      | Inr x \<Rightarrow> Inr (''  '' @ x @ ''\<newline>''))
                 | PList items \<Rightarrow> xml_list rt items (safe_key k)
                 | _ \<Rightarrow>
                     Inr (''  <'' @ safe_key k @ ''>'' @ py_str rt v @ ''</'' @ safe_key k @ ''>\<newline>'')) of
             Inl e \<Rightarrow> Inl e
           | Inr x \<Rightarrow> (case xml_items rt rest of Inl e \<Rightarrow> Inl e | Inr y \<Rightarrow> Inr (x @ y)))
      | _ \<Rightarrow> Inl AttributeError)"

definition dict_to_xml :: "runtime \<Rightarrow> pydict \<Rightarrow> string \<Rightarrow> exn + string" where
  "dict_to_xml rt d root =
     (case xml_items rt d of
        Inl e \<Rightarrow> Inl e
      | Inr body \<Rightarrow> Inr (''<'' @ root @ ''>\<newline>'' @ body @ ''</'' @ root @ ''>''))"

definition xml_declaration :: string where
  "xml_declaration = ''<?xml version=\"1.0\" encoding=\"UTF-8\"?>''"

definition to_xml :: "runtime \<Rightarrow> pydict \<Rightarrow> string \<Rightarrow> exn + string" where
  "to_xml rt data root_name =
     (case dict_to_xml rt data root_name of
        Inl e \<Rightarrow> Inl e
      | Inr x \<Rightarrow> Inr (xml_declaration @ ''\<newline>'' @ x))"

text \<open>\<open>v.split()\<close>: only a str has the method.\<close>

fun py_split :: "pyval \<Rightarrow> exn + string list" where
  "py_split (PStr s) = Inr (split_ws s)"
| "py_split v = Inl AttributeError"

text \<open>
  \<open>DataFormatter.create_ai_training_format\<close>. The dict \<open>features\<close> is built field by
  field: \<open>word_count\<close> first, then \<open>has_tables\<close>, each of which may raise on a value of
  the wrong type.
\<close>

definition create_ai_training_format :: "pydict \<Rightarrow> exn + pydict" where
  "create_ai_training_format data =
     (let ai0 = [(PStr ''input_text'', PStr []), (PStr ''metadata'', PDict []),
                 (PStr ''features'', PDict []), (PStr ''structured_data'', PList [])];
          ai1 = (case map_of data (PStr ''full_text'') of
                   Some t \<Rightarrow> dict_set ai0 (PStr ''input_text'') t | None \<Rightarrow> ai0);
          ai2 = (case map_of data (PStr ''metadata'') of
                   Some m \<Rightarrow> dict_set ai1 (PStr ''metadata'') m | None \<Rightarrow> ai1)
      in case py_split (dict_get data (PStr ''full_text'') (PStr [])) of
           Inl e \<Rightarrow> Inl e
         | Inr ws \<Rightarrow>
             (case (if has_key data (PStr ''tables'')
                    then map_sum id (\<lambda>n. 0 < n) (py_len (dict_get data (PStr ''tables'') (PList [])))
                    else Inr False) of
                Inl e \<Rightarrow> Inl e
              | Inr has_tables \<Rightarrow>
                  (let features =
                         [(PStr ''document_type'', dict_get data (PStr ''document_type'') (PStr ''unknown'')),
                          (PStr ''word_count'', PInt (int (length ws))),
                          (PStr ''has_tables'', PBool has_tables),
                          (PStr ''has_structure'',
                             PBool (has_key data (PStr ''pages'') \<or> has_key data (PStr ''paragraphs'')))];
                       ai3 = dict_set ai2 (PStr ''features'') (PDict features)
                   in Inr (case map_of data (PStr ''tables'') of
                             Some ts \<Rightarrow> dict_set ai3 (PStr ''structured_data'') ts
                           | None \<Rightarrow>
                               (case map_of data (PStr ''data'') of
                                  Some rows \<Rightarrow> dict_set ai3 (PStr ''structured_data'') rows
                                | None \<Rightarrow> ai3)))))"

text \<open>\<open>DataFormatter.get_statistics\<close>.\<close>

definition get_statistics :: "pydict \<Rightarrow> exn + pydict" where
  "get_statistics data =
     (let stats0 = [(PStr ''document_type'', dict_get data (PStr ''document_type'') (PStr ''Unknown'')),
                    (PStr ''total_size'', PInt 0),
                    (PStr ''text_length'', PInt 0),
                    (PStr ''word_count'', PInt 0),
                    (PStr ''has_tables'', PBool False),
                    (PStr ''table_count'', PInt 0)]
      in case (case map_of data (PStr ''full_text'') of
                 None \<Rightarrow> Inr stats0
               | Some t \<Rightarrow>
                   (case py_len t of
                      Inl e \<Rightarrow> Inl e
                    | Inr n \<Rightarrow>
                        (case py_split t of
                           Inl e \<Rightarrow> Inl e
                         | Inr ws \<Rightarrow>
                             Inr (dict_set (dict_set stats0 (PStr ''text_length'') (PInt (int n)))
                                    (PStr ''word_count'') (PInt (int (length ws))))))) of
           Inl e \<Rightarrow> Inl e
         | Inr stats1 \<Rightarrow>
             (case (case map_of data (PStr ''tables'') of
                      None \<Rightarrow> Inr stats1
                    | Some ts \<Rightarrow>
                        (case py_len ts of
                           Inl e \<Rightarrow> Inl e
                         | Inr n \<Rightarrow>
                             Inr (dict_set (dict_set stats1 (PStr ''has_tables'') (PBool True))
                                    (PStr ''table_count'') (PInt (int n))))) of
                Inl e \<Rightarrow> Inl e
              | Inr stats2 \<Rightarrow>
                  Inr (case map_of data (PStr ''total_pages'') of
                         Some n \<Rightarrow> dict_set stats2 (PStr ''total_pages'') n
                       | None \<Rightarrow>
                           (case map_of data (PStr ''total_paragraphs'') of
                              Some n \<Rightarrow> dict_set stats2 (PStr ''total_paragraphs'') n
                            | None \<Rightarrow> stats2))))"

section \<open>Notions the claims use\<close>

text \<open>A value all of whose dict keys, at every depth, are strs.\<close>

fun is_str :: "pyval \<Rightarrow> bool" where
  "is_str (PStr s) = True"
| "is_str v = False"

fun str_keyed :: "pyval \<Rightarrow> bool" where
  "str_keyed (PList xs) = (\<forall>x \<in> set xs. str_keyed x)"
| "str_keyed (PDict d) = (\<forall>kv \<in> set d. is_str (fst kv) \<and> str_keyed (snd kv))"
| "str_keyed v = True"

text \<open>The field \<open>name\<close> of \<open>features\<close> in the dict \<open>create_ai_training_format\<close> returns.\<close>

definition ai_feature :: "pydict \<Rightarrow> string \<Rightarrow> pyval option" where
  "ai_feature ai name =
     (case map_of ai (PStr ''features'') of Some (PDict f) \<Rightarrow> map_of f (PStr name) | _ \<Rightarrow> None)"

text \<open>
  The specification's \<open>units\<close> of a record are its per-unit records: pages, paragraphs,
  lines or sheets. In the records the extractors build these are the fields \<open>pages\<close>
  (PDF), \<open>paragraphs\<close> (Word), \<open>lines\<close> (plain text) and \<open>sheets\<close> (Excel).
\<close>

definition units_field_present :: "pydict \<Rightarrow> bool" where
  "units_field_present data \<longleftrightarrow>
     has_key data (PStr ''pages'') \<or> has_key data (PStr ''paragraphs'')
     \<or> has_key data (PStr ''lines'') \<or> has_key data (PStr ''sheets'')"


text \<open>
  For the rows \<open>to_csv\<close> writes: a nested value is a dict or a list; \<open>json_cells j d\<close> is
  the row \<open>d\<close> with every nested value replaced by its JSON text \<open>j v\<close>; \<open>csv_line\<close> is
  the line of fields written for a row under the given field names.
\<close>

fun is_nested :: "pyval \<Rightarrow> bool" where
  "is_nested (PDict d) = True"
| "is_nested (PList xs) = True"
| "is_nested v = False"

definition json_cells :: "(pyval \<Rightarrow> string) \<Rightarrow> pydict \<Rightarrow> pydict" where
  "json_cells j d = map (\<lambda>kv. (fst kv, if is_nested (snd kv) then PStr (j (snd kv)) else snd kv)) d"

fun csv_line :: "(pyval \<Rightarrow> string) \<Rightarrow> pyval list \<Rightarrow> pyval \<Rightarrow> pyval list" where
  "csv_line j fieldnames (PDict d) = map (\<lambda>f. dict_get (json_cells j d) f (PStr [])) fieldnames"
| "csv_line j fieldnames v = []"

text \<open>
  The JSON text of a value, where \<open>json.dumps\<close> gives one. A row fits the field names
  when it is a dict, each of its keys is a field name, and each of its nested values has
  a JSON text.
\<close>

definition json_text :: "runtime \<Rightarrow> pyval \<Rightarrow> string" where
  "json_text rt v = (case rt_json_dumps rt v of Inr t \<Rightarrow> t | Inl e \<Rightarrow> [])"

fun row_fits :: "runtime \<Rightarrow> pyval list \<Rightarrow> pyval \<Rightarrow> bool" where
  "row_fits rt fieldnames (PDict d) \<longleftrightarrow>
     set (map fst d) \<subseteq> set fieldnames
     \<and> (\<forall>kv \<in> set d. is_nested (snd kv) \<longrightarrow> (case rt_json_dumps rt (snd kv) of Inr t \<Rightarrow> True | Inl e \<Rightarrow> False))"
| "row_fits rt fieldnames v \<longleftrightarrow> False"



text \<open>
  The markup of a text, read the way an XML parser reads the tags the formatter writes.
  A tag runs from \<open><\<close> to the next \<open>>\<close>; \<open>xml_tags\<close> gives the tags of a text in order
  (what stands between \<open><\<close> and \<open>>\<close>), or nothing when a \<open><\<close> is never closed. A name is
  an XML name (for code points below 256). \<open>nest\<close> goes through the tags with the stack
  of the open elements: a tag that starts with \<open>?\<close> is a declaration, one that starts with
  \<open>/\<close> must close the innermost open element, any other must be a name and opens an
  element; the elements opened while no element is open are the top-level ones.
\<close>

function xml_tags :: "string \<Rightarrow> string list option" where
  "xml_tags [] = Some []"
| "xml_tags (c # cs) =
     (if c = CHR ''<'' then
        (if CHR ''>'' \<in> set cs
         then map_option (Cons (takeWhile (\<lambda>x. x \<noteq> CHR ''>'') cs))
                (xml_tags (tl (dropWhile (\<lambda>x. x \<noteq> CHR ''>'') cs)))
         else None)
      else xml_tags cs)"
  by pat_completeness auto
termination
proof (relation "measure length")
  fix c :: char and cs :: string
  have "length (dropWhile (\<lambda>x. x \<noteq> CHR ''>'') cs) \<le> length cs"
    by (rule length_dropWhile_le)
  then show "(tl (dropWhile (\<lambda>x. x \<noteq> CHR ''>'') cs), c # cs) \<in> measure length"
    by simp
qed simp_all

definition name_start :: "char \<Rightarrow> bool" where
  "name_start c \<longleftrightarrow> is_ascii_letter c \<or> c = CHR ''_'' \<or> c = CHR '':''
     \<or> (192 \<le> ord c \<and> ord c \<noteq> 215 \<and> ord c \<noteq> 247)"

definition name_char :: "char \<Rightarrow> bool" where
  "name_char c \<longleftrightarrow> name_start c \<or> is_digit c \<or> c = CHR ''-'' \<or> c = CHR ''.'' \<or> ord c = 183"

definition xml_name :: "string \<Rightarrow> bool" where
  "xml_name n \<longleftrightarrow> (case n of [] \<Rightarrow> False | c # cs \<Rightarrow> name_start c \<and> (\<forall>x \<in> set cs. name_char x))"

fun nest :: "string list \<Rightarrow> string list \<Rightarrow> string list \<Rightarrow> string list option" where
  "nest st tops [] = (if st = [] then Some (rev tops) else None)"
| "nest st tops (t # ts) =
     (case t of
        [] \<Rightarrow> None
      | c # n \<Rightarrow>
          if c = CHR ''?'' then nest st tops ts
          else if c = CHR ''/'' then
            (case st of [] \<Rightarrow> None | m # st' \<Rightarrow> if m = n then nest st' tops ts else None)
          else if xml_name t then nest (t # st) (if st = [] then t # tops else tops) ts
          else None)"

definition top_level_elements :: "string \<Rightarrow> string list option" where
  "top_level_elements s = (case xml_tags s of None \<Rightarrow> None | Some ts \<Rightarrow> nest [] [] ts)"

text \<open>
  A record whose rendering holds no markup of its own: every key, with its spaces and
  hyphens replaced, is a name, and no text put between two tags holds a \<open><\<close>. The texts
  are the ones \<open>to_xml\<close> prints: a value that is neither a dict nor a list, and an item of
  a list that is not a dict.
\<close>

definition plain_text :: "runtime \<Rightarrow> pyval \<Rightarrow> bool" where
  "plain_text rt v \<longleftrightarrow> CHR ''<'' \<notin> set (py_str rt v)"

fun name_key :: "pyval \<Rightarrow> bool" where
  "name_key (PStr k) = xml_name (safe_key k)"
| "name_key v = False"

fun xml_safe :: "runtime \<Rightarrow> pyval \<Rightarrow> bool"
and xml_safe_item :: "runtime \<Rightarrow> pyval \<Rightarrow> bool" where
  "xml_safe rt (PDict d) = (\<forall>kv \<in> set d. name_key (fst kv) \<and> xml_safe rt (snd kv))"
| "xml_safe rt (PList xs) = (\<forall>x \<in> set xs. xml_safe_item rt x)"
| "xml_safe rt PNone = plain_text rt PNone"
| "xml_safe rt (PBool b) = plain_text rt (PBool b)"
| "xml_safe rt (PInt i) = plain_text rt (PInt i)"
| "xml_safe rt (PStr s) = plain_text rt (PStr s)"
| "xml_safe rt (PObj t b) = plain_text rt (PObj t b)"
| "xml_safe_item rt (PDict d) = (\<forall>kv \<in> set d. name_key (fst kv) \<and> xml_safe rt (snd kv))"
| "xml_safe_item rt (PList xs) = plain_text rt (PList xs)"
| "xml_safe_item rt PNone = plain_text rt PNone"
| "xml_safe_item rt (PBool b) = plain_text rt (PBool b)"
| "xml_safe_item rt (PInt i) = plain_text rt (PInt i)"
| "xml_safe_item rt (PStr s) = plain_text rt (PStr s)"
| "xml_safe_item rt (PObj t b) = plain_text rt (PObj t b)"

text \<open>A text that can stand inside an element: its tags are read to the end and leave
  the stack of open elements as it was.\<close>

definition inner :: "string \<Rightarrow> bool" where
  "inner s \<longleftrightarrow> (\<exists>ts. xml_tags s = Some ts
     \<and> (\<forall>st tops r. st \<noteq> [] \<longrightarrow> nest st tops (ts @ r) = nest st tops r))"


section \<open>The cleaner\<close>

text \<open>
  \<open>re.sub(pattern, repl, text)\<close> for a pattern that matches no empty string: the text is
  read from the left; where the pattern matches, the match is replaced by \<open>repl\<close> and
  reading goes on behind it; elsewhere the character is kept. A pattern is given by its
  matcher: the length of its match at the start of the rest of the text (0 for no match),
  which may look at the character before (\<open>None\<close> at the start of the text), as \<open>\b\<close> does.
\<close>

type_synonym matcher = "char option \<Rightarrow> string \<Rightarrow> nat"

function re_sub :: "matcher \<Rightarrow> string \<Rightarrow> char option \<Rightarrow> string \<Rightarrow> string" where
  "re_sub m repl prev [] = []"
| "re_sub m repl prev (c # cs) =
     (if m prev (c # cs) = 0 then c # re_sub m repl (Some c) cs
      else repl @ re_sub m repl (Some (last (take (m prev (c # cs)) (c # cs)))) (drop (m prev (c # cs)) (c # cs)))"
  by pat_completeness auto
termination
  by (relation "measure (\<lambda>(m, repl, prev, s). length s)") auto

text \<open>
  The URL pattern
  \<open>http[s]?://(?:[a-zA-Z]|[0-9]|[$-_@.&+]|[!*\\(\\),]|(?:%[0-9a-fA-F][0-9a-fA-F]))+\<close>.
  \<open>url_step\<close> is one round of the group: the alternatives in their order, the first that
  matches wins. The class \<open>[$-_@.&+]\<close> holds the range from \<open>$\<close> (36) to \<open>_\<close> (95).
\<close>

definition is_hex :: "char \<Rightarrow> bool" where
  "is_hex c \<longleftrightarrow> is_digit c \<or> (97 \<le> ord c \<and> ord c \<le> 102) \<or> (65 \<le> ord c \<and> ord c \<le> 70)"

fun url_step :: "string \<Rightarrow> nat" where
  "url_step [] = 0"
| "url_step (c # cs) =
     (if is_ascii_letter c then 1
      else if is_digit c then 1
      else if (36 \<le> ord c \<and> ord c \<le> 95) \<or> c \<in> set ''@.&+'' then 1
      else if c \<in> {CHR ''!'', CHR ''*'', CHR 0x5C, CHR ''('', CHR '')'', CHR '',''} then 1
      else if c = CHR ''%'' \<and> (case cs of a # b # _ \<Rightarrow> is_hex a \<and> is_hex b | _ \<Rightarrow> False) then 3
      else 0)"

text \<open>The group repeated as often as it matches.\<close>

function url_group :: "string \<Rightarrow> nat" where
  "url_group s = (if url_step s = 0 then 0 else url_step s + url_group (drop (url_step s) s))"
  by pat_completeness auto
termination
  by (relation "measure length") (auto simp: neq_Nil_conv, case_tac s, auto)

definition starts_with :: "string \<Rightarrow> string \<Rightarrow> bool" where
  "starts_with p s \<longleftrightarrow> take (length p) s = p"

definition match_url :: matcher where
  "match_url prev s =
     (if starts_with ''https://'' s \<and> url_group (drop 8 s) \<noteq> 0 then 8 + url_group (drop 8 s)
      else if starts_with ''http://'' s \<and> url_group (drop 7 s) \<noteq> 0 then 7 + url_group (drop 7 s)
      else 0)"

text \<open>
  The e-mail pattern \<open>\S+@\S+\<close>. From a position inside a run of characters that are not
  whitespace, the first \<open>\S+\<close> takes the run to its end and gives characters back until an
  \<open>@\<close> follows that has a character of the run behind it; the last \<open>\S+\<close> then takes the
  rest of the run. So the pattern matches where the run has an \<open>@\<close> that is neither its
  first nor its last character, and the match is the run.
\<close>

definition match_email :: matcher where
  "match_email prev s =
     (let run = takeWhile (\<lambda>c. \<not> is_space c) s
      in if CHR ''@'' \<in> set (butlast (tl run)) then length run else 0)"

text \<open>
  The phone patterns \<open>\b\d{3}[-.]?\d{3}[-.]?\d{4}\b\<close> and \<open>\b\d{10}\b\<close>. \<open>digits n s\<close> is
  the rest of \<open>s\<close> behind \<open>n\<close> digits; \<open>opt_sep\<close> skips one \<open>-\<close> or \<open>.\<close> if there is one
  (giving it back would leave a separator where a digit must follow). \<open>\b\<close> holds between
  two characters of which exactly one is a word character, the ends of the text counting
  as not a word character.
\<close>

definition word_before :: "char option \<Rightarrow> bool" where
  "word_before prev = (case prev of None \<Rightarrow> False | Some c \<Rightarrow> is_word c)"

definition word_at :: "string \<Rightarrow> bool" where
  "word_at s = (case s of [] \<Rightarrow> False | c # _ \<Rightarrow> is_word c)"

definition digits :: "nat \<Rightarrow> string \<Rightarrow> string option" where
  "digits n s = (if n \<le> length s \<and> (\<forall>c \<in> set (take n s). is_digit c) then Some (drop n s) else None)"

definition opt_sep :: "string \<Rightarrow> string" where
  "opt_sep s = (case s of [] \<Rightarrow> [] | c # cs \<Rightarrow> if c = CHR ''-'' \<or> c = CHR ''.'' then cs else s)"

definition match_phone :: matcher where
  "match_phone prev s =
     (if word_before prev = word_at s then 0
      else case digits 3 s of
             None \<Rightarrow> 0
           | Some s1 \<Rightarrow>
               (case digits 3 (opt_sep s1) of
                  None \<Rightarrow> 0
                | Some s2 \<Rightarrow>
                    (case digits 4 (opt_sep s2) of
                       None \<Rightarrow> 0
                     | Some s3 \<Rightarrow> if word_at s3 then 0 else length s - length s3)))"

definition match_ten_digits :: matcher where
  "match_ten_digits prev s =
     (if word_before prev = word_at s then 0
      else case digits 10 s of
             None \<Rightarrow> 0
           | Some s1 \<Rightarrow> if word_at s1 then 0 else 10)"

text \<open>\<open>[^a-zA-Z0-9\s]\<close>, \<open>\d+\<close> and \<open>\s+\<close>.\<close>

definition match_special :: matcher where
  "match_special prev s =
     (case s of [] \<Rightarrow> 0
      | c # _ \<Rightarrow> if is_ascii_letter c \<or> is_digit c \<or> is_space c then 0 else 1)"

definition match_digits :: matcher where
  "match_digits prev s = length (takeWhile is_digit s)"

definition match_spaces :: matcher where
  "match_spaces prev s = length (takeWhile is_space s)"

text \<open>
  \<open>DataCleaner.clean_text\<close>. The options are a dict from names to bools, or \<open>None\<close>, which
  stands for the default dict; \<open>opt\<close> is \<open>options.get(name, default)\<close>.
\<close>

type_synonym options = "(string \<times> bool) list"

definition default_options :: options where
  "default_options =
     [(''remove_extra_spaces'', True), (''remove_special_chars'', False), (''remove_numbers'', False),
      (''lowercase'', False), (''remove_urls'', True), (''remove_emails'', False),
      (''remove_phone_numbers'', False)]"

definition opt :: "options \<Rightarrow> string \<Rightarrow> bool \<Rightarrow> bool" where
  "opt options name dflt = (case map_of options name of Some b \<Rightarrow> b | None \<Rightarrow> dflt)"

definition clean_text :: "string \<Rightarrow> options option \<Rightarrow> string" where
  "clean_text text options =
     (let options = (case options of None \<Rightarrow> default_options | Some d \<Rightarrow> d);
          t1 = (if opt options ''remove_urls'' True then re_sub match_url [] None text else text);
          t2 = (if opt options ''remove_emails'' False then re_sub match_email [] None t1 else t1);
          t3 = (if opt options ''remove_phone_numbers'' False
                then re_sub match_ten_digits [] None (re_sub match_phone [] None t2) else t2);
          t4 = (if opt options ''remove_special_chars'' False then re_sub match_special [] None t3 else t3);
          t5 = (if opt options ''remove_numbers'' False then re_sub match_digits [] None t4 else t4);
          t6 = (if opt options ''lowercase'' False then lower t5 else t5)
      in if opt options ''remove_extra_spaces'' True then strip (re_sub match_spaces '' '' None t6) else t6)"


section \<open>The application\<close>

text \<open>
  The four extractors, as \<open>process_file\<close> uses them: each gives the record of a file.
  (The extractors themselves are modelled in the next section.)
\<close>

record converters =
  pdf_extract :: "string \<Rightarrow> pydict"
  word_extract :: "string \<Rightarrow> pydict"
  excel_extract :: "string \<Rightarrow> pydict"
  text_extract :: "string \<Rightarrow> pydict"

text \<open>\<open>os.path.join(a, b)\<close> on a POSIX system, and the output directory.\<close>

definition path_join :: "string \<Rightarrow> string \<Rightarrow> string" where
  "path_join a b =
     (if starts_with ''/'' b then b
      else if a = [] \<or> last a = CHR ''/'' then a @ b
      else a @ ''/'' @ b)"

definition output_dir :: string where
  "output_dir = ''output''"

text \<open>
  \<open>AIDataConverter._extract_tabular_data\<close>. \<open>zip_rows\<close> is the list comprehension
  \<open>[dict(zip(headers, row)) for row in rows]\<close>.
\<close>

fun zip_rows :: "pyval \<Rightarrow> pyval list \<Rightarrow> exn + pyval list" where
  "zip_rows headers [] = Inr []"
| "zip_rows headers (row # rows) =
     (case py_iter headers of
        Inl e \<Rightarrow> Inl e
      | Inr hs \<Rightarrow>
          (case py_iter row of
             Inl e \<Rightarrow> Inl e
           | Inr cells \<Rightarrow>
               (case dict_of_pairs [] (zip hs cells) of
                  Inl e \<Rightarrow> Inl e
                | Inr d \<Rightarrow>
                    (case zip_rows headers rows of
                       Inl e \<Rightarrow> Inl e
                     | Inr ds \<Rightarrow> Inr (PDict d # ds)))))"

definition first_table_rows :: "pyval \<Rightarrow> exn + pyval" where
  "first_table_rows first_table =
     (if \<not> truthy first_table then Inr (PList [])
      else case py_len first_table of
             Inl e \<Rightarrow> Inl e
           | Inr n \<Rightarrow>
               if n > 1 then
                 (case py_first first_table of
                    Inl e \<Rightarrow> Inl e
                  | Inr headers \<Rightarrow>
                      (case py_rest first_table of
                         Inl e \<Rightarrow> Inl e
                       | Inr rows \<Rightarrow>
                           (case py_iter rows of
                              Inl e \<Rightarrow> Inl e
                            | Inr rs \<Rightarrow> map_sum id PList (zip_rows headers rs))))
               else Inr (PList []))"

definition extract_tabular_data :: "pydict \<Rightarrow> exn + pyval" where
  "extract_tabular_data data =
     (case map_of data (PStr ''data'') of
        Some rows \<Rightarrow> Inr rows
      | None \<Rightarrow>
          (case map_of data (PStr ''all_data'') of
             Some rows \<Rightarrow> Inr rows
           | None \<Rightarrow>
               (case map_of data (PStr ''tables'') of
                  None \<Rightarrow> Inr (PList [])
                | Some tables \<Rightarrow>
                    if truthy tables then
                      (case py_first tables of
                         Inl e \<Rightarrow> Inl e
                       | Inr table \<Rightarrow>
                           (case py_field table ''data'' of
                              Inl e \<Rightarrow> Inl e
                            | Inr first_table \<Rightarrow> first_table_rows first_table))
                    else Inr (PList []))))"

text \<open>
  \<open>AIDataConverter._format_statistics\<close>. \<open>title\<close> is \<open>str.title()\<close> on ASCII text, which
  the keys of the statistics are: a letter behind a letter is put in lower case, any other
  letter in upper case.
\<close>

definition upper_ascii :: "char \<Rightarrow> char" where
  "upper_ascii c = (if 97 \<le> ord c \<and> ord c \<le> 122 then char_of (ord c - 32) else c)"

fun title_from :: "bool \<Rightarrow> string \<Rightarrow> string" where
  "title_from cased [] = []"
| "title_from cased (c # cs) =
     (if is_ascii_letter c then (if cased then lower_char c else upper_ascii c) # title_from True cs
      else c # title_from False cs)"

definition title :: "string \<Rightarrow> string" where
  "title s = title_from False s"

fun statistics_lines :: "runtime \<Rightarrow> pydict \<Rightarrow> exn + string" where
  "statistics_lines rt [] = Inr []"
| "statistics_lines rt ((key, v) # rest) =
     (case key of
        PStr k \<Rightarrow>
          (case statistics_lines rt rest of
             Inl e \<Rightarrow> Inl e
           | Inr ls \<Rightarrow>
               Inr (''**'' @ title (replace_char (CHR ''_'') (CHR '' '') k) @ '':** '' @ py_str rt v
                      @ ''\<newline>'' @ ls))
      | _ \<Rightarrow> Inl AttributeError)"

definition format_statistics :: "runtime \<Rightarrow> pydict \<Rightarrow> exn + string" where
  "format_statistics rt stats =
     map_sum id (\<lambda>ls. ''**Document Statistics**'' @ ''\<newline>'' @ ''\<newline>'' @ ls) (statistics_lines rt stats)"

text \<open>
  \<open>AIDataConverter.process_file\<close>. The result is the tuple \<open>(status_message, preview,
  download_path, statistics)\<close> together with the files of the output directory after the
  call. \<open>failed\<close> is what the \<open>except\<close> clause around the whole body returns.
\<close>

type_synonym file_result = "pyval \<times> string \<times> string option \<times> string"

definition failed :: "runtime \<Rightarrow> exn \<Rightarrow> file_result" where
  "failed rt e = (PStr (''Error processing file: '' @ rt_str_exn rt e), [], None, [])"

definition success_msg :: "string \<Rightarrow> string \<Rightarrow> pyval" where
  "success_msg file_path output_path =
     PStr (''Successfully processed: '' @ basename file_path @ ''\<newline>'' @ ''Output saved to: '' @ output_path)"

definition preview_of :: "string \<Rightarrow> string" where
  "preview_of text = (if length text > 2000 then take 2000 text @ ''...'' else text)"

text \<open>The dispatch on the extension.\<close>

definition converter_for :: "converters \<Rightarrow> string \<Rightarrow> (string \<Rightarrow> pydict) option" where
  "converter_for cv ext =
     (if ext = ''.pdf'' then Some (pdf_extract cv)
      else if ext \<in> set [''.docx'', ''.doc''] then Some (word_extract cv)
      else if ext \<in> set [''.xlsx'', ''.xls''] then Some (excel_extract cv)
      else if ext \<in> set [''.txt'', ''.csv''] then Some (text_extract cv)
      else None)"

text \<open>
  The cleaning step. \<open>process_file\<close> passes the three flags it is given and switches
  \<open>remove_special_chars\<close> and \<open>remove_numbers\<close> off. A \<open>full_text\<close> that is not a str
  makes the first step that is switched on raise.
\<close>

definition cleaning_options :: "bool \<Rightarrow> bool \<Rightarrow> bool \<Rightarrow> options" where
  "cleaning_options remove_urls remove_extra_spaces lowercase =
     [(''remove_extra_spaces'', remove_extra_spaces), (''remove_urls'', remove_urls),
      (''lowercase'', lowercase), (''remove_special_chars'', False), (''remove_numbers'', False)]"

definition clean_record :: "bool \<Rightarrow> bool \<Rightarrow> bool \<Rightarrow> bool \<Rightarrow> pydict \<Rightarrow> exn + pydict" where
  "clean_record clean remove_urls remove_extra_spaces lowercase extracted_data =
     (case map_of extracted_data (PStr ''full_text'') of
        None \<Rightarrow> Inr extracted_data
      | Some v \<Rightarrow>
          if \<not> clean then Inr extracted_data
          else (case v of
                  PStr t \<Rightarrow>
                    Inr (dict_set extracted_data (PStr ''full_text'')
                           (PStr (clean_text t (Some (cleaning_options remove_urls remove_extra_spaces lowercase)))))
                | _ \<Rightarrow>
                    if remove_urls then Inl TypeError
                    else if lowercase then Inl AttributeError
                    else if remove_extra_spaces then Inl TypeError
                    else Inr extracted_data))"

text \<open>\<open>with open(output_path, 'w') as f: f.write(text)\<close>: the exception \<open>open\<close> raises, or
  the files with the text written.\<close>

definition write_text :: "runtime \<Rightarrow> outputs \<Rightarrow> string \<Rightarrow> string \<Rightarrow> exn + outputs" where
  "write_text rt out output_path text =
     (case rt_open rt output_path of
        Some e \<Rightarrow> Inl e
      | None \<Rightarrow> Inr (write_file out output_path (Text text)))"

text \<open>The branch on the output format, from \<open>base_name = ...\<close> to the final \<open>return\<close>.
  An exception goes to the \<open>except\<close> clause of \<open>process_file\<close> (\<open>failed\<close>). The text
  \<open>to_csv\<close> returns is dropped. With a format that is none of the four, \<open>output_path\<close> is
  never assigned and the success message raises \<open>UnboundLocalError\<close>.\<close>

definition format_output ::
  "runtime \<Rightarrow> outputs \<Rightarrow> string \<Rightarrow> string \<Rightarrow> pydict \<Rightarrow> string \<Rightarrow> file_result \<times> outputs" where
  "format_output rt out file_path output_format extracted_data stats_text =
     (let base_name = splitext_root (basename file_path) in
      if output_format = ''JSON'' then
        (let output_path = path_join output_dir (base_name @ ''_converted.json'') in
         case to_json rt extracted_data True of
           Inl e \<Rightarrow> (failed rt e, out)
         | Inr json_output \<Rightarrow>
             (case write_text rt out output_path json_output of
                Inl e \<Rightarrow> (failed rt e, out)
              | Inr out' \<Rightarrow>
                  ((success_msg file_path output_path, preview_of json_output, Some output_path, stats_text),
                   out')))
      else if output_format = ''CSV'' then
        (let output_path = path_join output_dir (base_name @ ''_converted.csv'') in
         case extract_tabular_data extracted_data of
           Inl e \<Rightarrow> (failed rt e, out)
         | Inr csv_data \<Rightarrow>
             if truthy csv_data then
               (let out' = snd (to_csv rt csv_data output_path out) in
                case py_len csv_data of
                  Inl e \<Rightarrow> (failed rt e, out')
                | Inr n \<Rightarrow>
                    ((success_msg file_path output_path, ''CSV file created with '' @ str_nat n @ '' rows'',
                      Some output_path, stats_text), out'))
             else ((PStr ''No tabular data found for CSV export'', [], None, stats_text), out))
      else if output_format = ''XML'' then
        (let output_path = path_join output_dir (base_name @ ''_converted.xml'') in
         case to_xml rt extracted_data ''document'' of
           Inl e \<Rightarrow> (failed rt e, out)
         | Inr xml_output \<Rightarrow>
             (case write_text rt out output_path xml_output of
                Inl e \<Rightarrow> (failed rt e, out)
              | Inr out' \<Rightarrow>
                  ((success_msg file_path output_path, preview_of xml_output, Some output_path, stats_text),
                   out')))
      else if output_format = ''AI Training Format'' then
        (let output_path = path_join output_dir (base_name @ ''_ai_training.json'') in
         case create_ai_training_format extracted_data of
           Inl e \<Rightarrow> (failed rt e, out)
         | Inr ai_format \<Rightarrow>
             (case to_json rt ai_format True of
                Inl e \<Rightarrow> (failed rt e, out)
              | Inr json_output \<Rightarrow>
                  (case write_text rt out output_path json_output of
                     Inl e \<Rightarrow> (failed rt e, out)
                   | Inr out' \<Rightarrow>
                       ((success_msg file_path output_path, preview_of json_output, Some output_path,
                         stats_text), out'))))
      else (failed rt UnboundLocalError, out))"

definition process_file ::
  "runtime \<Rightarrow> converters \<Rightarrow> files \<Rightarrow> outputs \<Rightarrow> string \<Rightarrow> string \<Rightarrow> bool \<Rightarrow> bool \<Rightarrow> bool \<Rightarrow> bool
     \<Rightarrow> file_result \<times> outputs" where
  "process_file rt cv fs out file_path output_format clean remove_urls remove_extra_spaces lowercase =
     (case validate_file (rt_size_mb rt) fs file_path of
        (is_valid, validation_msg) \<Rightarrow>
          if \<not> is_valid then ((PStr validation_msg, [], None, []), out)
          else
            (let ext = lower (splitext_ext file_path) in
             case converter_for cv ext of
               None \<Rightarrow> ((PStr (''Unsupported file type: '' @ ext), [], None, []), out)
             | Some extract \<Rightarrow>
                 (let extracted_data = extract file_path in
                  case map_of extracted_data (PStr ''error'') of
                    Some err \<Rightarrow> ((err, [], None, []), out)
                  | None \<Rightarrow>
                      (case clean_record clean remove_urls remove_extra_spaces lowercase extracted_data of
                         Inl e \<Rightarrow> (failed rt e, out)
                       | Inr cleaned \<Rightarrow>
                           (case get_statistics cleaned of
                              Inl e \<Rightarrow> (failed rt e, out)
                            | Inr stats \<Rightarrow>
                                (case format_statistics rt stats of
                                   Inl e \<Rightarrow> (failed rt e, out)
                                 | Inr stats_text \<Rightarrow>
                                     format_output rt out file_path output_format cleaned stats_text))))))"






text \<open>One row of a table zipped against the header row: \<open>dict(zip(headers, row))\<close> for a
  header and a row that are lists.\<close>

fun zipped_row :: "pyval list \<Rightarrow> pyval \<Rightarrow> pyval" where
  "zipped_row hs (PList cells) = PDict (fold (\<lambda>kv acc. dict_set acc (fst kv) (snd kv)) (zip hs cells) [])"
| "zipped_row hs v = PNone"















section \<open>The extractors\<close>

text \<open>
  The extractors read files through parsing libraries. What a library call gives is taken
  as given: each call either returns a value or raises an exception.

  \<^item> A PDF opened by \<open>fitz.open\<close>: for each page the text \<open>get_text()\<close> returns (or the
    exception raised on the way), the dict \<open>metadata\<close>, and the exception \<open>close()\<close>
    raises, if it does.
  \<^item> A Word document opened by \<open>Document\<close>: the paragraphs with their text and the name
    of their style, the tables as grids of cell texts (a table may raise while it is
    read), and the core properties.
  \<^item> A sheet read by \<open>pandas.read_excel\<close>: its numbers of rows and columns, its column
    names, its rows as dicts, and the statistics pandas computes on it.
\<close>

record pdf_document =
  pdf_page_texts :: "(exn + string) list"
  pdf_metadata :: "exn + pydict"
  pdf_close :: "exn option"

record core_properties =
  cp_title :: pyval
  cp_author :: pyval
  cp_subject :: pyval
  cp_keywords :: pyval
  cp_created :: pyval
  cp_modified :: pyval
  cp_last_modified_by :: pyval

record word_document =
  wd_paragraphs :: "exn + (string \<times> (exn + string)) list"
  wd_tables :: "exn + (exn + string list list) list"
  wd_core_properties :: "exn + core_properties"

record data_frame =
  df_len :: nat
  df_columns :: "pyval list"
  df_records :: "pyval list"
  df_null_values :: pyval
  df_data_types :: pyval
  df_numeric_summary :: "pyval option"

text \<open>
  The library calls: \<open>fitz.open(path)\<close>; the pages of \<open>pdfplumber.open(path)\<close>, each with
  what \<open>extract_tables()\<close> gives; \<open>Document(path)\<close>; the sheet names of
  \<open>pd.ExcelFile(path)\<close>; \<open>pd.read_excel(path, sheet_name)\<close>; the encoding
  \<open>_detect_encoding\<close> finds (it never raises); the text \<open>open(path, 'r', encoding).read()\<close>
  returns; and the field names (\<open>None\<close> for an empty file) and rows a \<open>csv.DictReader\<close>
  reads from the file.
\<close>

record library =
  fitz_open :: "string \<Rightarrow> exn + pdf_document"
  pdfplumber_pages :: "string \<Rightarrow> exn + (exn + pyval list) list"
  docx_document :: "string \<Rightarrow> exn + word_document"
  excel_sheet_names :: "string \<Rightarrow> exn + pyval list"
  read_excel :: "string \<Rightarrow> pyval \<Rightarrow> exn + data_frame"
  detect_encoding :: "string \<Rightarrow> string"
  read_text :: "string \<Rightarrow> string \<Rightarrow> exn + string"
  read_csv :: "string \<Rightarrow> string \<Rightarrow> exn + (pyval list option \<times> pyval list)"

text \<open>\<open>s.split(c)\<close>, \<open>s.endswith(suffix)\<close>, and \<open>str.upper()\<close> (the two letters 0xB5 and
  0xFF, whose capitals have code points above 255, are left as they are).\<close>

fun split_on :: "char \<Rightarrow> string \<Rightarrow> string list" where
  "split_on c [] = [[]]"
| "split_on c (x # xs) =
     (if x = c then [] # split_on c xs
      else (case split_on c xs of [] \<Rightarrow> [[x]] | p # ps \<Rightarrow> (x # p) # ps))"

definition ends_with :: "string \<Rightarrow> string \<Rightarrow> bool" where
  "ends_with suffix s \<longleftrightarrow> starts_with (rev suffix) (rev s)"

definition upper_char :: "char \<Rightarrow> string" where
  "upper_char c =
     (if (97 \<le> ord c \<and> ord c \<le> 122) \<or> (224 \<le> ord c \<and> ord c \<le> 254 \<and> ord c \<noteq> 247)
      then [char_of (ord c - 32)]
      else if ord c = 223 then ''SS''
      else [c])"

definition upper :: "string \<Rightarrow> string" where
  "upper s = concat (map upper_char s)"

definition extension_upper :: "string \<Rightarrow> pyval" where
  "extension_upper file_path = PStr (upper (last (split_on (CHR ''.'') file_path)))"

text \<open>The dict an \<open>except\<close> clause of an extractor returns.\<close>

definition error_record :: "runtime \<Rightarrow> string \<Rightarrow> string \<Rightarrow> exn \<Rightarrow> pydict" where
  "error_record rt kind document_type e =
     [(PStr ''error'', PStr (''Failed to extract '' @ kind @ '': '' @ rt_str_exn rt e)),
      (PStr ''document_type'', PStr document_type)]"

subsection \<open>PDF\<close>

text \<open>The loop over the pages in \<open>PDFConverter.extract\<close>: the list \<open>pages_data\<close> and the
  list \<open>full_text\<close>.\<close>

fun pdf_pages :: "(exn + string) list \<Rightarrow> nat \<Rightarrow> exn + (pyval list \<times> string list)" where
  "pdf_pages [] page_num = Inr ([], [])"
| "pdf_pages (t # ts) page_num =
     (case t of
        Inl e \<Rightarrow> Inl e
      | Inr text \<Rightarrow>
          (case pdf_pages ts (page_num + 1) of
             Inl e \<Rightarrow> Inl e
           | Inr (pages_data, full_text) \<Rightarrow>
               Inr (PDict [(PStr ''page_number'', PInt (int (page_num + 1))),
                           (PStr ''text'', PStr text),
                           (PStr ''word_count'', PInt (int (length (split_ws text))))] # pages_data,
                    text # full_text)))"

text \<open>\<open>PDFConverter._extract_tables\<close>: the loop over the tables of a page and the loop
  over the pages. An exception ends both loops; the tables found so far are returned.\<close>

fun pdf_page_tables :: "nat \<Rightarrow> pyval list \<Rightarrow> nat \<Rightarrow> pyval list \<Rightarrow> pyval list \<times> exn option" where
  "pdf_page_tables page_num [] table_idx tables_data = (tables_data, None)"
| "pdf_page_tables page_num (table # tables) table_idx tables_data =
     (if truthy table then
        (case py_len table of
           Inl e \<Rightarrow> (tables_data, Some e)
         | Inr n_rows \<Rightarrow>
             (case py_first table of
                Inl e \<Rightarrow> (tables_data, Some e)
              | Inr row \<Rightarrow>
                  (case py_len row of
                     Inl e \<Rightarrow> (tables_data, Some e)
                   | Inr n_columns \<Rightarrow>
                       pdf_page_tables page_num tables (table_idx + 1)
                         (tables_data @
                            [PDict [(PStr ''page'', PInt (int (page_num + 1))),
                                    (PStr ''table_index'', PInt (int (table_idx + 1))),
                                    (PStr ''rows'', PInt (int n_rows)),
                                    (PStr ''columns'', PInt (int n_columns)),
                                    (PStr ''data'', table)]]))))
      else pdf_page_tables page_num tables (table_idx + 1) tables_data)"

fun pdf_all_tables :: "(exn + pyval list) list \<Rightarrow> nat \<Rightarrow> pyval list \<Rightarrow> pyval list" where
  "pdf_all_tables [] page_num tables_data = tables_data"
| "pdf_all_tables (page # pages) page_num tables_data =
     (case page of
        Inl e \<Rightarrow> tables_data
      | Inr tables \<Rightarrow>
          (case pdf_page_tables page_num tables 0 tables_data of
             (tables_data', Some e) \<Rightarrow> tables_data'
           | (tables_data', None) \<Rightarrow> pdf_all_tables pages (page_num + 1) tables_data'))"

definition pdf_extract_tables :: "library \<Rightarrow> string \<Rightarrow> pyval list" where
  "pdf_extract_tables lib file_path =
     (case pdfplumber_pages lib file_path of
        Inl e \<Rightarrow> []
      | Inr pages \<Rightarrow> pdf_all_tables pages 0 [])"

text \<open>\<open>PDFConverter.get_metadata\<close>.\<close>

definition pdf_get_metadata :: "pdf_document \<Rightarrow> exn + pydict" where
  "pdf_get_metadata doc =
     (case pdf_metadata doc of
        Inl e \<Rightarrow> Inl e
      | Inr metadata \<Rightarrow>
          Inr [(PStr ''title'', dict_get metadata (PStr ''title'') (PStr ''N/A'')),
               (PStr ''author'', dict_get metadata (PStr ''author'') (PStr ''N/A'')),
               (PStr ''subject'', dict_get metadata (PStr ''subject'') (PStr ''N/A'')),
               (PStr ''creator'', dict_get metadata (PStr ''creator'') (PStr ''N/A'')),
               (PStr ''producer'', dict_get metadata (PStr ''producer'') (PStr ''N/A'')),
               (PStr ''creation_date'', dict_get metadata (PStr ''creationDate'') (PStr ''N/A'')),
               (PStr ''modification_date'', dict_get metadata (PStr ''modDate'') (PStr ''N/A''))])"

text \<open>\<open>PDFConverter.extract\<close>: the body of its \<open>try\<close> block, and the method with its
  \<open>except Exception\<close> clause.\<close>

definition pdf_try :: "library \<Rightarrow> string \<Rightarrow> exn + pydict" where
  "pdf_try lib file_path =
     (case fitz_open lib file_path of
        Inl e \<Rightarrow> Inl e
      | Inr doc \<Rightarrow>
          (case pdf_pages (pdf_page_texts doc) 0 of
             Inl e \<Rightarrow> Inl e
           | Inr (pages_data, full_text) \<Rightarrow>
               (let tables = pdf_extract_tables lib file_path in
                case pdf_get_metadata doc of
                  Inl e \<Rightarrow> Inl e
                | Inr metadata \<Rightarrow>
                    (let result =
                           [(PStr ''document_type'', PStr ''PDF''),
                            (PStr ''total_pages'', PInt (int (length (pdf_page_texts doc)))),
                            (PStr ''full_text'', PStr (join (''\<newline>'' @ ''\<newline>'') full_text)),
                            (PStr ''pages'', PList pages_data),
                            (PStr ''tables'', PList tables),
                            (PStr ''metadata'', PDict metadata)]
                     in case pdf_close doc of Some e \<Rightarrow> Inl e | None \<Rightarrow> Inr result))))"

definition PDFConverter_extract :: "runtime \<Rightarrow> library \<Rightarrow> string \<Rightarrow> exn + pydict" where
  "PDFConverter_extract rt lib file_path =
     (case pdf_try lib file_path of
        Inr result \<Rightarrow> Inr result
      | Inl e \<Rightarrow> Inr (error_record rt ''PDF'' ''PDF'' e))"


subsection \<open>Word\<close>

text \<open>The loop over the paragraphs in \<open>WordConverter.extract\<close>: paragraphs whose text is
  blank are skipped.\<close>

fun word_paragraphs :: "(string \<times> (exn + string)) list \<Rightarrow> exn + (pyval list \<times> string list)" where
  "word_paragraphs [] = Inr ([], [])"
| "word_paragraphs ((text, style) # paras) =
     (if strip text \<noteq> [] then
        (case style of
           Inl e \<Rightarrow> Inl e
         | Inr style_name \<Rightarrow>
             (case word_paragraphs paras of
                Inl e \<Rightarrow> Inl e
              | Inr (paragraphs, full_text) \<Rightarrow>
                  Inr (PDict [(PStr ''text'', PStr text),
                              (PStr ''style'', PStr style_name),
                              (PStr ''word_count'', PInt (int (length (split_ws text))))] # paragraphs,
                       text # full_text)))
      else word_paragraphs paras)"

text \<open>\<open>WordConverter._extract_tables\<close>: an exception ends the loop; the tables read so
  far are returned.\<close>

fun word_tables :: "(exn + string list list) list \<Rightarrow> nat \<Rightarrow> pyval list \<Rightarrow> pyval list" where
  "word_tables [] table_idx tables_data = tables_data"
| "word_tables (table # tables) table_idx tables_data =
     (case table of
        Inl e \<Rightarrow> tables_data
      | Inr rows_data \<Rightarrow>
          word_tables tables (table_idx + 1)
            (tables_data @
               [PDict [(PStr ''table_index'', PInt (int (table_idx + 1))),
                       (PStr ''rows'', PInt (int (length rows_data))),
                       (PStr ''columns'', PInt (case rows_data of [] \<Rightarrow> 0 | row # _ \<Rightarrow> int (length row))),
                       (PStr ''data'', PList (map (\<lambda>row. PList (map PStr row)) rows_data))]]))"

definition word_extract_tables :: "word_document \<Rightarrow> pyval list" where
  "word_extract_tables doc =
     (case wd_tables doc of Inl e \<Rightarrow> [] | Inr tables \<Rightarrow> word_tables tables 0 [])"

text \<open>\<open>WordConverter.get_metadata\<close>: \<open>x or "N/A"\<close>, and \<open>str(x) if x else "N/A"\<close> for the
  two dates.\<close>

definition or_na :: "pyval \<Rightarrow> pyval" where
  "or_na x = (if truthy x then x else PStr ''N/A'')"

definition str_or_na :: "runtime \<Rightarrow> pyval \<Rightarrow> pyval" where
  "str_or_na rt x = (if truthy x then PStr (py_str rt x) else PStr ''N/A'')"

definition word_get_metadata :: "runtime \<Rightarrow> word_document \<Rightarrow> exn + pydict" where
  "word_get_metadata rt doc =
     (case wd_core_properties doc of
        Inl e \<Rightarrow> Inl e
      | Inr core_props \<Rightarrow>
          Inr [(PStr ''title'', or_na (cp_title core_props)),
               (PStr ''author'', or_na (cp_author core_props)),
               (PStr ''subject'', or_na (cp_subject core_props)),
               (PStr ''keywords'', or_na (cp_keywords core_props)),
               (PStr ''created'', str_or_na rt (cp_created core_props)),
               (PStr ''modified'', str_or_na rt (cp_modified core_props)),
               (PStr ''last_modified_by'', or_na (cp_last_modified_by core_props))])"

definition word_try :: "runtime \<Rightarrow> library \<Rightarrow> string \<Rightarrow> exn + pydict" where
  "word_try rt lib file_path =
     (case docx_document lib file_path of
        Inl e \<Rightarrow> Inl e
      | Inr doc \<Rightarrow>
          (case wd_paragraphs doc of
             Inl e \<Rightarrow> Inl e
           | Inr paras \<Rightarrow>
               (case word_paragraphs paras of
                  Inl e \<Rightarrow> Inl e
                | Inr (paragraphs, full_text) \<Rightarrow>
                    (let tables = word_extract_tables doc in
                     case word_get_metadata rt doc of
                       Inl e \<Rightarrow> Inl e
                     | Inr metadata \<Rightarrow>
                         Inr [(PStr ''document_type'', PStr ''Word Document''),
                              (PStr ''total_paragraphs'', PInt (int (length paragraphs))),
                              (PStr ''total_tables'', PInt (int (length tables))),
                              (PStr ''full_text'', PStr (join (''\<newline>'' @ ''\<newline>'') full_text)),
                              (PStr ''paragraphs'', PList paragraphs),
                              (PStr ''tables'', PList tables),
                              (PStr ''metadata'', PDict metadata)]))))"

definition WordConverter_extract :: "runtime \<Rightarrow> library \<Rightarrow> string \<Rightarrow> exn + pydict" where
  "WordConverter_extract rt lib file_path =
     (case word_try rt lib file_path of
        Inr result \<Rightarrow> Inr result
      | Inl e \<Rightarrow> Inr (error_record rt ''Word document'' ''Word Document'' e))"

subsection \<open>Excel\<close>

text \<open>\<open>ExcelConverter._get_statistics\<close> and the loop over the sheets in
  \<open>ExcelConverter.extract\<close>: the list \<open>sheets_data\<close> and the list \<open>all_data\<close>.\<close>

definition excel_statistics :: "data_frame \<Rightarrow> pyval" where
  "excel_statistics df =
     PDict ([(PStr ''total_rows'', PInt (int (df_len df))),
             (PStr ''total_columns'', PInt (int (length (df_columns df)))),
             (PStr ''null_values'', df_null_values df),
             (PStr ''data_types'', df_data_types df)]
            @ (case df_numeric_summary df of
                 None \<Rightarrow> []
               | Some summary \<Rightarrow> [(PStr ''numeric_summary'', summary)]))"

fun excel_sheets :: "library \<Rightarrow> string \<Rightarrow> pyval list \<Rightarrow> exn + (pyval list \<times> pyval list)" where
  "excel_sheets lib file_path [] = Inr ([], [])"
| "excel_sheets lib file_path (sheet_name # sheet_names) =
     (case read_excel lib file_path sheet_name of
        Inl e \<Rightarrow> Inl e
      | Inr df \<Rightarrow>
          (case excel_sheets lib file_path sheet_names of
             Inl e \<Rightarrow> Inl e
           | Inr (sheets_data, all_data) \<Rightarrow>
               Inr (PDict [(PStr ''sheet_name'', sheet_name),
                           (PStr ''rows'', PInt (int (df_len df))),
                           (PStr ''columns'', PInt (int (length (df_columns df)))),
                           (PStr ''column_names'', PList (df_columns df)),
                           (PStr ''data'', PList (df_records df)),
                           (PStr ''preview'', PList (take 10 (df_records df))),
                           (PStr ''statistics'', excel_statistics df)] # sheets_data,
                    df_records df @ all_data)))"

definition excel_try :: "library \<Rightarrow> string \<Rightarrow> exn + pydict" where
  "excel_try lib file_path =
     (case excel_sheet_names lib file_path of
        Inl e \<Rightarrow> Inl e
      | Inr sheet_names \<Rightarrow>
          (case excel_sheets lib file_path sheet_names of
             Inl e \<Rightarrow> Inl e
           | Inr (sheets_data, all_data) \<Rightarrow>
               Inr [(PStr ''document_type'', PStr ''Excel Spreadsheet''),
                    (PStr ''total_sheets'', PInt (int (length sheet_names))),
                    (PStr ''sheet_names'', PList sheet_names),
                    (PStr ''sheets'', PList sheets_data),
                    (PStr ''all_data'', PList all_data),
                    (PStr ''metadata'',
                       PDict [(PStr ''file_type'', PStr ''Excel Spreadsheet''),
                              (PStr ''format'', extension_upper file_path)])]))"

definition ExcelConverter_extract :: "runtime \<Rightarrow> library \<Rightarrow> string \<Rightarrow> exn + pydict" where
  "ExcelConverter_extract rt lib file_path =
     (case excel_try lib file_path of
        Inr result \<Rightarrow> Inr result
      | Inl e \<Rightarrow> Inr (error_record rt ''Excel file'' ''Excel Spreadsheet'' e))"

subsection \<open>Text and CSV\<close>

text \<open>\<open>TextConverter.get_metadata\<close>, \<open>_extract_plain_text\<close> and \<open>_extract_csv\<close>.
  \<open>numbered_lines\<close> is the list comprehension that keeps the lines that are not blank,
  each with its number.\<close>

definition text_get_metadata :: "library \<Rightarrow> string \<Rightarrow> pyval" where
  "text_get_metadata lib file_path =
     PDict [(PStr ''encoding'', PStr (detect_encoding lib file_path)),
            (PStr ''file_extension'', extension_upper file_path)]"

fun numbered_lines :: "nat \<Rightarrow> string list \<Rightarrow> pyval list" where
  "numbered_lines i [] = []"
| "numbered_lines i (line # lines) =
     (if strip line \<noteq> []
      then PDict [(PStr ''line_number'', PInt (int (i + 1))), (PStr ''text'', PStr line)]
             # numbered_lines (i + 1) lines
      else numbered_lines (i + 1) lines)"

definition extract_plain_text :: "library \<Rightarrow> string \<Rightarrow> exn + pydict" where
  "extract_plain_text lib file_path =
     (case read_text lib file_path (detect_encoding lib file_path) of
        Inl e \<Rightarrow> Inl e
      | Inr content \<Rightarrow>
          (let lines = split_on (CHR 0x0A) content in
           Inr [(PStr ''document_type'', PStr ''Text File''),
                (PStr ''encoding'', PStr (detect_encoding lib file_path)),
                (PStr ''total_lines'', PInt (int (length lines))),
                (PStr ''total_characters'', PInt (int (length content))),
                (PStr ''word_count'', PInt (int (length (split_ws content)))),
                (PStr ''full_text'', PStr content),
                (PStr ''lines'', PList (numbered_lines 0 lines)),
                (PStr ''metadata'', text_get_metadata lib file_path)]))"

definition extract_csv :: "library \<Rightarrow> string \<Rightarrow> exn + pydict" where
  "extract_csv lib file_path =
     (case read_csv lib file_path (detect_encoding lib file_path) of
        Inl e \<Rightarrow> Inl e
      | Inr (headers, rows) \<Rightarrow>
          Inr [(PStr ''document_type'', PStr ''CSV File''),
               (PStr ''encoding'', PStr (detect_encoding lib file_path)),
               (PStr ''total_rows'', PInt (int (length rows))),
               (PStr ''total_columns'', PInt (case headers of None \<Rightarrow> 0 | Some hs \<Rightarrow> int (length hs))),
               (PStr ''headers'', (case headers of None \<Rightarrow> PNone | Some hs \<Rightarrow> PList hs)),
               (PStr ''data'', PList rows),
               (PStr ''preview'', PList (take 10 rows)),
               (PStr ''metadata'', text_get_metadata lib file_path)])"

definition text_try :: "library \<Rightarrow> string \<Rightarrow> exn + pydict" where
  "text_try lib file_path =
     (if ends_with ''.csv'' (lower file_path) then extract_csv lib file_path
      else extract_plain_text lib file_path)"

definition TextConverter_extract :: "runtime \<Rightarrow> library \<Rightarrow> string \<Rightarrow> exn + pydict" where
  "TextConverter_extract rt lib file_path =
     (case text_try lib file_path of
        Inr result \<Rightarrow> Inr result
      | Inl e \<Rightarrow> Inr (error_record rt ''text file'' ''Text File'' e))"

text \<open>The extractors as \<open>process_file\<close> uses them. Each of them returns a record, as
  shown below; the empty record stands in the place that is never reached.\<close>

definition record_of :: "exn + pydict \<Rightarrow> pydict" where
  "record_of r = (case r of Inr d \<Rightarrow> d | Inl e \<Rightarrow> [])"

definition library_converters :: "runtime \<Rightarrow> library \<Rightarrow> converters" where
  "library_converters rt lib =
     \<lparr>pdf_extract = (\<lambda>p. record_of (PDFConverter_extract rt lib p)),
      word_extract = (\<lambda>p. record_of (WordConverter_extract rt lib p)),
      excel_extract = (\<lambda>p. record_of (ExcelConverter_extract rt lib p)),
      text_extract = (\<lambda>p. record_of (TextConverter_extract rt lib p))\<rparr>"


subsection \<open>The records, as the claims describe them\<close>

text \<open>
  The items of a list with their positions, counted from 1 (\<open>enumerate\<close> with \<open>+ 1\<close>);
  the record of a page, of a table of a PDF page (a non-empty list of rows whose first row
  is a list), of a paragraph (with the name of its style), of a table of a Word document
  and of a sheet; and the paragraphs whose text is not blank.
\<close>

definition numbered :: "'a list \<Rightarrow> (nat \<times> 'a) list" where
  "numbered xs = zip [1..<Suc (length xs)] xs"

definition page_record :: "nat \<Rightarrow> string \<Rightarrow> pyval" where
  "page_record i text =
     PDict [(PStr ''page_number'', PInt (int i)), (PStr ''text'', PStr text),
            (PStr ''word_count'', PInt (int (length (split_ws text))))]"

fun table_record :: "nat \<Rightarrow> nat \<Rightarrow> pyval \<Rightarrow> pyval" where
  "table_record i j (PList (PList cells # rows)) =
     PDict [(PStr ''page'', PInt (int i)), (PStr ''table_index'', PInt (int j)),
            (PStr ''rows'', PInt (1 + int (length rows))), (PStr ''columns'', PInt (int (length cells))),
            (PStr ''data'', PList (PList cells # rows))]"
| "table_record i j v = PNone"

fun grid_table :: "pyval \<Rightarrow> bool" where
  "grid_table (PList (PList cells # rows)) = True"
| "grid_table v = False"

definition non_blank :: "string \<times> (exn + string) \<Rightarrow> bool" where
  "non_blank para \<longleftrightarrow> strip (fst para) \<noteq> []"

definition paragraph_record :: "string \<times> (exn + string) \<Rightarrow> pyval" where
  "paragraph_record para =
     PDict [(PStr ''text'', PStr (fst para)),
            (PStr ''style'', PStr (case snd para of Inr style_name \<Rightarrow> style_name | Inl e \<Rightarrow> [])),
            (PStr ''word_count'', PInt (int (length (split_ws (fst para)))))]"

definition grid_record :: "nat \<Rightarrow> string list list \<Rightarrow> pyval" where
  "grid_record j grid =
     PDict [(PStr ''table_index'', PInt (int j)), (PStr ''rows'', PInt (int (length grid))),
            (PStr ''columns'', PInt (case grid of [] \<Rightarrow> 0 | row # _ \<Rightarrow> int (length row))),
            (PStr ''data'', PList (map (\<lambda>row. PList (map PStr row)) grid))]"

definition sheet_record :: "pyval \<Rightarrow> data_frame \<Rightarrow> pyval" where
  "sheet_record sheet_name df =
     PDict [(PStr ''sheet_name'', sheet_name), (PStr ''rows'', PInt (int (df_len df))),
            (PStr ''columns'', PInt (int (length (df_columns df)))),
            (PStr ''column_names'', PList (df_columns df)),
            (PStr ''data'', PList (df_records df)),
            (PStr ''preview'', PList (take 10 (df_records df))),
            (PStr ''statistics'',
               PDict ([(PStr ''total_rows'', PInt (int (df_len df))),
                       (PStr ''total_columns'', PInt (int (length (df_columns df)))),
                       (PStr ''null_values'', df_null_values df),
                       (PStr ''data_types'', df_data_types df)]
                      @ (case df_numeric_summary df of
                           None \<Rightarrow> []
                         | Some summary \<Rightarrow> [(PStr ''numeric_summary'', summary)])))]"


section \<open>Example inputs\<close>

text \<open>Concrete inputs on which the theorems below are instantiated.\<close>

definition example_files :: files where
  "example_files p =
     (if p = ''in/REPORT.PDF'' then Some 52428800
      else if p = ''in/big.csv'' then Some 52428801
      else if p = ''in/empty.txt'' then Some 0
      else if p = ''in/tool.exe'' then Some 10
      else None)"

definition example_mb :: "nat \<Rightarrow> string" where
  "example_mb n = ''50.00''"

definition example_runtime :: runtime where
  "example_runtime =
     \<lparr>rt_repr = (\<lambda>v. ''[...]''), rt_str_exn = (\<lambda>e. ''error''),
      rt_json_dumps = (\<lambda>v. Inr ''[...]''), rt_json_pretty = (\<lambda>v. Inr ''{...}''),
      rt_json_compact = (\<lambda>v. Inr ''{...}''), rt_size_mb = example_mb,
      rt_open = (\<lambda>p. if p = ''output/locked_converted.csv'' \<or> p = ''output/locked_converted.json''
                      then Some (LibraryError ''Permission denied'') else None)\<rparr>"

text \<open>The record of a plain text file holding \<open>a b c\<close>, and a record with an empty list
  of tables.\<close>

definition example_text_record :: pydict where
  "example_text_record =
     [(PStr ''document_type'', PStr ''Text File''),
      (PStr ''encoding'', PStr ''ascii''),
      (PStr ''total_lines'', PInt 1),
      (PStr ''total_characters'', PInt 5),
      (PStr ''word_count'', PInt 3),
      (PStr ''full_text'', PStr ''a b c''),
      (PStr ''lines'', PList [PDict [(PStr ''line_number'', PInt 1), (PStr ''text'', PStr ''a b c'')]]),
      (PStr ''metadata'', PDict [(PStr ''encoding'', PStr ''ascii''), (PStr ''file_extension'', PStr ''TXT'')])]"

definition example_empty_tables_record :: pydict where
  "example_empty_tables_record =
     [(PStr ''document_type'', PStr ''PDF''), (PStr ''full_text'', PStr ''a b c''), (PStr ''tables'', PList [])]"


text \<open>Two rows with different keys.\<close>

definition example_mixed_rows :: pyval where
  "example_mixed_rows = PList [PDict [(PStr ''a'', PInt 1)], PDict [(PStr ''b'', PInt 2)]]"

definition example_rows :: pyval where
  "example_rows =
     PList [PDict [(PStr ''a'', PInt 1), (PStr ''b'', PList [PInt 2, PInt 3])], PDict [(PStr ''b'', PStr ''x'')]]"


text \<open>The record of a PDF with one table, input files, and extractors that give the
  example records.\<close>

definition example_pdf_record :: pydict where
  "example_pdf_record =
     [(PStr ''document_type'', PStr ''PDF''),
      (PStr ''total_pages'', PInt 1),
      (PStr ''full_text'', PStr ''Name Age''),
      (PStr ''pages'', PList [PDict [(PStr ''page_number'', PInt 1), (PStr ''text'', PStr ''Name Age''),
                                     (PStr ''word_count'', PInt 2)]]),
      (PStr ''tables'',
         PList [PDict [(PStr ''page'', PInt 1), (PStr ''table_index'', PInt 1), (PStr ''rows'', PInt 3),
                       (PStr ''columns'', PInt 2),
                       (PStr ''data'', PList [PList [PStr ''Name'', PStr ''Age''],
                                              PList [PStr ''Ann'', PStr ''30''],
                                              PList [PStr ''Bob'', PStr ''41'']])]]),
      (PStr ''metadata'', PDict [(PStr ''title'', PStr ''N/A'')])]"

definition example_inputs :: files where
  "example_inputs p =
     (if p = ''in/table.pdf'' then Some 100
      else if p = ''in/notes.txt'' then Some 5
      else if p = ''in/old.txt'' then Some 5
      else None)"

definition example_converters :: converters where
  "example_converters =
     \<lparr>pdf_extract = (\<lambda>p. example_pdf_record),
      word_extract = (\<lambda>p. [(PStr ''error'', PStr ''Failed to extract Word document: bad file''),
                            (PStr ''document_type'', PStr ''Word Document'')]),
      excel_extract = (\<lambda>p. [(PStr ''error'', PStr ''Failed to extract Excel file: bad file''),
                             (PStr ''document_type'', PStr ''Excel Spreadsheet'')]),
      text_extract = (\<lambda>p. example_text_record)\<rparr>"




text \<open>Library calls that fail at different places: one PDF opens, with one page, but
  \<open>pdfplumber\<close> cannot read it, and no other PDF can be opened; a Word document
  opens but the style of its paragraph cannot be read; the workbook lists a sheet that
  cannot be read; the text of a file cannot be decoded.\<close>

definition example_library :: library where
  "example_library =
     \<lparr>fitz_open =
        (\<lambda>p. if p = ''in/table.pdf''
             then Inr \<lparr>pdf_page_texts = [Inr ''Name Age''], pdf_metadata = Inr [(PStr ''title'', PStr ''T'')],
                       pdf_close = None\<rparr>
             else Inl (LibraryError ''cannot open'')),
      pdfplumber_pages = (\<lambda>p. Inl (LibraryError ''cannot open'')),
      docx_document =
        (\<lambda>p. Inr \<lparr>wd_paragraphs = Inr [(''Hello'', Inl AttributeError)],
                    wd_tables = Inr [],
                    wd_core_properties = Inl AttributeError\<rparr>),
      excel_sheet_names = (\<lambda>p. Inr [PStr ''Sheet1'']),
      read_excel = (\<lambda>p sheet. Inl ValueError),
      detect_encoding = (\<lambda>p. ''ascii''),
      read_text = (\<lambda>p encoding. Inl (LibraryError ''codec'')),
      read_csv = (\<lambda>p encoding. Inl (LibraryError ''codec''))\<rparr>"


text \<open>The record of \<open>in/table.pdf\<close> under the example library.\<close>

definition example_scan_record :: pydict where
  "example_scan_record =
     [(PStr ''document_type'', PStr ''PDF''),
      (PStr ''total_pages'', PInt 1),
      (PStr ''full_text'', PStr ''Name Age''),
      (PStr ''pages'', PList [PDict [(PStr ''page_number'', PInt 1), (PStr ''text'', PStr ''Name Age''),
                                     (PStr ''word_count'', PInt 2)]]),
      (PStr ''tables'', PList []),
      (PStr ''metadata'',
         PDict [(PStr ''title'', PStr ''T''), (PStr ''author'', PStr ''N/A''), (PStr ''subject'', PStr ''N/A''),
                (PStr ''creator'', PStr ''N/A''), (PStr ''producer'', PStr ''N/A''),
                (PStr ''creation_date'', PStr ''N/A''), (PStr ''modification_date'', PStr ''N/A'')])]"


section \<open>Properties of the validator\<close>

lemma supported_extension_iff:
  "supported_extension p \<longleftrightarrow> lower (splitext_ext p) \<in> set (map fst SUPPORTED_EXTENSIONS)"
  by (auto simp: supported_extension_def SUPPORTED_EXTENSIONS_def)

lemma MAX_FILE_SIZE_value: "MAX_FILE_SIZE = 52428800"
  by (simp add: MAX_FILE_SIZE_def)


text \<open>
  Claim C2. \<open>validate_file\<close> checks its rules in the order existence, extension, oversize,
  emptiness, and the first rule that fails gives the result and its message: a missing
  file is reported as missing whatever its name; an existing file with an extension
  outside the supported set (compared in lower case) is reported as unsupported whatever
  its size; a supported file above 50 MiB is reported as too large; a supported file of
  size 0 is reported as empty. For an existing file with a supported extension the result
  is true exactly when the size is above 0 and at most \<open>50 * 1024 * 1024\<close> bytes, so the
  boundary itself is accepted.
\<close>

theorem validate_file_rules:
  "(fs p = None \<longrightarrow> validate_file mb fs p = (False, ''File does not exist''))
   \<and> (fs p = Some sz \<and> \<not> supported_extension p \<longrightarrow>
        validate_file mb fs p =
          (False, ''Unsupported file type: '' @ lower (splitext_ext p)
                    @ ''. Supported types: .pdf, .docx, .doc, .xlsx, .xls, .csv, .txt''))
   \<and> (fs p = Some sz \<and> supported_extension p \<and> 50 * 1024 * 1024 < sz \<longrightarrow>
        validate_file mb fs p = (False, ''File too large: '' @ mb sz @ ''MB. Maximum size: 50.0MB''))
   \<and> (fs p = Some 0 \<and> supported_extension p \<longrightarrow>
        validate_file mb fs p = (False, ''File is empty''))
   \<and> (fs p = Some sz \<and> supported_extension p \<longrightarrow>
        (fst (validate_file mb fs p) \<longleftrightarrow> 0 < sz \<and> sz \<le> 50 * 1024 * 1024))"
  by (auto simp: validate_file_def supported_extension_iff MAX_FILE_SIZE_def Let_def)
     (simp_all add: SUPPORTED_EXTENSIONS_def)

theorem validate_file_rules_witness:
  "(example_files ''in/gone.pdf'' = None
      \<and> validate_file example_mb example_files ''in/gone.pdf'' = (False, ''File does not exist''))
   \<and> (example_files ''in/tool.exe'' = Some 10 \<and> \<not> supported_extension ''in/tool.exe''
      \<and> validate_file example_mb example_files ''in/tool.exe'' =
          (False, ''Unsupported file type: .exe. Supported types: .pdf, .docx, .doc, .xlsx, .xls, .csv, .txt''))
   \<and> (example_files ''in/big.csv'' = Some 52428801 \<and> supported_extension ''in/big.csv''
      \<and> validate_file example_mb example_files ''in/big.csv'' =
          (False, ''File too large: 50.00MB. Maximum size: 50.0MB''))
   \<and> (example_files ''in/empty.txt'' = Some 0 \<and> supported_extension ''in/empty.txt''
      \<and> validate_file example_mb example_files ''in/empty.txt'' = (False, ''File is empty''))
   \<and> (example_files ''in/REPORT.PDF'' = Some 52428800 \<and> supported_extension ''in/REPORT.PDF''
      \<and> fst (validate_file example_mb example_files ''in/REPORT.PDF''))"
proof -
  have f1: "example_files ''in/gone.pdf'' = None" by (simp add: example_files_def)
  have f2: "example_files ''in/tool.exe'' = Some 10" by (simp add: example_files_def)
  have f3: "example_files ''in/big.csv'' = Some 52428801" by (simp add: example_files_def)
  have f4: "example_files ''in/empty.txt'' = Some 0" by (simp add: example_files_def)
  have f5: "example_files ''in/REPORT.PDF'' = Some 52428800" by (simp add: example_files_def)
  have s2: "\<not> supported_extension ''in/tool.exe''" by code_simp
  have e2: "lower (splitext_ext ''in/tool.exe'') = ''.exe''" by code_simp
  have s3: "supported_extension ''in/big.csv''" by code_simp
  have s4: "supported_extension ''in/empty.txt''" by code_simp
  have s5: "supported_extension ''in/REPORT.PDF''" by code_simp
  have m3: "example_mb 52428801 = ''50.00''" by (simp add: example_mb_def)
  note r1 = validate_file_rules [of example_files "''in/gone.pdf''" example_mb 0]
  note r2 = validate_file_rules [of example_files "''in/tool.exe''" example_mb 10]
  note r3 = validate_file_rules [of example_files "''in/big.csv''" example_mb 52428801]
  note r4 = validate_file_rules [of example_files "''in/empty.txt''" example_mb 0]
  note r5 = validate_file_rules [of example_files "''in/REPORT.PDF''" example_mb 52428800]
  show ?thesis
    using r1 r2 r3 r4 r5 f1 f2 f3 f4 f5 s2 e2 s3 s4 s5 m3 by simp
qed

section \<open>Properties of the formatter\<close>

lemma is_str_iff: "is_str v \<longleftrightarrow> (\<exists>s. v = PStr s)"
  by (cases v) simp_all

lemma map_of_dict_set: "map_of (dict_set d k v) k' = (if k' = k then Some v else map_of d k')"
  by (induction d k v rule: dict_set.induct) auto

lemma has_key_map_of: "has_key d k \<longleftrightarrow> map_of d k \<noteq> None"
  by (simp add: has_key_def map_of_eq_None_iff)

lemma py_split_Inr: "py_split v = Inr ws \<longleftrightarrow> (\<exists>s. v = PStr s \<and> ws = split_ws s)"
  by (cases v) auto

lemma to_xml_shape:
  assumes "to_xml rt data root_name = Inr s"
  shows "\<exists>body. s = ''<?xml version=\"1.0\" encoding=\"UTF-8\"?>'' @ ''\<newline>'' @ ''<'' @ root_name @ ''>'' @ ''\<newline>''
             @ body @ ''</'' @ root_name @ ''>''"
  using assms
  by (auto simp: to_xml_def dict_to_xml_def xml_declaration_def split: sum.splits)

lemma helper_total:
  "(\<forall>kv \<in> set d. is_str (fst kv) \<and> str_keyed (snd kv)) \<Longrightarrow> \<exists>s. dict_to_xml_helper rt d tag lvl = Inr s"
  "(\<forall>kv \<in> set d. is_str (fst kv) \<and> str_keyed (snd kv)) \<Longrightarrow> \<exists>s. helper_items rt d lvl = Inr s"
  "(\<forall>x \<in> set xs. str_keyed x) \<Longrightarrow> \<exists>s. helper_list rt xs tag lvl = Inr s"
proof (induction rt d tag lvl and rt d lvl and rt xs tag lvl rule: dict_to_xml_helper_helper_items_helper_list.induct)
  case (1 rt d tag indent_level)
  then show ?case by (auto split: sum.splits)
next
  case (2 rt indent_level)
  then show ?case by simp
next
  case (3 rt key v rest indent_level)
  from "3.prems" obtain k where k: "key = PStr k" by (auto simp: is_str_iff)
  from "3.prems" have v: "str_keyed v" and rest: "\<forall>kv \<in> set rest. is_str (fst kv) \<and> str_keyed (snd kv)"
    by auto
  have item: "\<exists>x. (case v of
                   PDict d' \<Rightarrow>
                     (case dict_to_xml_helper rt d' (safe_key k) (indent_level + 1) of
                        Inl e \<Rightarrow> Inl e
                      | Inr x \<Rightarrow> Inr (indent_of indent_level @ ''  '' @ x @ ''\<newline>''))
                 | PList items \<Rightarrow> helper_list rt items (safe_key k) indent_level
                 | _ \<Rightarrow>
                     Inr (indent_of indent_level @ ''  <'' @ safe_key k @ ''>'' @ py_str rt v
                            @ ''</'' @ safe_key k @ ''>\<newline>'')) = Inr x"
  proof (cases v)
    case (PDict d')
    with v "3.IH"(2)[OF k PDict] show ?thesis by (auto split: sum.splits)
  next
    case (PList items)
    with v "3.IH"(1)[OF k PList] show ?thesis by auto
  qed simp_all
  then obtain x where x: "(case v of
                   PDict d' \<Rightarrow>
                     (case dict_to_xml_helper rt d' (safe_key k) (indent_level + 1) of
                        Inl e \<Rightarrow> Inl e
                      | Inr x \<Rightarrow> Inr (indent_of indent_level @ ''  '' @ x @ ''\<newline>''))
                 | PList items \<Rightarrow> helper_list rt items (safe_key k) indent_level
                 | _ \<Rightarrow>
                     Inr (indent_of indent_level @ ''  <'' @ safe_key k @ ''>'' @ py_str rt v
                            @ ''</'' @ safe_key k @ ''>\<newline>'')) = Inr x" ..
  from "3.IH"(3)[OF k x] rest obtain y where "helper_items rt rest indent_level = Inr y" by auto
  with k x show ?case by simp
next
  case (4 rt tag indent_level)
  then show ?case by simp
next
  case (5 rt item items tag indent_level)
  from "5.prems" have it: "str_keyed item" and its: "\<forall>x \<in> set items. str_keyed x" by auto
  have "\<exists>x. (case item of
              PDict d' \<Rightarrow>
                (case dict_to_xml_helper rt d' tag (indent_level + 1) of
                   Inl e \<Rightarrow> Inl e
                 | Inr x \<Rightarrow> Inr (indent_of indent_level @ ''  '' @ x @ ''\<newline>''))
            | _ \<Rightarrow>
                Inr (indent_of indent_level @ ''  <'' @ tag @ ''>'' @ py_str rt item
                       @ ''</'' @ tag @ ''>\<newline>'')) = Inr x"
  proof (cases item)
    case (PDict d')
    with it "5.IH"(1)[OF PDict] show ?thesis by (auto split: sum.splits)
  qed simp_all
  then obtain x where x: "(case item of
              PDict d' \<Rightarrow>
                (case dict_to_xml_helper rt d' tag (indent_level + 1) of
                   Inl e \<Rightarrow> Inl e
                 | Inr x \<Rightarrow> Inr (indent_of indent_level @ ''  '' @ x @ ''\<newline>''))
            | _ \<Rightarrow>
                Inr (indent_of indent_level @ ''  <'' @ tag @ ''>'' @ py_str rt item
                       @ ''</'' @ tag @ ''>\<newline>'')) = Inr x" ..
  from "5.IH"(2)[OF x] its obtain y where "helper_list rt items tag indent_level = Inr y" by auto
  with x show ?case by simp
qed


lemma xml_list_total:
  "(\<forall>x \<in> set xs. str_keyed x) \<Longrightarrow> \<exists>s. xml_list rt xs tag = Inr s"
proof (induction xs)
  case Nil
  then show ?case by simp
next
  case (Cons item items)
  then obtain y where y: "xml_list rt items tag = Inr y" by auto
  show ?case
  proof (cases item)
    case (PDict d')
    with Cons.prems have "\<forall>kv \<in> set d'. is_str (fst kv) \<and> str_keyed (snd kv)" by simp
    from helper_total(1)[OF this] obtain x where "dict_to_xml_helper rt d' tag 2 = Inr x" by blast
    with PDict y show ?thesis by simp
  qed (simp_all add: y)
qed

lemma xml_items_total:
  "(\<forall>kv \<in> set d. is_str (fst kv) \<and> str_keyed (snd kv)) \<Longrightarrow> \<exists>s. xml_items rt d = Inr s"
proof (induction d)
  case Nil
  then show ?case by simp
next
  case (Cons kv rest)
  obtain key v where kv: "kv = (key, v)" by (cases kv)
  from Cons.prems kv obtain k where k: "key = PStr k" by (auto simp: is_str_iff)
  from Cons.prems kv have v: "str_keyed v" by simp
  from Cons obtain y where y: "xml_items rt rest = Inr y" by auto
  show ?case
  proof (cases v)
    case (PDict d')
    with v have "\<forall>kv \<in> set d'. is_str (fst kv) \<and> str_keyed (snd kv)" by simp
    from helper_total(1)[OF this] obtain x where "dict_to_xml_helper rt d' (safe_key k) 2 = Inr x" by blast
    with PDict y k kv show ?thesis by simp
  next
    case (PList items)
    with v have "\<forall>x \<in> set items. str_keyed x" by simp
    from xml_list_total[OF this] obtain x where "xml_list rt items (safe_key k) = Inr x" by blast
    with PList y k kv show ?thesis by simp
  qed (simp_all add: y k kv)
qed

lemma to_xml_total:
  assumes "str_keyed (PDict data)"
  shows "\<exists>s. to_xml rt data root_name = Inr s"
proof -
  from assms have "\<forall>kv \<in> set data. is_str (fst kv) \<and> str_keyed (snd kv)" by simp
  from xml_items_total[OF this] obtain b where "xml_items rt data = Inr b" by blast
  then show ?thesis by (simp add: to_xml_def dict_to_xml_def)
qed

lemma ai_parts:
  assumes "create_ai_training_format data = Inr ai"
  obtains ws ht where
    "py_split (dict_get data (PStr ''full_text'') (PStr [])) = Inr ws"
    "(if has_key data (PStr ''tables'')
      then map_sum id (\<lambda>n. 0 < n) (py_len (dict_get data (PStr ''tables'') (PList [])))
      else Inr False) = Inr ht"
proof -
  let ?sp = "py_split (dict_get data (PStr ''full_text'') (PStr []))"
  let ?ht = "if has_key data (PStr ''tables'')
         then map_sum id (\<lambda>n. 0 < n) (py_len (dict_get data (PStr ''tables'') (PList [])))
         else Inr False"
  from assms obtain ws where ws: "?sp = Inr ws"
    by (cases ?sp) (simp_all add: create_ai_training_format_def Let_def)
  from assms ws obtain ht where ht: "?ht = Inr ht"
    by (cases ?ht) (simp_all add: create_ai_training_format_def Let_def)
  from that[OF ws ht] show thesis .
qed

lemma ai_features:
  assumes "create_ai_training_format data = Inr ai"
    and ws: "py_split (dict_get data (PStr ''full_text'') (PStr [])) = Inr ws"
    and ht: "(if has_key data (PStr ''tables'')
      then map_sum id (\<lambda>n. 0 < n) (py_len (dict_get data (PStr ''tables'') (PList [])))
      else Inr False) = Inr ht"
  shows "map_of ai (PStr ''features'') = Some (PDict
         [(PStr ''document_type'', dict_get data (PStr ''document_type'') (PStr ''unknown'')),
          (PStr ''word_count'', PInt (int (length ws))),
          (PStr ''has_tables'', PBool ht),
          (PStr ''has_structure'',
             PBool (has_key data (PStr ''pages'') \<or> has_key data (PStr ''paragraphs'')))])"
    and "map_of ai (PStr ''structured_data'') =
         Some (case map_of data (PStr ''tables'') of Some ts \<Rightarrow> ts
               | None \<Rightarrow> (case map_of data (PStr ''data'') of Some rows \<Rightarrow> rows | None \<Rightarrow> PList []))"
  using assms(1) unfolding create_ai_training_format_def Let_def ws ht
  by (auto simp add: map_of_dict_set split: option.splits)

lemma get_statistics_returns:
  assumes "map_of data (PStr ''full_text'') = None \<or> (\<exists>s. map_of data (PStr ''full_text'') = Some (PStr s))"
    and "map_of data (PStr ''tables'') = None \<or> (\<exists>ts. map_of data (PStr ''tables'') = Some (PList ts))"
  shows "\<exists>stats. get_statistics data = Inr stats"
  using assms by (auto simp: get_statistics_def Let_def split: option.splits)

lemma get_statistics_flag:
  assumes "get_statistics data = Inr stats"
  shows "map_of stats (PStr ''has_tables'') = Some (PBool (has_key data (PStr ''tables'')))"
  using assms
  by (auto simp: get_statistics_def Let_def map_of_dict_set has_key_map_of
           split: option.splits sum.splits)

lemma get_statistics_count:
  assumes "get_statistics data = Inr stats" "map_of data (PStr ''tables'') = Some (PList [])"
  shows "map_of stats (PStr ''table_count'') = Some (PInt 0)"
  using assms
  by (auto simp: get_statistics_def Let_def map_of_dict_set has_key_map_of
           split: option.splits sum.splits)

lemma create_ai_returns:
  assumes "map_of data (PStr ''full_text'') = None \<or> (\<exists>s. map_of data (PStr ''full_text'') = Some (PStr s))"
    and "map_of data (PStr ''tables'') = None \<or> (\<exists>ts. map_of data (PStr ''tables'') = Some (PList ts))"
  shows "\<exists>ai. create_ai_training_format data = Inr ai"
proof -
  from assms(1) have "\<exists>ws. py_split (dict_get data (PStr ''full_text'') (PStr [])) = Inr ws"
    by (auto simp: dict_get_def)
  then obtain ws where ws: "py_split (dict_get data (PStr ''full_text'') (PStr [])) = Inr ws" ..
  from assms(2) have "\<exists>ht. (if has_key data (PStr ''tables'')
         then map_sum id (\<lambda>n. 0 < n) (py_len (dict_get data (PStr ''tables'') (PList [])))
         else Inr False) = Inr ht"
    by (auto simp: dict_get_def has_key_map_of)
  then obtain ht where ht: "(if has_key data (PStr ''tables'')
         then map_sum id (\<lambda>n. 0 < n) (py_len (dict_get data (PStr ''tables'') (PList [])))
         else Inr False) = Inr ht" ..
  show ?thesis
    unfolding create_ai_training_format_def Let_def ws ht by simp
qed

lemma ai_has_tables:
  assumes "create_ai_training_format data = Inr ai"
  shows "ai_feature ai ''has_tables'' =
           Some (PBool (\<exists>ts n. map_of data (PStr ''tables'') = Some ts \<and> py_len ts = Inr n \<and> 0 < n))"
proof -
  from assms obtain ws ht where
    ws: "py_split (dict_get data (PStr ''full_text'') (PStr [])) = Inr ws" and
    ht: "(if has_key data (PStr ''tables'')
         then map_sum id (\<lambda>n. 0 < n) (py_len (dict_get data (PStr ''tables'') (PList [])))
         else Inr False) = Inr ht"
    by (rule ai_parts)
  note f = ai_features(1)[OF assms ws ht]
  have "ht \<longleftrightarrow> (\<exists>ts n. map_of data (PStr ''tables'') = Some ts \<and> py_len ts = Inr n \<and> 0 < n)"
  proof (cases "map_of data (PStr ''tables'')")
    case None
    with ht show ?thesis by (simp add: has_key_map_of)
  next
    case (Some ts)
    with ht show ?thesis
      by (cases "py_len ts") (auto simp: has_key_map_of dict_get_def)
  qed
  with f show ?thesis by (simp add: ai_feature_def)
qed

lemma ai_word_count:
  assumes "create_ai_training_format data = Inr ai"
  shows "ai_feature ai ''word_count'' =
           Some (PInt (int (length (case map_of data (PStr ''full_text'') of
                                      None \<Rightarrow> []
                                    | Some t \<Rightarrow> (case t of PStr s \<Rightarrow> split_ws s | _ \<Rightarrow> [])))))"
proof -
  from assms obtain ws ht where
    ws: "py_split (dict_get data (PStr ''full_text'') (PStr [])) = Inr ws" and
    ht: "(if has_key data (PStr ''tables'')
         then map_sum id (\<lambda>n. 0 < n) (py_len (dict_get data (PStr ''tables'') (PList [])))
         else Inr False) = Inr ht"
    by (rule ai_parts)
  note f = ai_features(1)[OF assms ws ht]
  from ws have "ws = (case map_of data (PStr ''full_text'') of
                                      None \<Rightarrow> []
                                    | Some t \<Rightarrow> (case t of PStr s \<Rightarrow> split_ws s | _ \<Rightarrow> []))"
    by (auto simp: dict_get_def py_split_Inr split: option.splits)
  with f show ?thesis by (simp add: ai_feature_def)
qed

lemma ai_has_structure:
  assumes "create_ai_training_format data = Inr ai"
  shows "ai_feature ai ''has_structure'' =
           Some (PBool (has_key data (PStr ''pages'') \<or> has_key data (PStr ''paragraphs'')))"
proof -
  from assms obtain ws ht where
    ws: "py_split (dict_get data (PStr ''full_text'') (PStr [])) = Inr ws" and
    ht: "(if has_key data (PStr ''tables'')
         then map_sum id (\<lambda>n. 0 < n) (py_len (dict_get data (PStr ''tables'') (PList [])))
         else Inr False) = Inr ht"
    by (rule ai_parts)
  from ai_features(1)[OF assms ws ht] show ?thesis by (simp add: ai_feature_def)
qed

lemma ai_structured_data:
  assumes "create_ai_training_format data = Inr ai"
  shows "map_of ai (PStr ''structured_data'') =
         Some (case map_of data (PStr ''tables'') of Some ts \<Rightarrow> ts
               | None \<Rightarrow> (case map_of data (PStr ''data'') of Some rows \<Rightarrow> rows | None \<Rightarrow> PList []))"
proof -
  from assms obtain ws ht where
    ws: "py_split (dict_get data (PStr ''full_text'') (PStr [])) = Inr ws" and
    ht: "(if has_key data (PStr ''tables'')
         then map_sum id (\<lambda>n. 0 < n) (py_len (dict_get data (PStr ''tables'') (PList [])))
         else Inr False) = Inr ht"
    by (rule ai_parts)
  from ai_features(2)[OF assms ws ht] show ?thesis .
qed

lemma safe_key_eq:
  "safe_key k = map (\<lambda>c. if c = CHR '' '' \<or> c = CHR ''-'' then CHR ''_'' else c) k"
  by (simp add: safe_key_def replace_char_def)


text \<open>Reading the tags of a text that is built from parts.\<close>

lemma xml_tags_text: "CHR ''<'' \<notin> set s \<Longrightarrow> xml_tags (s @ r) = xml_tags r"
  by (induction s) auto

lemma xml_tags_tag:
  assumes "CHR ''>'' \<notin> set n"
  shows "xml_tags (''<'' @ n @ ''>'' @ r) = map_option (Cons n) (xml_tags r)"
proof -
  have "takeWhile (\<lambda>x. x \<noteq> CHR ''>'') (n @ CHR ''>'' # r) = n"
    using assms by (induction n) auto
  moreover have "dropWhile (\<lambda>x. x \<noteq> CHR ''>'') (n @ CHR ''>'' # r) = CHR ''>'' # r"
    using assms by (induction n) auto
  ultimately show ?thesis by simp
qed

lemma xml_tags_append:
  "xml_tags s = Some ts \<Longrightarrow> xml_tags (s @ r) = map_option ((@) ts) (xml_tags r)"
proof (induction s arbitrary: ts rule: xml_tags.induct)
  case 1
  then show ?case by (simp add: option.map_ident)
next
  case (2 c cs)
  show ?case
  proof (cases "c = CHR ''<''")
    case False
    with 2 show ?thesis by simp
  next
    case True
    with "2.prems" have gt: "CHR ''>'' \<in> set cs" by (auto split: if_splits)
    let ?n = "takeWhile (\<lambda>x. x \<noteq> CHR ''>'') cs"
    let ?d = "tl (dropWhile (\<lambda>x. x \<noteq> CHR ''>'') cs)"
    from "2.prems" True gt obtain ts' where ts': "xml_tags ?d = Some ts'" "ts = ?n # ts'"
      by auto
    have t: "takeWhile (\<lambda>x. x \<noteq> CHR ''>'') (cs @ r) = ?n"
      using gt by (simp add: takeWhile_append1)
    have "dropWhile (\<lambda>x. x \<noteq> CHR ''>'') (cs @ r) = dropWhile (\<lambda>x. x \<noteq> CHR ''>'') cs @ r"
      using gt by (simp add: dropWhile_append1)
    moreover have "dropWhile (\<lambda>x. x \<noteq> CHR ''>'') cs \<noteq> []"
      using gt by (simp add: dropWhile_eq_Nil_conv) 
    ultimately have d: "tl (dropWhile (\<lambda>x. x \<noteq> CHR ''>'') (cs @ r)) = ?d @ r"
      by simp
    from "2.IH"(1)[OF True gt ts'(1)] have "xml_tags (?d @ r) = map_option ((@) ts') (xml_tags r)" .
    then show ?thesis
      using True gt t d ts'(2) by (simp add: option.map_comp comp_def)
  qed
qed

lemma name_facts:
  assumes "xml_name n"
  shows "n \<noteq> []" "CHR ''>'' \<notin> set n" "hd n \<noteq> CHR ''?''" "hd n \<noteq> CHR ''/''"
proof -
  have s: "\<not> name_start CHR ''>''" "\<not> name_start CHR ''?''" "\<not> name_start CHR ''/''"
    by (simp_all add: name_start_def is_ascii_letter_def ord_def)
  have c: "\<not> name_char CHR ''>''"
    by (simp add: name_char_def name_start_def is_ascii_letter_def is_digit_def ord_def)
  from assms show "n \<noteq> []" by (auto simp: xml_name_def)
  from assms s c show "CHR ''>'' \<notin> set n" by (cases n) (auto simp: xml_name_def)
  from assms s show "hd n \<noteq> CHR ''?''" by (cases n) (auto simp: xml_name_def)
  from assms s show "hd n \<noteq> CHR ''/''" by (cases n) (auto simp: xml_name_def)
qed

lemma nest_open:
  assumes "xml_name n"
  shows "nest st tops (n # ts) = nest (n # st) (if st = [] then n # tops else tops) ts"
  using assms name_facts[OF assms] by (cases n) auto

lemma nest_close: "nest (n # st) tops ((CHR ''/'' # n) # ts) = nest st tops ts"
  by simp

lemma inner_Nil: "inner []"
  by (simp add: inner_def)

lemma inner_text: "CHR ''<'' \<notin> set s \<Longrightarrow> inner s"
  using xml_tags_text[of s "[]"] by (simp add: inner_def)

lemma inner_append:
  assumes "inner a" "inner b"
  shows "inner (a @ b)"
proof -
  from assms obtain ta tb where
    a: "xml_tags a = Some ta" "\<forall>st tops r. st \<noteq> [] \<longrightarrow> nest st tops (ta @ r) = nest st tops r"
    and b: "xml_tags b = Some tb" "\<forall>st tops r. st \<noteq> [] \<longrightarrow> nest st tops (tb @ r) = nest st tops r"
    by (auto simp: inner_def)
  have "xml_tags (a @ b) = Some (ta @ tb)"
    using xml_tags_append[OF a(1), of b] b(1) by simp
  moreover have "\<forall>st tops r. st \<noteq> [] \<longrightarrow> nest st tops ((ta @ tb) @ r) = nest st tops r"
    using a(2) b(2) by simp
  ultimately show ?thesis unfolding inner_def by blast
qed

lemma inner_element:
  assumes "xml_name n" "inner s"
  shows "inner (''<'' @ n @ ''>'' @ s @ ''</'' @ n @ ''>'')"
proof -
  from assms(2) obtain ts where
    s: "xml_tags s = Some ts" "\<forall>st tops r. st \<noteq> [] \<longrightarrow> nest st tops (ts @ r) = nest st tops r"
    by (auto simp: inner_def)
  note nf = name_facts[OF assms(1)]
  have gt: "CHR ''>'' \<notin> set (CHR ''/'' # n)" using nf by simp
  have c: "xml_tags (''</'' @ n @ ''>'') = Some [CHR ''/'' # n]"
    using xml_tags_tag[OF gt, of "[]"] by simp
  have "xml_tags (s @ ''</'' @ n @ ''>'') = Some (ts @ [CHR ''/'' # n])"
    using xml_tags_append[OF s(1), of "''</'' @ n @ ''>''"] c by simp
  then have t: "xml_tags (''<'' @ n @ ''>'' @ s @ ''</'' @ n @ ''>'') = Some (n # ts @ [CHR ''/'' # n])"
    using xml_tags_tag[OF nf(2), of "s @ ''</'' @ n @ ''>''"] by simp
  have "\<forall>st tops r. st \<noteq> [] \<longrightarrow> nest st tops ((n # ts @ [CHR ''/'' # n]) @ r) = nest st tops r"
  proof (intro allI impI)
    fix st :: "string list" and tops r
    assume st: "st \<noteq> []"
    have "nest st tops ((n # ts @ [CHR ''/'' # n]) @ r) = nest (n # st) tops (ts @ (CHR ''/'' # n) # r)"
      using nest_open[OF assms(1), of st tops] st by simp
    also have "\<dots> = nest (n # st) tops ((CHR ''/'' # n) # r)"
      using s(2) by simp
    also have "\<dots> = nest st tops r" by simp
    finally show "nest st tops ((n # ts @ [CHR ''/'' # n]) @ r) = nest st tops r" .
  qed
  with t show ?thesis unfolding inner_def by blast
qed

lemma top_level_root:
  assumes "xml_name root" "inner body"
  shows "top_level_elements (xml_declaration @ ''\<newline>'' @ ''<'' @ root @ ''>'' @ ''\<newline>'' @ body @ ''</'' @ root @ ''>'')
           = Some [root]"
proof -
  from assms(2) obtain ts where
    s: "xml_tags body = Some ts" "\<forall>st tops r. st \<noteq> [] \<longrightarrow> nest st tops (ts @ r) = nest st tops r"
    by (auto simp: inner_def)
  note nf = name_facts[OF assms(1)]
  have gt: "CHR ''>'' \<notin> set (CHR ''/'' # root)" using nf by simp
  have c: "xml_tags (''</'' @ root @ ''>'') = Some [CHR ''/'' # root]"
    using xml_tags_tag[OF gt, of "[]"] by simp
  have b: "xml_tags (''\<newline>'' @ body @ ''</'' @ root @ ''>'') = Some (ts @ [CHR ''/'' # root])"
    using xml_tags_append[OF s(1), of "''</'' @ root @ ''>''"] c by simp
  have e: "xml_tags (''<'' @ root @ ''>'' @ ''\<newline>'' @ body @ ''</'' @ root @ ''>'')
             = Some (root # ts @ [CHR ''/'' # root])"
    using xml_tags_tag[OF nf(2), of "''\<newline>'' @ body @ ''</'' @ root @ ''>''"] b by simp
  let ?d = "''?xml version=\"1.0\" encoding=\"UTF-8\"?''"
  have dgt: "CHR ''>'' \<notin> set ?d" by simp
  have "xml_declaration @ ''\<newline>'' @ ''<'' @ root @ ''>'' @ ''\<newline>'' @ body @ ''</'' @ root @ ''>''
          = ''<'' @ ?d @ ''>'' @ (''\<newline>'' @ ''<'' @ root @ ''>'' @ ''\<newline>'' @ body @ ''</'' @ root @ ''>'')"
    by (simp add: xml_declaration_def)
  moreover have "xml_tags (''\<newline>'' @ ''<'' @ root @ ''>'' @ ''\<newline>'' @ body @ ''</'' @ root @ ''>'')
             = Some (root # ts @ [CHR ''/'' # root])"
    using e by simp
  ultimately have t: "xml_tags (xml_declaration @ ''\<newline>'' @ ''<'' @ root @ ''>'' @ ''\<newline>'' @ body @ ''</'' @ root @ ''>'')
             = Some (?d # root # ts @ [CHR ''/'' # root])"
    using xml_tags_tag[OF dgt, of "''\<newline>'' @ ''<'' @ root @ ''>'' @ ''\<newline>'' @ body @ ''</'' @ root @ ''>''"]
    by (simp only: option.map)
  have "nest [] [] (?d # root # ts @ [CHR ''/'' # root]) = nest [] [] (root # ts @ [CHR ''/'' # root])"
    by simp
  also have "\<dots> = nest [root] [root] (ts @ [CHR ''/'' # root])"
    using nest_open[OF assms(1), of "[]" "[]"] by simp
  also have "\<dots> = nest [root] [root] [CHR ''/'' # root]"
    using s(2) by simp
  also have "\<dots> = Some [root]" by simp
  finally show ?thesis using t by (simp add: top_level_elements_def)
qed


lemma indent_plain: "CHR ''<'' \<notin> set (indent_of n)"
  by (induction n) (simp_all add: indent_of_def)

lemma inner_leaf:
  assumes "xml_name n" "CHR ''<'' \<notin> set txt" "CHR ''<'' \<notin> set ind"
  shows "inner (ind @ ''  <'' @ n @ ''>'' @ txt @ ''</'' @ n @ ''>\<newline>'')"
proof -
  have "inner (''<'' @ n @ ''>'' @ txt @ ''</'' @ n @ ''>'')"
    using assms(1) inner_text[OF assms(2)] by (rule inner_element)
  moreover have "inner (ind @ ''  '')" "inner ''\<newline>''"
    using assms(3) by (simp_all add: inner_text)
  ultimately have "inner ((ind @ ''  '') @ (''<'' @ n @ ''>'' @ txt @ ''</'' @ n @ ''>'') @ ''\<newline>'')"
    by (simp only: inner_append)
  then show ?thesis by simp
qed

lemma inner_nested:
  assumes "inner x" "CHR ''<'' \<notin> set ind"
  shows "inner (ind @ ''  '' @ x @ ''\<newline>'')"
proof -
  have "inner (ind @ ''  '')" "inner ''\<newline>''"
    using assms(2) by (simp_all add: inner_text)
  with assms(1) have "inner ((ind @ ''  '') @ x @ ''\<newline>'')"
    by (simp only: inner_append)
  then show ?thesis by simp
qed

lemma helper_element:
  assumes "xml_name tag" "inner body"
  shows "inner (''<'' @ tag @ ''>\<newline>'' @ body @ indent_of lvl @ ''</'' @ tag @ ''>'')"
proof -
  have "inner ''\<newline>''" "inner (indent_of lvl)"
    using indent_plain[of lvl] by (simp_all add: inner_text)
  with assms(2) have "inner (''\<newline>'' @ body @ indent_of lvl)"
    by (simp only: inner_append)
  from inner_element[OF assms(1) this] show ?thesis by simp
qed

lemma name_key_iff: "name_key key \<longleftrightarrow> (\<exists>k. key = PStr k \<and> xml_name (safe_key k))"
  by (cases key) auto

lemma xml_safe_leaf:
  assumes "xml_safe rt v" "\<forall>d. v \<noteq> PDict d" "\<forall>xs. v \<noteq> PList xs"
  shows "CHR ''<'' \<notin> set (py_str rt v)"
  using assms by (cases v) (auto simp: plain_text_def)

lemma xml_safe_item_leaf:
  assumes "xml_safe_item rt v" "\<forall>d. v \<noteq> PDict d"
  shows "CHR ''<'' \<notin> set (py_str rt v)"
  using assms by (cases v) (auto simp: plain_text_def)

lemma helper_inner:
  "(\<forall>kv \<in> set d. name_key (fst kv) \<and> xml_safe rt (snd kv)) \<Longrightarrow> xml_name tag
     \<Longrightarrow> \<exists>s. dict_to_xml_helper rt d tag lvl = Inr s \<and> inner s"
  "(\<forall>kv \<in> set d. name_key (fst kv) \<and> xml_safe rt (snd kv))
     \<Longrightarrow> \<exists>s. helper_items rt d lvl = Inr s \<and> inner s"
  "(\<forall>x \<in> set xs. xml_safe_item rt x) \<Longrightarrow> xml_name tag
     \<Longrightarrow> \<exists>s. helper_list rt xs tag lvl = Inr s \<and> inner s"
proof (induction rt d tag lvl and rt d lvl and rt xs tag lvl rule: dict_to_xml_helper_helper_items_helper_list.induct)
  case (1 rt d tag indent_level)
  from "1.IH"[OF "1.prems"(1)] obtain body where
    b: "helper_items rt d indent_level = Inr body" "inner body" by blast
  from helper_element[OF "1.prems"(2) b(2), of indent_level] b(1) show ?case by simp
next
  case (2 rt indent_level)
  then show ?case by (simp add: inner_Nil)
next
  case (3 rt key v rest indent_level)
  from "3.prems" obtain k where k: "key = PStr k" "xml_name (safe_key k)"
    by (auto simp: name_key_iff)
  from "3.prems" have v: "xml_safe rt v"
    and rest: "\<forall>kv \<in> set rest. name_key (fst kv) \<and> xml_safe rt (snd kv)"
    by auto
  have item: "\<exists>x. (case v of
                   PDict d' \<Rightarrow>
                     (case dict_to_xml_helper rt d' (safe_key k) (indent_level + 1) of
                        Inl e \<Rightarrow> Inl e
                      | Inr x \<Rightarrow> Inr (indent_of indent_level @ ''  '' @ x @ ''\<newline>''))
                 | PList items \<Rightarrow> helper_list rt items (safe_key k) indent_level
                 | _ \<Rightarrow>
                     Inr (indent_of indent_level @ ''  <'' @ safe_key k @ ''>'' @ py_str rt v
                            @ ''</'' @ safe_key k @ ''>\<newline>'')) = Inr x \<and> inner x"
  proof (cases v)
    case (PDict d')
    with v have "\<forall>kv \<in> set d'. name_key (fst kv) \<and> xml_safe rt (snd kv)" by simp
    from "3.IH"(2)[OF k(1) PDict this k(2)] obtain x where
      x: "dict_to_xml_helper rt d' (safe_key k) (indent_level + 1) = Inr x" "inner x" by blast
    from inner_nested[OF x(2) indent_plain[of indent_level]] x(1) PDict show ?thesis by simp
  next
    case (PList items)
    with v have "\<forall>x \<in> set items. xml_safe_item rt x" by simp
    from "3.IH"(1)[OF k(1) PList this k(2)] PList show ?thesis by simp
  next
    case PNone
    with inner_leaf[OF k(2) xml_safe_leaf[OF v] indent_plain[of indent_level]] show ?thesis by simp
  next
    case (PBool b)
    with inner_leaf[OF k(2) xml_safe_leaf[OF v] indent_plain[of indent_level]] show ?thesis by simp
  next
    case (PInt i)
    with inner_leaf[OF k(2) xml_safe_leaf[OF v] indent_plain[of indent_level]] show ?thesis by simp
  next
    case (PStr t)
    with inner_leaf[OF k(2) xml_safe_leaf[OF v] indent_plain[of indent_level]] show ?thesis by simp
  next
    case (PObj t b)
    with inner_leaf[OF k(2) xml_safe_leaf[OF v] indent_plain[of indent_level]] show ?thesis by simp
  qed
  then obtain x where x: "(case v of
                   PDict d' \<Rightarrow>
                     (case dict_to_xml_helper rt d' (safe_key k) (indent_level + 1) of
                        Inl e \<Rightarrow> Inl e
                      | Inr x \<Rightarrow> Inr (indent_of indent_level @ ''  '' @ x @ ''\<newline>''))
                 | PList items \<Rightarrow> helper_list rt items (safe_key k) indent_level
                 | _ \<Rightarrow>
                     Inr (indent_of indent_level @ ''  <'' @ safe_key k @ ''>'' @ py_str rt v
                            @ ''</'' @ safe_key k @ ''>\<newline>'')) = Inr x" and ix: "inner x" by blast
  from "3.IH"(3)[OF k(1) x rest] obtain y where y: "helper_items rt rest indent_level = Inr y" "inner y"
    by blast
  from k x y inner_append[OF ix y(2)] show ?case by simp
next
  case (4 rt tag indent_level)
  then show ?case by (simp add: inner_Nil)
next
  case (5 rt item items tag indent_level)
  from "5.prems" have it: "xml_safe_item rt item" and its: "\<forall>x \<in> set items. xml_safe_item rt x"
    and tag: "xml_name tag" by auto
  have "\<exists>x. (case item of
              PDict d' \<Rightarrow>
                (case dict_to_xml_helper rt d' tag (indent_level + 1) of
                   Inl e \<Rightarrow> Inl e
                 | Inr x \<Rightarrow> Inr (indent_of indent_level @ ''  '' @ x @ ''\<newline>''))
            | _ \<Rightarrow>
                Inr (indent_of indent_level @ ''  <'' @ tag @ ''>'' @ py_str rt item
                       @ ''</'' @ tag @ ''>\<newline>'')) = Inr x \<and> inner x"
  proof (cases "\<exists>d'. item = PDict d'")
    case True
    then obtain d' where d': "item = PDict d'" by blast
    with it have "\<forall>kv \<in> set d'. name_key (fst kv) \<and> xml_safe rt (snd kv)" by simp
    from "5.IH"(1)[OF d' this tag] obtain x where
      x: "dict_to_xml_helper rt d' tag (indent_level + 1) = Inr x" "inner x" by blast
    from inner_nested[OF x(2) indent_plain[of indent_level]] x(1) d' show ?thesis by simp
  next
    case False
    then have nd: "\<forall>d. item \<noteq> PDict d" by blast
    from inner_leaf[OF tag xml_safe_item_leaf[OF it nd] indent_plain[of indent_level]] nd
    show ?thesis by (cases item) simp_all
  qed
  then obtain x where x: "(case item of
              PDict d' \<Rightarrow>
                (case dict_to_xml_helper rt d' tag (indent_level + 1) of
                   Inl e \<Rightarrow> Inl e
                 | Inr x \<Rightarrow> Inr (indent_of indent_level @ ''  '' @ x @ ''\<newline>''))
            | _ \<Rightarrow>
                Inr (indent_of indent_level @ ''  <'' @ tag @ ''>'' @ py_str rt item
                       @ ''</'' @ tag @ ''>\<newline>'')) = Inr x" and ix: "inner x" by blast
  from "5.IH"(2)[OF x its tag] obtain y where y: "helper_list rt items tag indent_level = Inr y" "inner y"
    by blast
  from x y inner_append[OF ix y(2)] show ?case by simp
qed


lemma xml_list_inner:
  "(\<forall>x \<in> set xs. xml_safe_item rt x) \<Longrightarrow> xml_name tag \<Longrightarrow> \<exists>s. xml_list rt xs tag = Inr s \<and> inner s"
proof (induction xs)
  case Nil
  then show ?case by (simp add: inner_Nil)
next
  case (Cons item items)
  from Cons.prems have it: "xml_safe_item rt item" and its: "\<forall>x \<in> set items. xml_safe_item rt x"
    and tag: "xml_name tag" by auto
  from Cons.IH[OF its tag] obtain y where y: "xml_list rt items tag = Inr y" "inner y" by blast
  have "\<exists>x. (case item of
              PDict d' \<Rightarrow>
                (case dict_to_xml_helper rt d' tag 2 of
                   Inl e \<Rightarrow> Inl e
                 | Inr x \<Rightarrow> Inr (''  '' @ x @ ''\<newline>''))
            | _ \<Rightarrow> Inr (''  <'' @ tag @ ''>'' @ py_str rt item @ ''</'' @ tag @ ''>\<newline>'')) = Inr x
          \<and> inner x"
  proof (cases "\<exists>d'. item = PDict d'")
    case True
    then obtain d' where d': "item = PDict d'" by blast
    with it have "\<forall>kv \<in> set d'. name_key (fst kv) \<and> xml_safe rt (snd kv)" by simp
    from helper_inner(1)[OF this tag, of 2] obtain x where
      x: "dict_to_xml_helper rt d' tag 2 = Inr x" "inner x" by blast
    from inner_nested[OF x(2), of "[]"] x(1) d' show ?thesis by simp
  next
    case False
    then have nd: "\<forall>d. item \<noteq> PDict d" by blast
    from inner_leaf[OF tag xml_safe_item_leaf[OF it nd], of "[]"] nd
    show ?thesis by (cases item) simp_all
  qed
  then obtain x where x: "(case item of
              PDict d' \<Rightarrow>
                (case dict_to_xml_helper rt d' tag 2 of
                   Inl e \<Rightarrow> Inl e
                 | Inr x \<Rightarrow> Inr (''  '' @ x @ ''\<newline>''))
            | _ \<Rightarrow> Inr (''  <'' @ tag @ ''>'' @ py_str rt item @ ''</'' @ tag @ ''>\<newline>'')) = Inr x"
    and ix: "inner x" by blast
  from x y inner_append[OF ix y(2)] show ?case by simp
qed

lemma xml_items_inner:
  "(\<forall>kv \<in> set d. name_key (fst kv) \<and> xml_safe rt (snd kv)) \<Longrightarrow> \<exists>s. xml_items rt d = Inr s \<and> inner s"
proof (induction d)
  case Nil
  then show ?case by (simp add: inner_Nil)
next
  case (Cons kv rest)
  obtain key v where kv: "kv = (key, v)" by (cases kv)
  from Cons.prems kv obtain k where k: "key = PStr k" "xml_name (safe_key k)"
    by (auto simp: name_key_iff)
  from Cons.prems kv have v: "xml_safe rt v"
    and rest: "\<forall>kv \<in> set rest. name_key (fst kv) \<and> xml_safe rt (snd kv)"
    by auto
  from Cons.IH[OF rest] obtain y where y: "xml_items rt rest = Inr y" "inner y" by blast
  have "\<exists>x. (case v of
                   PDict d' \<Rightarrow>
                     (case dict_to_xml_helper rt d' (safe_key k) 2 of
                        Inl e \<Rightarrow> Inl e
                      | Inr x \<Rightarrow> Inr (''  '' @ x @ ''\<newline>''))
                 | PList items \<Rightarrow> xml_list rt items (safe_key k)
                 | _ \<Rightarrow>
                     Inr (''  <'' @ safe_key k @ ''>'' @ py_str rt v @ ''</'' @ safe_key k @ ''>\<newline>'')) = Inr x
          \<and> inner x"
  proof (cases v)
    case (PDict d')
    with v have "\<forall>kv \<in> set d'. name_key (fst kv) \<and> xml_safe rt (snd kv)" by simp
    from helper_inner(1)[OF this k(2), of 2] obtain x where
      x: "dict_to_xml_helper rt d' (safe_key k) 2 = Inr x" "inner x" by blast
    from inner_nested[OF x(2), of "[]"] x(1) PDict show ?thesis by simp
  next
    case (PList items)
    with v have "\<forall>x \<in> set items. xml_safe_item rt x" by simp
    from xml_list_inner[OF this k(2)] PList show ?thesis by simp
  next
    case PNone
    with inner_leaf[OF k(2) xml_safe_leaf[OF v], of "[]"] show ?thesis by simp
  next
    case (PBool b)
    with inner_leaf[OF k(2) xml_safe_leaf[OF v], of "[]"] show ?thesis by simp
  next
    case (PInt i)
    with inner_leaf[OF k(2) xml_safe_leaf[OF v], of "[]"] show ?thesis by simp
  next
    case (PStr t)
    with inner_leaf[OF k(2) xml_safe_leaf[OF v], of "[]"] show ?thesis by simp
  next
    case (PObj t b)
    with inner_leaf[OF k(2) xml_safe_leaf[OF v], of "[]"] show ?thesis by simp
  qed
  then obtain x where x: "(case v of
                   PDict d' \<Rightarrow>
                     (case dict_to_xml_helper rt d' (safe_key k) 2 of
                        Inl e \<Rightarrow> Inl e
                      | Inr x \<Rightarrow> Inr (''  '' @ x @ ''\<newline>''))
                 | PList items \<Rightarrow> xml_list rt items (safe_key k)
                 | _ \<Rightarrow>
                     Inr (''  <'' @ safe_key k @ ''>'' @ py_str rt v @ ''</'' @ safe_key k @ ''>\<newline>'')) = Inr x"
    and ix: "inner x" by blast
  from kv k x y inner_append[OF ix y(2)] show ?case by simp
qed

lemma to_xml_one_root:
  assumes "xml_name root_name" "xml_safe rt (PDict data)"
  shows "\<exists>s. to_xml rt data root_name = Inr s \<and> top_level_elements s = Some [root_name]"
proof -
  from assms(2) have "\<forall>kv \<in> set data. name_key (fst kv) \<and> xml_safe rt (snd kv)" by simp
  from xml_items_inner[OF this] obtain body where b: "xml_items rt data = Inr body" "inner body"
    by blast
  have "to_xml rt data root_name
          = Inr (xml_declaration @ ''\<newline>'' @ ''<'' @ root_name @ ''>'' @ ''\<newline>'' @ body @ ''</'' @ root_name @ ''>'')"
    using b(1) by (simp add: to_xml_def dict_to_xml_def)
  with top_level_root[OF assms(1) b(2)] show ?thesis by simp
qed

text \<open>
  Claim C8, as amended. Whenever \<open>to_xml\<close> returns a string, that string is the declaration
  \<open><?xml version="1.0" encoding="UTF-8"?>\<close>, a line break, the text \<open><root_name>\<close>, a line
  break, the rendered items, and the text \<open></root_name>\<close> as its last characters. It
  returns a string for every mapping whose keys, at every depth, are strs. When the root
  name is an XML name, every key (with its spaces and hyphens replaced) is an XML name, and
  no text put between two tags holds a \<open><\<close>, the string read as XML has exactly one
  top-level element, and its tag is the root name. Nothing is escaped, so without these
  conditions the root element need not be the only one, or need not be an element at all.
\<close>

theorem to_xml_declaration_and_root:
  "(to_xml rt data root_name = Inr s \<longrightarrow>
      (\<exists>body. s = ''<?xml version=\"1.0\" encoding=\"UTF-8\"?>'' @ ''\<newline>''
                 @ ''<'' @ root_name @ ''>'' @ ''\<newline>'' @ body @ ''</'' @ root_name @ ''>''))
   \<and> (str_keyed (PDict data) \<longrightarrow> (\<exists>s. to_xml rt data root_name = Inr s))
   \<and> (xml_name root_name \<and> xml_safe rt (PDict data) \<longrightarrow>
        (\<exists>s. to_xml rt data root_name = Inr s \<and> top_level_elements s = Some [root_name]))"
  using to_xml_shape to_xml_total to_xml_one_root by blast

lemma example_text_safe: "xml_safe example_runtime (PDict example_text_record)"
  by code_simp

theorem to_xml_declaration_and_root_witness:
  "xml_name ''document'' \<and> xml_safe example_runtime (PDict example_text_record)
   \<and> str_keyed (PDict example_text_record)
   \<and> (\<exists>s body. to_xml example_runtime example_text_record ''document'' = Inr s
         \<and> s = ''<?xml version=\"1.0\" encoding=\"UTF-8\"?>'' @ ''\<newline>''
                 @ ''<'' @ ''document'' @ ''>'' @ ''\<newline>'' @ body @ ''</'' @ ''document'' @ ''>''
         \<and> top_level_elements s = Some [''document''])"
proof -
  have k: "str_keyed (PDict example_text_record)" by code_simp
  have n: "xml_name ''document''" by code_simp
  note r = to_xml_declaration_and_root [of example_runtime example_text_record "''document''"]
  from r n example_text_safe obtain s where
    s: "to_xml example_runtime example_text_record ''document'' = Inr s"
       "top_level_elements s = Some [''document'']"
    by blast
  with r[of s] k n example_text_safe show ?thesis by blast
qed

text \<open>
  The claim as stated fails for a value that holds markup: with the value
  \<open>x</a></document><document><a>y\<close> under the key \<open>a\<close> the output has two top-level
  elements \<open>document\<close>. It fails as well for a root name that is not a name: with
  \<open>a b><c\<close> the output has no element of that name.
\<close>

theorem to_xml_root_counterexample:
  "to_xml example_runtime [(PStr ''a'', PStr ''x</a></document><document><a>y'')] ''document''
     = Inr (''<?xml version=\"1.0\" encoding=\"UTF-8\"?>'' @ ''\<newline>''
            @ ''<document>'' @ ''\<newline>''
            @ ''  <a>x</a></document><document><a>y</a>'' @ ''\<newline>''
            @ ''</document>'')
   \<and> top_level_elements
         (''<?xml version=\"1.0\" encoding=\"UTF-8\"?>'' @ ''\<newline>''
            @ ''<document>'' @ ''\<newline>''
            @ ''  <a>x</a></document><document><a>y</a>'' @ ''\<newline>''
            @ ''</document>'') = Some [''document'', ''document'']
   \<and> to_xml example_runtime [] ''a b><c''
     = Inr (''<?xml version=\"1.0\" encoding=\"UTF-8\"?>'' @ ''\<newline>'' @ ''<a b><c>'' @ ''\<newline>'' @ ''</a b><c>'')
   \<and> top_level_elements
         (''<?xml version=\"1.0\" encoding=\"UTF-8\"?>'' @ ''\<newline>'' @ ''<a b><c>'' @ ''\<newline>'' @ ''</a b><c>'')
       = None"
proof -
  have a: "to_xml example_runtime [(PStr ''a'', PStr ''x</a></document><document><a>y'')] ''document''
     = Inr (''<?xml version=\"1.0\" encoding=\"UTF-8\"?>'' @ ''\<newline>''
            @ ''<document>'' @ ''\<newline>''
            @ ''  <a>x</a></document><document><a>y</a>'' @ ''\<newline>''
            @ ''</document>'')"
    by (simp add: to_xml_def dict_to_xml_def xml_declaration_def safe_key_eq)
  have b: "top_level_elements
         (''<?xml version=\"1.0\" encoding=\"UTF-8\"?>'' @ ''\<newline>''
            @ ''<document>'' @ ''\<newline>''
            @ ''  <a>x</a></document><document><a>y</a>'' @ ''\<newline>''
            @ ''</document>'') = Some [''document'', ''document'']"
    by code_simp
  have c: "to_xml example_runtime [] ''a b><c''
     = Inr (''<?xml version=\"1.0\" encoding=\"UTF-8\"?>'' @ ''\<newline>'' @ ''<a b><c>'' @ ''\<newline>'' @ ''</a b><c>'')"
    by (simp add: to_xml_def dict_to_xml_def xml_declaration_def)
  have d: "top_level_elements
         (''<?xml version=\"1.0\" encoding=\"UTF-8\"?>'' @ ''\<newline>'' @ ''<a b><c>'' @ ''\<newline>'' @ ''</a b><c>'')
       = None"
    by code_simp
  from a b c d show ?thesis by blast
qed



text \<open>
  Claim C6, as amended. Whenever \<open>create_ai_training_format\<close> returns, \<open>word_count\<close> is
  the number of whitespace-separated words of \<open>full_text\<close> (0 when it is absent or empty),
  \<open>has_tables\<close> is true exactly when \<open>tables\<close> is present with a length above 0,
  \<open>has_structure\<close> is true exactly when the record has a field \<open>pages\<close> or a field
  \<open>paragraphs\<close>, and \<open>structured_data\<close> is \<open>tables\<close> if present, else \<open>data\<close> if
  present, else the empty list. It returns whenever \<open>full_text\<close> is absent or a str and
  \<open>tables\<close> is absent or a list. With \<open>full_text = "a b c"\<close> and no tables,
  \<open>word_count\<close> is 3 and \<open>has_tables\<close> is false.
\<close>

theorem create_ai_training_format_features:
  "(create_ai_training_format data = Inr ai \<longrightarrow>
      ai_feature ai ''word_count'' =
        Some (PInt (int (length (case map_of data (PStr ''full_text'') of
                                   None \<Rightarrow> []
                                 | Some t \<Rightarrow> (case t of PStr s \<Rightarrow> split_ws s | _ \<Rightarrow> [])))))
      \<and> ai_feature ai ''has_tables'' =
        Some (PBool (\<exists>ts n. map_of data (PStr ''tables'') = Some ts \<and> py_len ts = Inr n \<and> 0 < n))
      \<and> ai_feature ai ''has_structure'' =
        Some (PBool (has_key data (PStr ''pages'') \<or> has_key data (PStr ''paragraphs'')))
      \<and> map_of ai (PStr ''structured_data'') =
        Some (case map_of data (PStr ''tables'') of
                Some ts \<Rightarrow> ts
              | None \<Rightarrow> (case map_of data (PStr ''data'') of Some rows \<Rightarrow> rows | None \<Rightarrow> PList [])))
   \<and> ((map_of data (PStr ''full_text'') = None \<or> (\<exists>s. map_of data (PStr ''full_text'') = Some (PStr s)))
        \<and> (map_of data (PStr ''tables'') = None \<or> (\<exists>ts. map_of data (PStr ''tables'') = Some (PList ts)))
      \<longrightarrow> (\<exists>ai. create_ai_training_format data = Inr ai))
   \<and> (map_of data (PStr ''full_text'') = Some (PStr ''a b c'') \<and> map_of data (PStr ''tables'') = None
      \<longrightarrow> (\<exists>ai. create_ai_training_format data = Inr ai
                \<and> ai_feature ai ''word_count'' = Some (PInt 3)
                \<and> ai_feature ai ''has_tables'' = Some (PBool False)))"
proof (intro conjI impI)
  assume a: "map_of data (PStr ''full_text'') = Some (PStr ''a b c'') \<and> map_of data (PStr ''tables'') = None"
  then obtain ai where ai: "create_ai_training_format data = Inr ai"
    using create_ai_returns[of data] by auto
  have w: "length (split_ws ''a b c'') = 3" by code_simp
  from a ai_word_count[OF ai] ai_has_tables[OF ai] w ai
  show "\<exists>ai. create_ai_training_format data = Inr ai
                \<and> ai_feature ai ''word_count'' = Some (PInt 3)
                \<and> ai_feature ai ''has_tables'' = Some (PBool False)"
    by simp
qed (simp_all add: ai_word_count ai_has_tables ai_has_structure ai_structured_data create_ai_returns)

theorem create_ai_training_format_features_witness:
  "map_of example_text_record (PStr ''full_text'') = Some (PStr ''a b c'')
   \<and> map_of example_text_record (PStr ''tables'') = None
   \<and> (\<exists>ai. create_ai_training_format example_text_record = Inr ai
         \<and> ai_feature ai ''word_count'' = Some (PInt 3)
         \<and> ai_feature ai ''has_tables'' = Some (PBool False)
         \<and> ai_feature ai ''has_structure'' = Some (PBool False))"
proof -
  have t: "map_of example_text_record (PStr ''full_text'') = Some (PStr ''a b c'')"
    by (simp add: example_text_record_def)
  have n: "map_of example_text_record (PStr ''tables'') = None"
    by (simp add: example_text_record_def)
  have h: "\<not> (has_key example_text_record (PStr ''pages'') \<or> has_key example_text_record (PStr ''paragraphs''))"
    by (simp add: example_text_record_def has_key_def)
  from create_ai_training_format_features [of example_text_record] t n
  obtain ai where ai: "create_ai_training_format example_text_record = Inr ai"
    and w: "ai_feature ai ''word_count'' = Some (PInt 3)"
    and b: "ai_feature ai ''has_tables'' = Some (PBool False)"
    by blast
  from create_ai_training_format_features [of example_text_record ai] ai h
  have "ai_feature ai ''has_structure'' = Some (PBool False)" by simp
  with t n ai w b show ?thesis by blast
qed

text \<open>
  The claim as stated fails on the record of a plain text file: it has the per-line field
  \<open>lines\<close>, and \<open>has_structure\<close> is false.
\<close>

theorem has_structure_counterexample:
  "units_field_present example_text_record
   \<and> map_sum id (\<lambda>ai. ai_feature ai ''has_structure'') (create_ai_training_format example_text_record)
       = Inr (Some (PBool False))"
  by code_simp

text \<open>
  Claim C9. Whenever \<open>get_statistics\<close> returns, its \<open>has_tables\<close> is true exactly when the
  mapping has the key \<open>tables\<close>; with an empty list under that key \<open>has_tables\<close> is true
  and \<open>table_count\<close> is 0, while \<open>create_ai_training_format\<close> reports \<open>has_tables\<close> false
  for the same mapping. \<open>get_statistics\<close> returns whenever \<open>full_text\<close> is absent or a str
  and \<open>tables\<close> is absent or a list.
\<close>

theorem get_statistics_has_tables:
  "(get_statistics data = Inr stats \<longrightarrow>
      map_of stats (PStr ''has_tables'') = Some (PBool (has_key data (PStr ''tables''))))
   \<and> (get_statistics data = Inr stats \<and> map_of data (PStr ''tables'') = Some (PList []) \<longrightarrow>
      map_of stats (PStr ''has_tables'') = Some (PBool True)
      \<and> map_of stats (PStr ''table_count'') = Some (PInt 0))
   \<and> (create_ai_training_format data = Inr ai \<and> map_of data (PStr ''tables'') = Some (PList []) \<longrightarrow>
      ai_feature ai ''has_tables'' = Some (PBool False))
   \<and> ((map_of data (PStr ''full_text'') = None \<or> (\<exists>s. map_of data (PStr ''full_text'') = Some (PStr s)))
        \<and> (map_of data (PStr ''tables'') = None \<or> (\<exists>ts. map_of data (PStr ''tables'') = Some (PList ts)))
      \<longrightarrow> (\<exists>stats. get_statistics data = Inr stats))"
  by (auto simp: get_statistics_flag get_statistics_count ai_has_tables has_key_map_of
           intro: get_statistics_returns)

theorem get_statistics_has_tables_witness:
  "map_of example_empty_tables_record (PStr ''tables'') = Some (PList [])
   \<and> (\<exists>stats. get_statistics example_empty_tables_record = Inr stats
         \<and> map_of stats (PStr ''has_tables'') = Some (PBool True)
         \<and> map_of stats (PStr ''table_count'') = Some (PInt 0))
   \<and> (\<exists>ai. create_ai_training_format example_empty_tables_record = Inr ai
         \<and> ai_feature ai ''has_tables'' = Some (PBool False))"
proof -
  have t: "map_of example_empty_tables_record (PStr ''tables'') = Some (PList [])"
    by (simp add: example_empty_tables_record_def)
  have f: "map_of example_empty_tables_record (PStr ''full_text'') = Some (PStr ''a b c'')"
    by (simp add: example_empty_tables_record_def)
  from get_statistics_has_tables [of example_empty_tables_record] t f
  obtain stats where s: "get_statistics example_empty_tables_record = Inr stats" by blast
  from create_ai_returns [of example_empty_tables_record] t f
  obtain ai where a: "create_ai_training_format example_empty_tables_record = Inr ai" by auto
  from get_statistics_has_tables [of example_empty_tables_record stats ai] s a t
  have "map_of stats (PStr ''has_tables'') = Some (PBool True)
      \<and> map_of stats (PStr ''table_count'') = Some (PInt 0)
      \<and> ai_feature ai ''has_tables'' = Some (PBool False)"
    by blast
  with s a t show ?thesis by blast
qed

lemma map_fst_json_cells: "map fst (json_cells j d) = map fst d"
  by (simp add: json_cells_def)

lemma cleaned_row_json:
  assumes "\<forall>kv \<in> set d. is_nested (snd kv) \<longrightarrow> rt_json_dumps rt (snd kv) = Inr (j (snd kv))"
  shows "cleaned_row rt d = Inr (json_cells j d)"
  using assms
proof (induction d)
  case Nil
  then show ?case by (simp add: json_cells_def)
next
  case (Cons kv d)
  obtain k v where kv: "kv = (k, v)" by (cases kv)
  from Cons have IH: "cleaned_row rt d = Inr (json_cells j d)" by simp
  from Cons.prems kv have v: "is_nested v \<longrightarrow> rt_json_dumps rt v = Inr (j v)" by simp
  show ?case
    using IH v kv by (cases v) (simp_all add: json_cells_def)
qed

lemma writerow_ok:
  assumes "set (map fst d) \<subseteq> set fieldnames"
  shows "writerow fieldnames (json_cells j d) = Inr (csv_line j fieldnames (PDict d))"
  using assms by (auto simp: writerow_def map_fst_json_cells)

lemma write_rows_ok:
  assumes "\<forall>row \<in> set rows. \<exists>d. row = PDict d \<and> set (map fst d) \<subseteq> set fieldnames
              \<and> (\<forall>kv \<in> set d. is_nested (snd kv) \<longrightarrow> rt_json_dumps rt (snd kv) = Inr (j (snd kv)))"
  shows "write_rows rt fieldnames rows written = (written @ map (csv_line j fieldnames) rows, None)"
  using assms
proof (induction rows arbitrary: written)
  case Nil
  then show ?case by simp
next
  case (Cons row rows)
  from Cons.prems obtain d where d: "row = PDict d" "set (map fst d) \<subseteq> set fieldnames"
      "\<forall>kv \<in> set d. is_nested (snd kv) \<longrightarrow> rt_json_dumps rt (snd kv) = Inr (j (snd kv))"
    by auto
  from Cons.prems have rest: "\<forall>row \<in> set rows. \<exists>d. row = PDict d \<and> set (map fst d) \<subseteq> set fieldnames
              \<and> (\<forall>kv \<in> set d. is_nested (snd kv) \<longrightarrow> rt_json_dumps rt (snd kv) = Inr (j (snd kv)))"
    by simp
  show ?case
    using d Cons.IH[OF rest] by (simp add: cleaned_row_json[OF d(3)] writerow_ok[OF d(2)])
qed

lemma json_text_eq: "rt_json_dumps rt v = Inr t \<Longrightarrow> json_text rt v = t"
  by (simp add: json_text_def)

lemma row_fits_json:
  assumes "row_fits rt fieldnames (PDict d)"
  shows "\<forall>kv \<in> set d. is_nested (snd kv) \<longrightarrow> rt_json_dumps rt (snd kv) = Inr (json_text rt (snd kv))"
  using assms by (auto simp: json_text_def split: sum.splits)

lemma write_rows_fit:
  assumes "\<forall>row \<in> set rows. row_fits rt fieldnames row"
  shows "write_rows rt fieldnames (rows @ later) written
           = write_rows rt fieldnames later (written @ map (csv_line (json_text rt) fieldnames) rows)"
  using assms
proof (induction rows arbitrary: written)
  case Nil
  then show ?case by simp
next
  case (Cons row rows)
  from Cons.prems have f: "row_fits rt fieldnames row" by simp
  then obtain d where d: "row = PDict d" by (cases row) auto
  from f d have k: "set (map fst d) \<subseteq> set fieldnames" by simp
  from Cons.prems have rest: "\<forall>row \<in> set rows. row_fits rt fieldnames row" by simp
  show ?case
    using d Cons.IH[OF rest]
    by (simp add: cleaned_row_json[OF row_fits_json[OF f[unfolded d]]] writerow_ok[OF k])
qed

lemma cleaned_row_cases:
  "(\<exists>e. cleaned_row rt d = Inl e)
   \<or> (\<forall>kv \<in> set d. is_nested (snd kv) \<longrightarrow> (case rt_json_dumps rt (snd kv) of Inr t \<Rightarrow> True | Inl e \<Rightarrow> False))"
proof (induction d)
  case Nil
  then show ?case by simp
next
  case (Cons kv d)
  obtain k v where kv: "kv = (k, v)" by (cases kv)
  show ?case
    using Cons kv by (cases v; cases "rt_json_dumps rt v"; cases "cleaned_row rt d") auto
qed

lemma write_rows_bad:
  assumes "\<not> row_fits rt fieldnames bad"
  shows "\<exists>x. write_rows rt fieldnames (bad # later) written = (written, Some x)
           \<and> ((\<forall>d. bad \<noteq> PDict d) \<longrightarrow> x = AttributeError)
           \<and> ((\<exists>d. bad = PDict d \<and> (\<forall>kv \<in> set d. is_nested (snd kv) \<longrightarrow>
                  (case rt_json_dumps rt (snd kv) of Inr t \<Rightarrow> True | Inl e \<Rightarrow> False))) \<longrightarrow> x = ValueError)"
proof (cases "\<exists>d. bad = PDict d")
  case False
  then have "write_rows rt fieldnames (bad # later) written = (written, Some AttributeError)"
    by (cases bad) auto
  with False show ?thesis by auto
next
  case True
  then obtain d where d: "bad = PDict d" by blast
  show ?thesis
  proof (cases "\<forall>kv \<in> set d. is_nested (snd kv) \<longrightarrow>
                  (case rt_json_dumps rt (snd kv) of Inr t \<Rightarrow> True | Inl e \<Rightarrow> False)")
    case True
    then have j: "\<forall>kv \<in> set d. is_nested (snd kv) \<longrightarrow> rt_json_dumps rt (snd kv) = Inr (json_text rt (snd kv))"
      by (auto simp: json_text_def split: sum.splits)
    from assms d True have k: "\<not> set (map fst d) \<subseteq> set fieldnames" by simp
    then have "writerow fieldnames (json_cells (json_text rt) d) = Inl ValueError"
      by (auto simp: writerow_def map_fst_json_cells)
    then have "write_rows rt fieldnames (bad # later) written = (written, Some ValueError)"
      using d by (simp add: cleaned_row_json[OF j])
    then show ?thesis using d by auto
  next
    case False
    with cleaned_row_cases[of rt d] obtain e where "cleaned_row rt d = Inl e" by blast
    then have "write_rows rt fieldnames (bad # later) written = (written, Some e)"
      using d by simp
    then show ?thesis using d False by auto
  qed
qed

lemma write_rows_some_bad:
  assumes "\<exists>row \<in> set rows. \<not> row_fits rt fieldnames row"
  shows "\<exists>w x. write_rows rt fieldnames rows written = (w, Some x)"
  using assms
proof (induction rows arbitrary: written)
  case Nil
  then show ?case by simp
next
  case (Cons row rows)
  show ?case
  proof (cases "row_fits rt fieldnames row")
    case False
    from write_rows_bad[OF False, of rows written] show ?thesis by blast
  next
    case True
    with Cons.prems have "\<exists>row \<in> set rows. \<not> row_fits rt fieldnames row" by auto
    from Cons.IH[OF this, of "written @ map (csv_line (json_text rt) fieldnames) [row]"]
    show ?thesis
      using write_rows_fit[of "[row]" rt fieldnames rows written] True by simp
  qed
qed

lemma csv_body_other:
  assumes "truthy data" "\<forall>d0 rest. data \<noteq> PList (PDict d0 # rest)"
  shows "\<exists>w x. csv_body rt data = (w, Some x)"
proof (cases data)
  case (PList xs)
  with assms obtain x rest where xs: "xs = x # rest" by (cases xs) auto
  with assms PList have "\<forall>d. x \<noteq> PDict d" by auto
  then show ?thesis using PList xs by (cases x) (auto simp: csv_body_def)
next
  case (PDict d)
  show ?thesis
  proof (cases "dict_item d (PInt 0)")
    case (Inl e)
    then show ?thesis using PDict by (simp add: csv_body_def)
  next
    case (Inr first)
    then have k: "PInt 0 \<in> set (map fst d)"
      by (auto simp: dict_item_def split: option.splits dest: map_of_SomeD intro: rev_image_eqI)
    show ?thesis
    proof (cases "\<exists>d0. first = PDict d0")
      case False
      then show ?thesis using PDict Inr by (cases first) (auto simp: csv_body_def)
    next
      case True
      then obtain d0 where d0: "first = PDict d0" by blast
      have "\<exists>row \<in> set (map fst d). \<not> row_fits rt (map fst d0) row"
        using k by (intro bexI[of _ "PInt 0"]) auto
      from write_rows_some_bad[OF this, of "[map fst d0]"]
      show ?thesis using PDict Inr d0 by (simp add: csv_body_def Let_def del: write_rows.simps)
    qed
  qed
next
  case (PStr s)
  with assms obtain c cs where "s = c # cs" by (cases s) auto
  then show ?thesis using PStr by (simp add: csv_body_def)
qed (use assms in \<open>auto simp: csv_body_def\<close>)


lemma csv_body_list:
  "csv_body rt (PList (PDict d0 # rest)) = write_rows rt (map fst d0) (PDict d0 # rest) [map fst d0]"
  by (simp add: csv_body_def Let_def del: write_rows.simps)

lemma str_exn_example: "rt_str_exn example_runtime e = ''error''"
  by (simp add: example_runtime_def)

text \<open>
  Claim C7, as amended. \<open>to_csv\<close> with an empty sequence (or any value that counts as
  false) returns the text \<open>No data to convert to CSV\<close> and leaves the files as they are.
  With any other value it opens the output file first; when that fails with \<open>e\<close> it
  returns \<open>Error creating CSV: \<close> followed by \<open>str(e)\<close> and leaves the files as they are.
  When the file opens and the value is a list of mappings in which every key of every row
  is a key of the first row and every nested value has a JSON text, it returns the output
  path, and the file holds the key list of the first row as header and then one line per
  row: under each header key the row's value, a nested value replaced by its JSON text,
  and the empty text where the row has no such key. For every other value it returns an
  \<open>Error creating CSV: \<close> text: a list that starts with a mapping but has a row that does
  not fit (not a mapping: \<open>AttributeError\<close>; a key outside the first row's keys:
  \<open>ValueError\<close>; a nested value \<open>json.dumps\<close> rejects) leaves the header and the lines of
  the rows before that row in the file; a value that is no list starting with a mapping
  leaves a file as well.
\<close>

theorem to_csv_rows:
  "(\<not> truthy data \<longrightarrow> to_csv rt data output_path out = (''No data to convert to CSV'', out))
   \<and> (truthy data \<and> rt_open rt output_path = Some e \<longrightarrow>
        to_csv rt data output_path out = (''Error creating CSV: '' @ rt_str_exn rt e, out))
   \<and> (rt_open rt output_path = None \<and> data = PList (PDict d0 # rest)
        \<and> (\<forall>row \<in> set (PDict d0 # rest). row_fits rt (map fst d0) row) \<longrightarrow>
        to_csv rt data output_path out =
          (output_path,
           write_file out output_path
             (Csv (map fst d0 # map (csv_line (json_text rt) (map fst d0)) (PDict d0 # rest)))))
   \<and> (rt_open rt output_path = None \<and> data = PList (PDict d0 # rest)
        \<and> PDict d0 # rest = good @ bad # later
        \<and> (\<forall>row \<in> set good. row_fits rt (map fst d0) row) \<and> \<not> row_fits rt (map fst d0) bad \<longrightarrow>
        (\<exists>x. to_csv rt data output_path out =
                (''Error creating CSV: '' @ rt_str_exn rt x,
                 write_file out output_path
                   (Csv (map fst d0 # map (csv_line (json_text rt) (map fst d0)) good)))
              \<and> ((\<forall>d. bad \<noteq> PDict d) \<longrightarrow> x = AttributeError)
              \<and> ((\<exists>d. bad = PDict d \<and> (\<forall>kv \<in> set d. is_nested (snd kv) \<longrightarrow>
                     (case rt_json_dumps rt (snd kv) of Inr t \<Rightarrow> True | Inl e \<Rightarrow> False))) \<longrightarrow>
                   x = ValueError)))
   \<and> (truthy data \<and> rt_open rt output_path = None \<and> (\<forall>d0 rest. data \<noteq> PList (PDict d0 # rest)) \<longrightarrow>
        (\<exists>x written. to_csv rt data output_path out =
                (''Error creating CSV: '' @ rt_str_exn rt x, write_file out output_path (Csv written))))"
proof (intro conjI impI)
  assume "\<not> truthy data"
  then show "to_csv rt data output_path out = (''No data to convert to CSV'', out)"
    by (simp add: to_csv_def)
next
  assume "truthy data \<and> rt_open rt output_path = Some e"
  then show "to_csv rt data output_path out = (''Error creating CSV: '' @ rt_str_exn rt e, out)"
    by (simp add: to_csv_def)
next
  assume a: "rt_open rt output_path = None \<and> data = PList (PDict d0 # rest)
        \<and> (\<forall>row \<in> set (PDict d0 # rest). row_fits rt (map fst d0) row)"
  then have "write_rows rt (map fst d0) ((PDict d0 # rest) @ []) [map fst d0]
               = ([map fst d0] @ map (csv_line (json_text rt) (map fst d0)) (PDict d0 # rest), None)"
    by (subst write_rows_fit) simp_all
  then have "csv_body rt data = (map fst d0 # map (csv_line (json_text rt) (map fst d0)) (PDict d0 # rest), None)"
    using a by (simp add: csv_body_def Let_def del: write_rows.simps)
  with a show "to_csv rt data output_path out =
          (output_path,
           write_file out output_path
             (Csv (map fst d0 # map (csv_line (json_text rt) (map fst d0)) (PDict d0 # rest))))"
    by (simp add: to_csv_def)
next
  assume a: "rt_open rt output_path = None \<and> data = PList (PDict d0 # rest)
        \<and> PDict d0 # rest = good @ bad # later
        \<and> (\<forall>row \<in> set good. row_fits rt (map fst d0) row) \<and> \<not> row_fits rt (map fst d0) bad"
  let ?w = "map fst d0 # map (csv_line (json_text rt) (map fst d0)) good"
  from a have bad: "\<not> row_fits rt (map fst d0) bad" by blast
  from write_rows_bad[OF bad, of later ?w] obtain x where
    x: "write_rows rt (map fst d0) (bad # later) ?w = (?w, Some x)"
    and x1: "(\<forall>d. bad \<noteq> PDict d) \<longrightarrow> x = AttributeError"
    and x2: "(\<exists>d. bad = PDict d \<and> (\<forall>kv \<in> set d. is_nested (snd kv) \<longrightarrow>
                     (case rt_json_dumps rt (snd kv) of Inr t \<Rightarrow> True | Inl e \<Rightarrow> False))) \<longrightarrow>
                   x = ValueError"
    by blast
  have "write_rows rt (map fst d0) (good @ bad # later) [map fst d0] = (?w, Some x)"
    using a x by (subst write_rows_fit) simp_all
  moreover from a have eq: "PDict d0 # rest = good @ bad # later" by blast
  ultimately have "csv_body rt (PList (PDict d0 # rest)) = (?w, Some x)"
    unfolding csv_body_list by (simp only: eq)
  moreover from a have "data = PList (PDict d0 # rest)" by blast
  ultimately have "csv_body rt data = (?w, Some x)" by (simp only:)
  with a have "to_csv rt data output_path out =
                (''Error creating CSV: '' @ rt_str_exn rt x, write_file out output_path (Csv ?w))"
    by (simp add: to_csv_def)
  with x1 x2 show "\<exists>x. to_csv rt data output_path out =
                (''Error creating CSV: '' @ rt_str_exn rt x,
                 write_file out output_path
                   (Csv (map fst d0 # map (csv_line (json_text rt) (map fst d0)) good)))
              \<and> ((\<forall>d. bad \<noteq> PDict d) \<longrightarrow> x = AttributeError)
              \<and> ((\<exists>d. bad = PDict d \<and> (\<forall>kv \<in> set d. is_nested (snd kv) \<longrightarrow>
                     (case rt_json_dumps rt (snd kv) of Inr t \<Rightarrow> True | Inl e \<Rightarrow> False))) \<longrightarrow>
                   x = ValueError)"
    by blast
next
  assume a: "truthy data \<and> rt_open rt output_path = None \<and> (\<forall>d0 rest. data \<noteq> PList (PDict d0 # rest))"
  then obtain w x where "csv_body rt data = (w, Some x)"
    using csv_body_other[of data rt] by blast
  with a show "\<exists>x written. to_csv rt data output_path out =
                (''Error creating CSV: '' @ rt_str_exn rt x, write_file out output_path (Csv written))"
    by (auto simp: to_csv_def)
qed

text \<open>The example runtime: which files open, and the texts it prints.\<close>

lemma example_open:
  "rt_open example_runtime ''output/x_converted.csv'' = None"
  "rt_open example_runtime ''output/locked_converted.csv'' = Some (LibraryError ''Permission denied'')"
  by (simp_all add: example_runtime_def)

lemma example_json_text: "json_text example_runtime v = ''[...]''"
  by (simp add: json_text_def example_runtime_def)

lemma example_json_dumps: "rt_json_dumps example_runtime v = Inr ''[...]''"
  by (simp add: example_runtime_def)

theorem to_csv_rows_witness:
  "to_csv example_runtime (PList []) ''output/x_converted.csv'' [] = (''No data to convert to CSV'', [])
   \<and> to_csv example_runtime example_rows ''output/locked_converted.csv'' [] = (''Error creating CSV: error'', [])
   \<and> to_csv example_runtime example_rows ''output/x_converted.csv'' [] =
       (''output/x_converted.csv'',
        [(''output/x_converted.csv'',
          Csv [[PStr ''a'', PStr ''b''], [PInt 1, PStr ''[...]''], [PStr [], PStr ''x'']])])
   \<and> to_csv example_runtime example_mixed_rows ''output/x_converted.csv'' [] =
       (''Error creating CSV: error'', [(''output/x_converted.csv'', Csv [[PStr ''a''], [PInt 1]])])
   \<and> to_csv example_runtime (PStr ''rows'') ''output/x_converted.csv'' [] =
       (''Error creating CSV: error'', [(''output/x_converted.csv'', Csv [])])"
proof -
  note r1 = to_csv_rows [where data = "PList []" and rt = example_runtime
      and output_path = "''output/x_converted.csv''" and out = "[]"]
  note r2 = to_csv_rows [where data = example_rows and rt = example_runtime
      and output_path = "''output/locked_converted.csv''" and out = "[]"
      and e = "LibraryError ''Permission denied''"]
  note r3 = to_csv_rows [where data = example_rows and rt = example_runtime
      and output_path = "''output/x_converted.csv''" and out = "[]"
      and ?d0.0 = "[(PStr ''a'', PInt 1), (PStr ''b'', PList [PInt 2, PInt 3])]"
      and rest = "[PDict [(PStr ''b'', PStr ''x'')]]"]
  note r4 = to_csv_rows [where data = example_mixed_rows and rt = example_runtime
      and output_path = "''output/x_converted.csv''" and out = "[]"
      and ?d0.0 = "[(PStr ''a'', PInt 1)]" and rest = "[PDict [(PStr ''b'', PInt 2)]]"
      and good = "[PDict [(PStr ''a'', PInt 1)]]" and bad = "PDict [(PStr ''b'', PInt 2)]" and later = "[]"]
  note r5 = to_csv_rows [where data = "PStr ''rows''" and rt = example_runtime
      and output_path = "''output/x_converted.csv''" and out = "[]"]
  from r1 have a: "to_csv example_runtime (PList []) ''output/x_converted.csv'' [] = (''No data to convert to CSV'', [])"
    by simp
  from r2 have b: "to_csv example_runtime example_rows ''output/locked_converted.csv'' []
      = (''Error creating CSV: error'', [])"
    by (simp add: example_open example_rows_def str_exn_example)
  from r3 have c: "to_csv example_runtime example_rows ''output/x_converted.csv'' [] =
       (''output/x_converted.csv'',
        [(''output/x_converted.csv'',
          Csv [[PStr ''a'', PStr ''b''], [PInt 1, PStr ''[...]''], [PStr [], PStr ''x'']])])"
    by (simp add: example_rows_def example_open example_json_text example_json_dumps json_cells_def dict_get_def)
  from r4 have d: "to_csv example_runtime example_mixed_rows ''output/x_converted.csv'' [] =
       (''Error creating CSV: error'', [(''output/x_converted.csv'', Csv [[PStr ''a''], [PInt 1]])])"
    by (auto simp add: example_mixed_rows_def example_open example_json_text str_exn_example
          json_cells_def dict_get_def)
  from r5 have "\<exists>x written. to_csv example_runtime (PStr ''rows'') ''output/x_converted.csv'' [] =
       (''Error creating CSV: '' @ rt_str_exn example_runtime x, write_file [] ''output/x_converted.csv'' (Csv written))"
    by (simp add: example_open)
  moreover have "snd (to_csv example_runtime (PStr ''rows'') ''output/x_converted.csv'' [])
       = [(''output/x_converted.csv'', Csv [])]"
    by (simp add: to_csv_def example_open csv_body_def)
  ultimately have e: "to_csv example_runtime (PStr ''rows'') ''output/x_converted.csv'' [] =
       (''Error creating CSV: error'', [(''output/x_converted.csv'', Csv [])])"
    by (auto simp: str_exn_example)
  from a b c d e show ?thesis by blast
qed

text \<open>
  The claim as stated fails on a non-empty sequence whose second row has a key the first
  row lacks: \<open>DictWriter.writerow\<close> raises \<open>ValueError\<close>, and \<open>to_csv\<close> returns an error
  text, not the output path, with the header and the first row left in the file.
\<close>

theorem to_csv_counterexample:
  "truthy example_mixed_rows
   \<and> rt_open example_runtime ''output/x_converted.csv'' = None
   \<and> to_csv example_runtime example_mixed_rows ''output/x_converted.csv'' [] =
         (''Error creating CSV: error'', [(''output/x_converted.csv'', Csv [[PStr ''a''], [PInt 1]])])
   \<and> fst (to_csv example_runtime example_mixed_rows ''output/x_converted.csv'' []) \<noteq> ''output/x_converted.csv''"
  by (simp add: example_mixed_rows_def to_csv_def csv_body_def writerow_def dict_get_def example_open
        str_exn_example)


section \<open>Properties of the application\<close>

lemma dict_of_pairs_fold:
  "\<forall>kv \<in> set ps. hashable (fst kv) \<Longrightarrow>
     dict_of_pairs acc ps = Inr (fold (\<lambda>kv acc. dict_set acc (fst kv) (snd kv)) ps acc)"
proof (induction ps arbitrary: acc)
  case Nil
  then show ?case by simp
next
  case (Cons kv ps)
  then show ?case by (cases kv) simp
qed

lemma dict_set_append:
  "k \<notin> set (map fst d) \<Longrightarrow> dict_set d k v = d @ [(k, v)]"
  by (induction d k v rule: dict_set.induct) auto

lemma fold_dict_set_distinct:
  "distinct (map fst ps) \<Longrightarrow> set (map fst ps) \<inter> set (map fst acc) = {} \<Longrightarrow>
     fold (\<lambda>kv acc. dict_set acc (fst kv) (snd kv)) ps acc = acc @ ps"
proof (induction ps arbitrary: acc)
  case Nil
  then show ?case by simp
next
  case (Cons kv ps)
  from Cons.prems have n: "fst kv \<notin> set (map fst acc)" by auto
  have "fold (\<lambda>kv acc. dict_set acc (fst kv) (snd kv)) ps (acc @ [kv]) = (acc @ [kv]) @ ps"
    using Cons.prems by (intro Cons.IH) auto
  with n show ?case by (simp add: dict_set_append)
qed

lemma zipped_row_distinct:
  assumes "distinct hs"
  shows "zipped_row hs (PList cells) = PDict (zip hs cells)"
proof -
  have "distinct (map fst (zip hs cells))"
    using assms by (simp add: distinct_zipI1 map_fst_zip_take)
  then show ?thesis using fold_dict_set_distinct[of "zip hs cells" "[]"] by simp
qed

lemma zip_rows_lists:
  assumes "\<forall>h \<in> set hs. hashable h" "\<forall>r \<in> set rows. \<exists>cells. r = PList cells"
  shows "zip_rows (PList hs) rows = Inr (map (zipped_row hs) rows)"
  using assms(2)
proof (induction rows)
  case Nil
  then show ?case by simp
next
  case (Cons r rows)
  then obtain cells where r: "r = PList cells" by auto
  have "\<forall>kv \<in> set (zip hs cells). hashable (fst kv)"
    using assms(1) by (auto dest: set_zip_leftD)
  from dict_of_pairs_fold[OF this, of "[]"] Cons r show ?case by simp
qed

lemma first_table_rows_lists:
  assumes "\<forall>h \<in> set hs. hashable h" "\<forall>r \<in> set rows. \<exists>cells. r = PList cells"
  shows "first_table_rows (PList (PList hs # rows)) = Inr (PList (map (zipped_row hs) rows))"
  using zip_rows_lists[OF assms] by (cases rows) (simp_all add: first_table_rows_def)


lemma process_file_format_output:
  assumes "validate_file (rt_size_mb rt) fs file_path = (True, msg)"
    and "converter_for cv (lower (splitext_ext file_path)) = Some conv"
    and "map_of (conv file_path) (PStr ''error'') = None"
    and "clean_record clean remove_urls remove_extra_spaces lowercase (conv file_path) = Inr cleaned"
    and "get_statistics cleaned = Inr stats"
    and "format_statistics rt stats = Inr stats_text"
  shows "process_file rt cv fs out file_path output_format clean remove_urls remove_extra_spaces lowercase
           = format_output rt out file_path output_format cleaned stats_text"
  using assms by (simp add: process_file_def Let_def)

lemma format_output_no_tabular:
  assumes "extract_tabular_data data = Inr rows" "\<not> truthy rows"
  shows "format_output rt out file_path ''CSV'' data stats_text
           = ((PStr ''No tabular data found for CSV export'', [], None, stats_text), out)"
  using assms by (simp add: format_output_def Let_def)

lemma validate_file_valid:
  assumes "fs p = Some sz" "lower (splitext_ext p) = ext" "map_of SUPPORTED_EXTENSIONS ext = Some label"
    "0 < sz" "sz \<le> MAX_FILE_SIZE"
  shows "validate_file mb fs p = (True, ''Valid '' @ label)"
proof -
  from assms(3) have "ext \<in> set (map fst SUPPORTED_EXTENSIONS)"
    by (metis map_of_eq_None_iff option.distinct(1) set_map)
  with assms show ?thesis by (simp add: validate_file_def Let_def)
qed

lemma ext_notes: "lower (splitext_ext ''in/notes.txt'') = ''.txt''" by code_simp

lemma validate_notes: "validate_file mb example_inputs ''in/notes.txt'' = (True, ''Valid Text File'')"
  using validate_file_valid[of example_inputs "''in/notes.txt''" 5 "''.txt''" "''Text File''" mb] ext_notes
  by (simp add: example_inputs_def SUPPORTED_EXTENSIONS_def MAX_FILE_SIZE_def)

lemma converter_txt: "converter_for cv ''.txt'' = Some (text_extract cv)"
  by (simp add: converter_for_def)

lemma clean_abc: "clean_text ''a b c'' (Some (cleaning_options True True False)) = ''a b c''"
  by code_simp

lemma clean_record_text: "clean_record True True True False example_text_record = Inr example_text_record"
  by (simp add: clean_record_def example_text_record_def clean_abc)

lemma statistics_text: "get_statistics example_text_record =
   Inr [(PStr ''document_type'', PStr ''Text File''), (PStr ''total_size'', PInt 0),
        (PStr ''text_length'', PInt 5), (PStr ''word_count'', PInt 3),
        (PStr ''has_tables'', PBool False), (PStr ''table_count'', PInt 0)]"
  by code_simp

lemma format_statistics_text: "\<exists>t. format_statistics example_runtime
        [(PStr ''document_type'', PStr ''Text File''), (PStr ''total_size'', PInt 0),
        (PStr ''text_length'', PInt 5), (PStr ''word_count'', PInt 3),
        (PStr ''has_tables'', PBool False), (PStr ''table_count'', PInt 0)] = Inr t"
  by (simp add: format_statistics_def)

lemma tabular_text: "extract_tabular_data example_text_record = Inr (PList [])"
  by (simp add: extract_tabular_data_def example_text_record_def)


text \<open>
  Claim C4. The rows \<open>_extract_tabular_data\<close> selects for the CSV export follow the first
  rule that applies: the value of \<open>data\<close> if the record has that key; else the value of
  \<open>all_data\<close> if it has that key; else, if \<open>tables\<close> holds a first table whose \<open>data\<close> is a
  header row \<open>hs\<close> followed by rows, each remaining row zipped against the header (with
  distinct header cells, the row's cells paired with the header cells in order; none when
  the table has the header row only); else, with no \<open>tables\<close>, an empty \<open>tables\<close> or an empty
  first table, no rows. When the selected rows are empty, the CSV branch of \<open>process_file\<close>
  returns the message \<open>No tabular data found for CSV export\<close> with no download path and
  leaves the output files as they are; \<open>process_file\<close> is that branch whenever validation,
  extraction, cleaning and the statistics go through.
\<close>

theorem extract_tabular_data_rules:
  "(map_of data (PStr ''data'') = Some rows \<longrightarrow> extract_tabular_data data = Inr rows)
   \<and> (map_of data (PStr ''data'') = None \<and> map_of data (PStr ''all_data'') = Some rows \<longrightarrow>
        extract_tabular_data data = Inr rows)
   \<and> (map_of data (PStr ''data'') = None \<and> map_of data (PStr ''all_data'') = None
        \<and> map_of data (PStr ''tables'') = Some (PList (PDict table # tables))
        \<and> map_of table (PStr ''data'') = Some (PList (PList hs # trows))
        \<and> (\<forall>h \<in> set hs. hashable h) \<and> (\<forall>r \<in> set trows. \<exists>cells. r = PList cells) \<longrightarrow>
        extract_tabular_data data = Inr (PList (map (zipped_row hs) trows)))
   \<and> (distinct hs \<longrightarrow> zipped_row hs (PList cells) = PDict (zip hs cells))
   \<and> (map_of data (PStr ''data'') = None \<and> map_of data (PStr ''all_data'') = None
        \<and> (map_of data (PStr ''tables'') = None
             \<or> (\<exists>ts. map_of data (PStr ''tables'') = Some ts \<and> \<not> truthy ts)
             \<or> (\<exists>table tables ft. map_of data (PStr ''tables'') = Some (PList (PDict table # tables))
                    \<and> map_of table (PStr ''data'') = Some ft \<and> \<not> truthy ft)) \<longrightarrow>
        extract_tabular_data data = Inr (PList []))
   \<and> (extract_tabular_data data = Inr rows \<and> \<not> truthy rows \<longrightarrow>
        format_output rt out file_path ''CSV'' data stats_text
          = ((PStr ''No tabular data found for CSV export'', [], None, stats_text), out))
   \<and> (validate_file (rt_size_mb rt) fs file_path = (True, msg)
        \<and> converter_for cv (lower (splitext_ext file_path)) = Some conv
        \<and> map_of (conv file_path) (PStr ''error'') = None
        \<and> clean_record clean remove_urls remove_extra_spaces lowercase (conv file_path) = Inr data
        \<and> get_statistics data = Inr stats
        \<and> format_statistics rt stats = Inr stats_text \<longrightarrow>
        process_file rt cv fs out file_path output_format clean remove_urls remove_extra_spaces lowercase
          = format_output rt out file_path output_format data stats_text)"
proof (intro conjI impI)
  assume a: "map_of data (PStr ''data'') = None \<and> map_of data (PStr ''all_data'') = None
        \<and> map_of data (PStr ''tables'') = Some (PList (PDict table # tables))
        \<and> map_of table (PStr ''data'') = Some (PList (PList hs # trows))
        \<and> (\<forall>h \<in> set hs. hashable h) \<and> (\<forall>r \<in> set trows. \<exists>cells. r = PList cells)"
  then have "first_table_rows (PList (PList hs # trows)) = Inr (PList (map (zipped_row hs) trows))"
    by (intro first_table_rows_lists) auto
  with a show "extract_tabular_data data = Inr (PList (map (zipped_row hs) trows))"
    by (simp add: extract_tabular_data_def dict_item_def)
next
  assume a: "map_of data (PStr ''data'') = None \<and> map_of data (PStr ''all_data'') = None
        \<and> (map_of data (PStr ''tables'') = None
             \<or> (\<exists>ts. map_of data (PStr ''tables'') = Some ts \<and> \<not> truthy ts)
             \<or> (\<exists>table tables ft. map_of data (PStr ''tables'') = Some (PList (PDict table # tables))
                    \<and> map_of table (PStr ''data'') = Some ft \<and> \<not> truthy ft))"
  then show "extract_tabular_data data = Inr (PList [])"
    by (auto simp: extract_tabular_data_def dict_item_def first_table_rows_def)
next
  assume "distinct hs"
  then show "zipped_row hs (PList cells) = PDict (zip hs cells)" by (rule zipped_row_distinct)
next
  assume "extract_tabular_data data = Inr rows \<and> \<not> truthy rows"
  then show "format_output rt out file_path ''CSV'' data stats_text
          = ((PStr ''No tabular data found for CSV export'', [], None, stats_text), out)"
    by (simp add: format_output_no_tabular)
next
  assume "validate_file (rt_size_mb rt) fs file_path = (True, msg)
        \<and> converter_for cv (lower (splitext_ext file_path)) = Some conv
        \<and> map_of (conv file_path) (PStr ''error'') = None
        \<and> clean_record clean remove_urls remove_extra_spaces lowercase (conv file_path) = Inr data
        \<and> get_statistics data = Inr stats
        \<and> format_statistics rt stats = Inr stats_text"
  then show "process_file rt cv fs out file_path output_format clean remove_urls remove_extra_spaces lowercase
          = format_output rt out file_path output_format data stats_text"
    by (simp add: process_file_format_output)
qed (simp_all add: extract_tabular_data_def)


theorem extract_tabular_data_rules_witness:
  "extract_tabular_data example_pdf_record =
      Inr (PList [PDict [(PStr ''Name'', PStr ''Ann''), (PStr ''Age'', PStr ''30'')],
                  PDict [(PStr ''Name'', PStr ''Bob''), (PStr ''Age'', PStr ''41'')]])
   \<and> extract_tabular_data example_text_record = Inr (PList [])
   \<and> (\<exists>stats_text.
         process_file example_runtime example_converters example_inputs [] ''in/notes.txt'' ''CSV''
           True True True False
         = ((PStr ''No tabular data found for CSV export'', [], None, stats_text), []))"
proof -
  let ?table = "[(PStr ''page'', PInt 1), (PStr ''table_index'', PInt 1), (PStr ''rows'', PInt 3),
                 (PStr ''columns'', PInt 2),
                 (PStr ''data'', PList [PList [PStr ''Name'', PStr ''Age''],
                                        PList [PStr ''Ann'', PStr ''30''],
                                        PList [PStr ''Bob'', PStr ''41'']])]"
  let ?hs = "[PStr ''Name'', PStr ''Age'']"
  let ?trows = "[PList [PStr ''Ann'', PStr ''30''], PList [PStr ''Bob'', PStr ''41'']]"
  note r = extract_tabular_data_rules [where data = example_pdf_record and table = ?table
      and tables = "[]" and hs = ?hs and trows = ?trows]
  have z: "\<And>cells. zipped_row ?hs (PList cells) = PDict (zip ?hs cells)"
    using extract_tabular_data_rules [where hs = ?hs] by simp
  from r have a: "extract_tabular_data example_pdf_record = Inr (PList (map (zipped_row ?hs) ?trows))"
    by (simp add: example_pdf_record_def)
  have a': "extract_tabular_data example_pdf_record =
      Inr (PList [PDict [(PStr ''Name'', PStr ''Ann''), (PStr ''Age'', PStr ''30'')],
                  PDict [(PStr ''Name'', PStr ''Bob''), (PStr ''Age'', PStr ''41'')]])"
    unfolding a by (simp add: z)
  from format_statistics_text obtain st where st: "format_statistics example_runtime
        [(PStr ''document_type'', PStr ''Text File''), (PStr ''total_size'', PInt 0),
        (PStr ''text_length'', PInt 5), (PStr ''word_count'', PInt 3),
        (PStr ''has_tables'', PBool False), (PStr ''table_count'', PInt 0)] = Inr st" ..
  note q = extract_tabular_data_rules [where data = example_text_record and rows = "PList []"
      and rt = example_runtime and fs = example_inputs and file_path = "''in/notes.txt''"
      and msg = "''Valid Text File''" and cv = example_converters
      and conv = "text_extract example_converters" and clean = True and remove_urls = True
      and remove_extra_spaces = True and lowercase = False and stats_text = st and out = "[]"
      and output_format = "''CSV''"
      and stats = "[(PStr ''document_type'', PStr ''Text File''), (PStr ''total_size'', PInt 0),
        (PStr ''text_length'', PInt 5), (PStr ''word_count'', PInt 3),
        (PStr ''has_tables'', PBool False), (PStr ''table_count'', PInt 0)]"]
  have x: "text_extract example_converters ''in/notes.txt'' = example_text_record"
    by (simp add: example_converters_def)
  have n: "map_of example_text_record (PStr ''error'') = None"
    by (simp add: example_text_record_def)
  have p: "process_file example_runtime example_converters example_inputs [] ''in/notes.txt'' ''CSV''
           True True True False
         = format_output example_runtime [] ''in/notes.txt'' ''CSV'' example_text_record st"
    using q validate_notes ext_notes converter_txt x n clean_record_text statistics_text st
    by simp
  have f: "format_output example_runtime [] ''in/notes.txt'' ''CSV'' example_text_record st
         = ((PStr ''No tabular data found for CSV export'', [], None, st), [])"
    using q tabular_text by simp
  from a' tabular_text p f show ?thesis by simp
qed






























section \<open>Properties of the extractors\<close>

text \<open>The loops of the extractors, on lists of results that are all there, and on
  lists with a first failure.\<close>

lemma numbered_Cons: "numbered (x # xs) = (1, x) # map (\<lambda>(i, y). (Suc i, y)) (numbered xs)"
proof -
  have "[1..<Suc (Suc (length xs))] = 1 # map Suc [1..<Suc (length xs)]"
    by (simp add: upt_conv_Cons map_Suc_upt del: upt_Suc)
  then show ?thesis
    by (simp add: numbered_def zip_map1 del: upt_Suc)
qed

lemma numbered_Nil [simp]: "numbered [] = []"
  by (simp add: numbered_def)

lemma pdf_pages_ok:
  "pdf_pages (map Inr texts) n = Inr (map (\<lambda>(i, t). page_record (n + i) t) (numbered texts), texts)"
proof (induction texts arbitrary: n)
  case Nil
  then show ?case by simp
next
  case (Cons t texts)
  have "map (\<lambda>(i, t). page_record (n + i) t) (map (\<lambda>(i, y). (Suc i, y)) (numbered texts))
          = map (\<lambda>(i, t). page_record (n + 1 + i) t) (numbered texts)"
    by (simp add: case_prod_unfold)
  then show ?case
    using Cons[of "n + 1"] by (simp add: numbered_Cons page_record_def)
qed

lemma pdf_pages_fail: "pdf_pages (map Inr texts @ Inl e # later) n = Inl e"
  by (induction texts arbitrary: n) simp_all

lemma pdf_all_tables_fail:
  "pdf_all_tables (pages @ Inl e # later) n acc = pdf_all_tables pages n acc"
proof (induction pages arbitrary: n acc)
  case Nil
  then show ?case by simp
next
  case (Cons page pages)
  then show ?case by (cases page) (auto split: prod.splits option.splits)
qed

lemma pdf_page_tables_ok:
  assumes "\<forall>t \<in> set tables. truthy t \<longrightarrow> grid_table t"
  shows "pdf_page_tables n tables j acc
           = (acc @ map (\<lambda>(k, t). table_record (n + 1) (j + k) t)
                      (filter (\<lambda>(k, t). truthy t) (numbered tables)), None)"
  using assms
proof (induction tables arbitrary: j acc)
  case Nil
  then show ?case by simp
next
  case (Cons t tables)
  from Cons.prems have rest: "\<forall>t \<in> set tables. truthy t \<longrightarrow> grid_table t" by simp
  have shift: "map (\<lambda>(k, t). table_record (n + 1) (j + k) t)
                  (filter (\<lambda>(k, t). truthy t) (map (\<lambda>(i, y). (Suc i, y)) (numbered tables)))
             = map (\<lambda>(k, t). table_record (n + 1) (j + 1 + k) t)
                  (filter (\<lambda>(k, t). truthy t) (numbered tables))"
    by (simp add: filter_map comp_def case_prod_unfold)
  show ?case
  proof (cases "truthy t")
    case False
    then show ?thesis
      using Cons.IH[OF rest, of "j + 1" acc] shift by (simp add: numbered_Cons)
  next
    case True
    with Cons.prems have "grid_table t" by simp
    then obtain cells rows where t: "t = PList (PList cells # rows)"
      by (elim grid_table.elims) auto
    show ?thesis
      using Cons.IH[OF rest, of "j + 1"] shift t True by (simp add: numbered_Cons)
  qed
qed

lemma pdf_all_tables_ok:
  assumes "\<forall>tables \<in> set pages. \<forall>t \<in> set tables. truthy t \<longrightarrow> grid_table t"
  shows "pdf_all_tables (map Inr pages) n acc
           = acc @ concat (map (\<lambda>(i, tables). map (\<lambda>(k, t). table_record (n + i) k t)
                                   (filter (\<lambda>(k, t). truthy t) (numbered tables)))
                             (numbered pages))"
  using assms
proof (induction pages arbitrary: n acc)
  case Nil
  then show ?case by simp
next
  case (Cons tables pages)
  from Cons.prems have t: "\<forall>t \<in> set tables. truthy t \<longrightarrow> grid_table t"
    and rest: "\<forall>tables \<in> set pages. \<forall>t \<in> set tables. truthy t \<longrightarrow> grid_table t" by simp_all
  let ?F = "\<lambda>n. \<lambda>(i, tables). map (\<lambda>(k, t). table_record (n + i) k t)
                                   (filter (\<lambda>(k, t). truthy t) (numbered tables))"
  let ?X = "map (\<lambda>(k, t). table_record (n + 1) k t) (filter (\<lambda>(k, t). truthy t) (numbered tables))"
  have shift: "map (?F n) (map (\<lambda>(i, y). (Suc i, y)) (numbered pages)) = map (?F (n + 1)) (numbered pages)"
    by (simp add: case_prod_unfold)
  have "pdf_all_tables (map Inr (tables # pages)) n acc = pdf_all_tables (map Inr pages) (n + 1) (acc @ ?X)"
    using pdf_page_tables_ok[OF t, of n 0 acc] by simp
  also have "\<dots> = (acc @ ?X) @ concat (map (?F (n + 1)) (numbered pages))"
    by (rule Cons.IH[OF rest])
  also have "\<dots> = acc @ concat (map (?F n) (numbered (tables # pages)))"
    unfolding numbered_Cons list.map concat.simps shift by simp
  finally show ?case .
qed

lemma word_paragraphs_ok:
  assumes "\<forall>para \<in> set paras. non_blank para \<longrightarrow> (\<exists>name. snd para = Inr name)"
  shows "word_paragraphs paras
           = Inr (map paragraph_record (filter non_blank paras), map fst (filter non_blank paras))"
  using assms
proof (induction paras)
  case Nil
  then show ?case by simp
next
  case (Cons para paras)
  obtain t st where p: "para = (t, st)" by (cases para)
  from Cons have IH: "word_paragraphs paras
           = Inr (map paragraph_record (filter non_blank paras), map fst (filter non_blank paras))"
    by simp
  have nb: "non_blank para \<longleftrightarrow> strip t \<noteq> []" by (simp add: p non_blank_def)
  show ?case
  proof (cases "strip t = []")
    case True
    then show ?thesis using IH p nb by simp
  next
    case False
    with Cons.prems nb p obtain name where "st = Inr name" by auto
    then show ?thesis using IH p False nb by (simp add: paragraph_record_def)
  qed
qed

lemma word_paragraphs_fail:
  assumes "\<forall>para \<in> set before. non_blank para \<longrightarrow> (\<exists>name. snd para = Inr name)"
    and "strip t \<noteq> []"
  shows "word_paragraphs (before @ (t, Inl e) # later) = Inl e"
  using assms
proof (induction before)
  case Nil
  then show ?case by simp
next
  case (Cons para before)
  obtain t' st where p: "para = (t', st)" by (cases para)
  from Cons have IH: "word_paragraphs (before @ (t, Inl e) # later) = Inl e" by simp
  show ?case
  proof (cases "strip t' = []")
    case True
    then show ?thesis using IH p by simp
  next
    case False
    with Cons.prems p obtain name where "st = Inr name" by (auto simp: non_blank_def)
    then show ?thesis using IH p False by simp
  qed
qed

lemma word_tables_fail: "word_tables (tables @ Inl e # later) j acc = word_tables tables j acc"
proof (induction tables arbitrary: j acc)
  case Nil
  then show ?case by simp
next
  case (Cons t tables)
  then show ?case by (cases t) auto
qed

lemma word_tables_ok:
  "word_tables (map Inr grids) j acc = acc @ map (\<lambda>(k, grid). grid_record (j + k) grid) (numbered grids)"
proof (induction grids arbitrary: j acc)
  case Nil
  then show ?case by simp
next
  case (Cons grid grids)
  have "map (\<lambda>(k, grid). grid_record (j + k) grid) (map (\<lambda>(i, y). (Suc i, y)) (numbered grids))
          = map (\<lambda>(k, grid). grid_record (j + 1 + k) grid) (numbered grids)"
    by (simp add: case_prod_unfold)
  then show ?case
    using Cons[of "j + 1"] by (simp add: numbered_Cons grid_record_def)
qed

lemma excel_sheets_ok:
  assumes "map (read_excel lib p) sheets = map Inr frames"
  shows "excel_sheets lib p sheets
           = Inr (map (\<lambda>(name, df). sheet_record name df) (zip sheets frames), concat (map df_records frames))"
  using assms
proof (induction sheets arbitrary: frames)
  case Nil
  then show ?case by simp
next
  case (Cons name sheets)
  then obtain df dfs where f: "frames = df # dfs" "read_excel lib p name = Inr df"
      "map (read_excel lib p) sheets = map Inr dfs"
    by (cases frames) auto
  from Cons.IH[OF f(3)] f show ?case
    by (simp add: sheet_record_def excel_statistics_def)
qed

lemma excel_sheets_fail:
  assumes "map (read_excel lib p) before = map Inr frames" "read_excel lib p bad = Inl e"
  shows "excel_sheets lib p (before @ bad # later) = Inl e"
  using assms
proof (induction before arbitrary: frames)
  case Nil
  then show ?case by simp
next
  case (Cons name sheets)
  then obtain df dfs where f: "frames = df # dfs" "read_excel lib p name = Inr df"
      "map (read_excel lib p) sheets = map Inr dfs"
    by (cases frames) auto
  from Cons.IH[OF f(3) Cons.prems(2)] f show ?case by simp
qed


lemma numbered_lines_eq:
  "numbered_lines n lines
     = map (\<lambda>(i, line). PDict [(PStr ''line_number'', PInt (int (n + i))), (PStr ''text'', PStr line)])
         (filter (\<lambda>(i, line). strip line \<noteq> []) (numbered lines))"
proof (induction lines arbitrary: n)
  case Nil
  then show ?case by simp
next
  case (Cons line lines)
  let ?F = "\<lambda>n. \<lambda>(i, line). PDict [(PStr ''line_number'', PInt (int (n + i))), (PStr ''text'', PStr line)]"
  have shift: "map (?F n) (filter (\<lambda>(i, line). strip line \<noteq> []) (map (\<lambda>(i, y). (Suc i, y)) (numbered lines)))
             = map (?F (n + 1)) (filter (\<lambda>(i, line). strip line \<noteq> []) (numbered lines))"
    by (simp add: filter_map comp_def case_prod_unfold)
  show ?case
    using Cons[of "n + 1"] shift by (simp add: numbered_Cons)
qed

text \<open>
  Claim C5, as amended. For every file path and every behaviour of the library calls,
  \<open>extract\<close> of each extractor returns a mapping and raises nothing. When the file cannot be
  opened, when a page's text, a paragraph's style, the paragraphs, a sheet, the text or
  the CSV rows cannot be read, when the metadata cannot be read, or when closing the PDF
  fails, with the exception \<open>e\<close>, the mapping is
  \<open>{error: "Failed to extract <kind>: " + str(e), document_type: <tag>}\<close> and has no other
  field; kind and tag are \<open>PDF\<close> and \<open>PDF\<close>, \<open>Word document\<close> and \<open>Word Document\<close>,
  \<open>Excel file\<close> and \<open>Excel Spreadsheet\<close>, \<open>text file\<close> and \<open>Text File\<close> (also for a CSV
  file). A failure while the tables of a PDF or of a Word document are read is not
  reported: \<open>_extract_tables\<close> catches it, and the result is the ordinary record, its
  tables being the ones read before the failure (none when the document cannot be opened
  for the tables). When nothing fails the mapping is the record of the file, as spelled
  out below; it has no field \<open>error\<close>.
\<close>

theorem extract_error_policy:
  "error_record rt kind tag e =
     [(PStr ''error'', PStr (''Failed to extract '' @ kind @ '': '' @ rt_str_exn rt e)),
      (PStr ''document_type'', PStr tag)]
   \<and> (fitz_open lib p = Inl e \<longrightarrow>
        PDFConverter_extract rt lib p = Inr (error_record rt ''PDF'' ''PDF'' e))
   \<and> (fitz_open lib p = Inr doc \<and> pdf_page_texts doc = map Inr texts @ Inl e # later \<longrightarrow>
        PDFConverter_extract rt lib p = Inr (error_record rt ''PDF'' ''PDF'' e))
   \<and> (fitz_open lib p = Inr doc \<and> pdf_page_texts doc = map Inr texts \<and> pdf_metadata doc = Inl e \<longrightarrow>
        PDFConverter_extract rt lib p = Inr (error_record rt ''PDF'' ''PDF'' e))
   \<and> (fitz_open lib p = Inr doc \<and> pdf_page_texts doc = map Inr texts \<and> pdf_metadata doc = Inr md
        \<and> pdf_close doc = Some e \<longrightarrow>
        PDFConverter_extract rt lib p = Inr (error_record rt ''PDF'' ''PDF'' e))
   \<and> (fitz_open lib p = Inr doc \<and> pdf_page_texts doc = map Inr texts \<and> pdf_metadata doc = Inr md
        \<and> pdf_close doc = None \<longrightarrow>
        PDFConverter_extract rt lib p =
          Inr [(PStr ''document_type'', PStr ''PDF''),
               (PStr ''total_pages'', PInt (int (length texts))),
               (PStr ''full_text'', PStr (join (''\<newline>'' @ ''\<newline>'') texts)),
               (PStr ''pages'', PList (map (\<lambda>(i, t). page_record i t) (numbered texts))),
               (PStr ''tables'', PList (pdf_extract_tables lib p)),
               (PStr ''metadata'',
                  PDict [(PStr ''title'', dict_get md (PStr ''title'') (PStr ''N/A'')),
                         (PStr ''author'', dict_get md (PStr ''author'') (PStr ''N/A'')),
                         (PStr ''subject'', dict_get md (PStr ''subject'') (PStr ''N/A'')),
                         (PStr ''creator'', dict_get md (PStr ''creator'') (PStr ''N/A'')),
                         (PStr ''producer'', dict_get md (PStr ''producer'') (PStr ''N/A'')),
                         (PStr ''creation_date'', dict_get md (PStr ''creationDate'') (PStr ''N/A'')),
                         (PStr ''modification_date'', dict_get md (PStr ''modDate'') (PStr ''N/A''))])])
   \<and> (pdfplumber_pages lib p = Inl e \<longrightarrow> pdf_extract_tables lib p = [])
   \<and> (pdfplumber_pages lib p = Inr (pages @ Inl e # later_pages) \<longrightarrow>
        pdf_extract_tables lib p = pdf_extract_tables (lib\<lparr>pdfplumber_pages := \<lambda>q. Inr pages\<rparr>) p)
   \<and> (pdfplumber_pages lib p = Inr (map Inr page_tables)
        \<and> (\<forall>tables \<in> set page_tables. \<forall>t \<in> set tables. truthy t \<longrightarrow> grid_table t) \<longrightarrow>
        pdf_extract_tables lib p =
          concat (map (\<lambda>(i, tables). map (\<lambda>(k, t). table_record i k t)
                                        (filter (\<lambda>(k, t). truthy t) (numbered tables)))
                    (numbered page_tables)))
   \<and> (docx_document lib p = Inl e \<longrightarrow>
        WordConverter_extract rt lib p = Inr (error_record rt ''Word document'' ''Word Document'' e))
   \<and> (docx_document lib p = Inr wdoc \<and> wd_paragraphs wdoc = Inl e \<longrightarrow>
        WordConverter_extract rt lib p = Inr (error_record rt ''Word document'' ''Word Document'' e))
   \<and> (docx_document lib p = Inr wdoc \<and> wd_paragraphs wdoc = Inr (before @ (t, Inl e) # later_paras)
        \<and> strip t \<noteq> [] \<and> (\<forall>para \<in> set before. non_blank para \<longrightarrow> (\<exists>name. snd para = Inr name)) \<longrightarrow>
        WordConverter_extract rt lib p = Inr (error_record rt ''Word document'' ''Word Document'' e))
   \<and> (docx_document lib p = Inr wdoc \<and> wd_paragraphs wdoc = Inr paras
        \<and> (\<forall>para \<in> set paras. non_blank para \<longrightarrow> (\<exists>name. snd para = Inr name))
        \<and> wd_core_properties wdoc = Inl e \<longrightarrow>
        WordConverter_extract rt lib p = Inr (error_record rt ''Word document'' ''Word Document'' e))
   \<and> (docx_document lib p = Inr wdoc \<and> wd_paragraphs wdoc = Inr paras
        \<and> (\<forall>para \<in> set paras. non_blank para \<longrightarrow> (\<exists>name. snd para = Inr name))
        \<and> wd_core_properties wdoc = Inr props \<longrightarrow>
        WordConverter_extract rt lib p =
          Inr [(PStr ''document_type'', PStr ''Word Document''),
               (PStr ''total_paragraphs'', PInt (int (length (filter non_blank paras)))),
               (PStr ''total_tables'', PInt (int (length (word_extract_tables wdoc)))),
               (PStr ''full_text'', PStr (join (''\<newline>'' @ ''\<newline>'') (map fst (filter non_blank paras)))),
               (PStr ''paragraphs'', PList (map paragraph_record (filter non_blank paras))),
               (PStr ''tables'', PList (word_extract_tables wdoc)),
               (PStr ''metadata'',
                  PDict [(PStr ''title'', if truthy (cp_title props) then cp_title props else PStr ''N/A''),
                         (PStr ''author'', if truthy (cp_author props) then cp_author props else PStr ''N/A''),
                         (PStr ''subject'', if truthy (cp_subject props) then cp_subject props else PStr ''N/A''),
                         (PStr ''keywords'', if truthy (cp_keywords props) then cp_keywords props else PStr ''N/A''),
                         (PStr ''created'', if truthy (cp_created props) then PStr (py_str rt (cp_created props))
                                            else PStr ''N/A''),
                         (PStr ''modified'', if truthy (cp_modified props) then PStr (py_str rt (cp_modified props))
                                            else PStr ''N/A''),
                         (PStr ''last_modified_by'', if truthy (cp_last_modified_by props)
                                            then cp_last_modified_by props else PStr ''N/A'')])])
   \<and> (wd_tables wdoc = Inl e \<longrightarrow> word_extract_tables wdoc = [])
   \<and> (wd_tables wdoc = Inr (tabs @ Inl e # later_tabs) \<longrightarrow>
        word_extract_tables wdoc = word_extract_tables (wdoc\<lparr>wd_tables := Inr tabs\<rparr>))
   \<and> (wd_tables wdoc = Inr (map Inr grids) \<longrightarrow>
        word_extract_tables wdoc = map (\<lambda>(k, grid). grid_record k grid) (numbered grids))
   \<and> (excel_sheet_names lib p = Inl e \<longrightarrow>
        ExcelConverter_extract rt lib p = Inr (error_record rt ''Excel file'' ''Excel Spreadsheet'' e))
   \<and> (excel_sheet_names lib p = Inr (before_sheets @ bad # later_sheets)
        \<and> map (read_excel lib p) before_sheets = map Inr before_frames \<and> read_excel lib p bad = Inl e \<longrightarrow>
        ExcelConverter_extract rt lib p = Inr (error_record rt ''Excel file'' ''Excel Spreadsheet'' e))
   \<and> (excel_sheet_names lib p = Inr sheets \<and> map (read_excel lib p) sheets = map Inr frames \<longrightarrow>
        ExcelConverter_extract rt lib p =
          Inr [(PStr ''document_type'', PStr ''Excel Spreadsheet''),
               (PStr ''total_sheets'', PInt (int (length sheets))),
               (PStr ''sheet_names'', PList sheets),
               (PStr ''sheets'', PList (map (\<lambda>(name, df). sheet_record name df) (zip sheets frames))),
               (PStr ''all_data'', PList (concat (map df_records frames))),
               (PStr ''metadata'',
                  PDict [(PStr ''file_type'', PStr ''Excel Spreadsheet''),
                         (PStr ''format'', extension_upper p)])])
   \<and> (\<not> ends_with ''.csv'' (lower p) \<and> read_text lib p (detect_encoding lib p) = Inl e \<longrightarrow>
        TextConverter_extract rt lib p = Inr (error_record rt ''text file'' ''Text File'' e))
   \<and> (\<not> ends_with ''.csv'' (lower p) \<and> read_text lib p (detect_encoding lib p) = Inr content \<longrightarrow>
        TextConverter_extract rt lib p =
          Inr [(PStr ''document_type'', PStr ''Text File''),
               (PStr ''encoding'', PStr (detect_encoding lib p)),
               (PStr ''total_lines'', PInt (int (length (split_on (CHR 0x0A) content)))),
               (PStr ''total_characters'', PInt (int (length content))),
               (PStr ''word_count'', PInt (int (length (split_ws content)))),
               (PStr ''full_text'', PStr content),
               (PStr ''lines'',
                  PList (map (\<lambda>(i, line). PDict [(PStr ''line_number'', PInt (int i)), (PStr ''text'', PStr line)])
                           (filter (\<lambda>(i, line). strip line \<noteq> []) (numbered (split_on (CHR 0x0A) content))))),
               (PStr ''metadata'',
                  PDict [(PStr ''encoding'', PStr (detect_encoding lib p)),
                         (PStr ''file_extension'', extension_upper p)])])
   \<and> (ends_with ''.csv'' (lower p) \<and> read_csv lib p (detect_encoding lib p) = Inl e \<longrightarrow>
        TextConverter_extract rt lib p = Inr (error_record rt ''text file'' ''Text File'' e))
   \<and> (ends_with ''.csv'' (lower p) \<and> read_csv lib p (detect_encoding lib p) = Inr (headers, rows) \<longrightarrow>
        TextConverter_extract rt lib p =
          Inr [(PStr ''document_type'', PStr ''CSV File''),
               (PStr ''encoding'', PStr (detect_encoding lib p)),
               (PStr ''total_rows'', PInt (int (length rows))),
               (PStr ''total_columns'', PInt (case headers of None \<Rightarrow> 0 | Some hs \<Rightarrow> int (length hs))),
               (PStr ''headers'', (case headers of None \<Rightarrow> PNone | Some hs \<Rightarrow> PList hs)),
               (PStr ''data'', PList rows),
               (PStr ''preview'', PList (take 10 rows)),
               (PStr ''metadata'',
                  PDict [(PStr ''encoding'', PStr (detect_encoding lib p)),
                         (PStr ''file_extension'', extension_upper p)])])"
  apply (intro conjI impI)
  subgoal by (simp add: error_record_def)
  subgoal by (simp add: PDFConverter_extract_def pdf_try_def)
  subgoal by (simp add: PDFConverter_extract_def pdf_try_def pdf_pages_fail)
  subgoal by (simp add: PDFConverter_extract_def pdf_try_def pdf_pages_ok pdf_get_metadata_def)
  subgoal by (simp add: PDFConverter_extract_def pdf_try_def pdf_pages_ok pdf_get_metadata_def)
  subgoal by (simp add: PDFConverter_extract_def pdf_try_def pdf_pages_ok pdf_get_metadata_def)
  subgoal by (simp add: pdf_extract_tables_def)
  subgoal by (simp add: pdf_extract_tables_def pdf_all_tables_fail)
  subgoal by (simp add: pdf_extract_tables_def pdf_all_tables_ok)
  subgoal by (simp add: WordConverter_extract_def word_try_def)
  subgoal by (simp add: WordConverter_extract_def word_try_def)
  subgoal by (simp add: WordConverter_extract_def word_try_def word_paragraphs_fail)
  subgoal by (simp add: WordConverter_extract_def word_try_def word_paragraphs_ok word_get_metadata_def)
  subgoal by (simp add: WordConverter_extract_def word_try_def word_paragraphs_ok word_get_metadata_def
                or_na_def str_or_na_def Let_def split del: if_split)
  subgoal by (simp add: word_extract_tables_def)
  subgoal by (simp add: word_extract_tables_def word_tables_fail)
  subgoal by (simp add: word_extract_tables_def word_tables_ok)
  subgoal by (simp add: ExcelConverter_extract_def excel_try_def)
  subgoal by (simp add: ExcelConverter_extract_def excel_try_def excel_sheets_fail)
  subgoal by (simp add: ExcelConverter_extract_def excel_try_def excel_sheets_ok)
  subgoal by (simp add: TextConverter_extract_def text_try_def extract_plain_text_def)
  subgoal by (simp add: TextConverter_extract_def text_try_def extract_plain_text_def Let_def numbered_lines_eq
                text_get_metadata_def)
  subgoal by (simp add: TextConverter_extract_def text_try_def extract_csv_def)
  subgoal by (simp add: TextConverter_extract_def text_try_def extract_csv_def text_get_metadata_def)
  done


text \<open>The example library at the example paths.\<close>

lemma strip_Hello: "strip ''Hello'' = ''Hello''"
  by code_simp

lemma notes_not_csv: "ends_with ''.csv'' (lower ''in/notes.txt'') = False"
  by code_simp

lemma words_Name_Age: "split_ws ''Name Age'' = [''Name'', ''Age'']"
  by code_simp

lemma example_library_calls:
  "fitz_open example_library ''in/notes.txt'' = Inl (LibraryError ''cannot open'')"
  "fitz_open example_library ''in/table.pdf''
     = Inr \<lparr>pdf_page_texts = [Inr ''Name Age''], pdf_metadata = Inr [(PStr ''title'', PStr ''T'')],
             pdf_close = None\<rparr>"
  "pdfplumber_pages example_library ''in/table.pdf'' = Inl (LibraryError ''cannot open'')"
  "docx_document example_library ''in/letter.docx''
     = Inr \<lparr>wd_paragraphs = Inr [(''Hello'', Inl AttributeError)], wd_tables = Inr [],
             wd_core_properties = Inl AttributeError\<rparr>"
  "excel_sheet_names example_library ''in/book.xlsx'' = Inr [PStr ''Sheet1'']"
  "read_excel example_library ''in/book.xlsx'' (PStr ''Sheet1'') = Inl ValueError"
  "read_text example_library ''in/notes.txt'' (detect_encoding example_library ''in/notes.txt'')
     = Inl (LibraryError ''codec'')"
  by (simp_all add: example_library_def)

theorem extract_error_policy_witness:
  "PDFConverter_extract example_runtime example_library ''in/notes.txt''
     = Inr [(PStr ''error'', PStr ''Failed to extract PDF: error''), (PStr ''document_type'', PStr ''PDF'')]
   \<and> PDFConverter_extract example_runtime example_library ''in/table.pdf'' = Inr example_scan_record
   \<and> WordConverter_extract example_runtime example_library ''in/letter.docx''
     = Inr [(PStr ''error'', PStr ''Failed to extract Word document: error''),
            (PStr ''document_type'', PStr ''Word Document'')]
   \<and> ExcelConverter_extract example_runtime example_library ''in/book.xlsx''
     = Inr [(PStr ''error'', PStr ''Failed to extract Excel file: error''),
            (PStr ''document_type'', PStr ''Excel Spreadsheet'')]
   \<and> TextConverter_extract example_runtime example_library ''in/notes.txt''
     = Inr [(PStr ''error'', PStr ''Failed to extract text file: error''),
            (PStr ''document_type'', PStr ''Text File'')]"
proof -
  note a = extract_error_policy [where rt = example_runtime and lib = example_library
      and p = "''in/notes.txt''" and e = "LibraryError ''cannot open''" and kind = "''PDF''" and tag = "''PDF''"]
  note b = extract_error_policy [where rt = example_runtime and lib = example_library
      and p = "''in/table.pdf''" and e = "LibraryError ''cannot open''"
      and doc = "\<lparr>pdf_page_texts = [Inr ''Name Age''], pdf_metadata = Inr [(PStr ''title'', PStr ''T'')],
                   pdf_close = None\<rparr>"
      and texts = "[''Name Age'']" and md = "[(PStr ''title'', PStr ''T'')]"]
  note c = extract_error_policy [where rt = example_runtime and lib = example_library
      and p = "''in/letter.docx''" and e = AttributeError
      and kind = "''Word document''" and tag = "''Word Document''"
      and wdoc = "\<lparr>wd_paragraphs = Inr [(''Hello'', Inl AttributeError)], wd_tables = Inr [],
                    wd_core_properties = Inl AttributeError\<rparr>"
      and before = "[]" and t = "''Hello''" and later_paras = "[]"]
  note d = extract_error_policy [where rt = example_runtime and lib = example_library
      and p = "''in/book.xlsx''" and e = ValueError
      and kind = "''Excel file''" and tag = "''Excel Spreadsheet''"
      and before_sheets = "[]" and bad = "PStr ''Sheet1''" and later_sheets = "[]" and before_frames = "[]"]
  note e = extract_error_policy [where rt = example_runtime and lib = example_library
      and p = "''in/notes.txt''" and e = "LibraryError ''codec''"
      and kind = "''text file''" and tag = "''Text File''"]
  from a have 1: "PDFConverter_extract example_runtime example_library ''in/notes.txt''
     = Inr [(PStr ''error'', PStr ''Failed to extract PDF: error''), (PStr ''document_type'', PStr ''PDF'')]"
    by (simp add: example_library_calls str_exn_example)
  from b have 2: "PDFConverter_extract example_runtime example_library ''in/table.pdf'' = Inr example_scan_record"
    by (simp add: example_library_calls example_scan_record_def page_record_def words_Name_Age
          dict_get_def numbered_def del: split_ws.simps)
  from c have 3: "WordConverter_extract example_runtime example_library ''in/letter.docx''
     = Inr [(PStr ''error'', PStr ''Failed to extract Word document: error''),
            (PStr ''document_type'', PStr ''Word Document'')]"
    by (simp add: example_library_calls str_exn_example strip_Hello)
  from d have 4: "ExcelConverter_extract example_runtime example_library ''in/book.xlsx''
     = Inr [(PStr ''error'', PStr ''Failed to extract Excel file: error''),
            (PStr ''document_type'', PStr ''Excel Spreadsheet'')]"
    by (simp add: example_library_calls str_exn_example)
  from e have 5: "TextConverter_extract example_runtime example_library ''in/notes.txt''
     = Inr [(PStr ''error'', PStr ''Failed to extract text file: error''),
            (PStr ''document_type'', PStr ''Text File'')]"
    by (simp add: example_library_calls str_exn_example notes_not_csv)
  from 1 2 3 4 5 show ?thesis by blast
qed

text \<open>
  The claim as stated fails where the failure is inside the extraction of the tables:
  for a PDF that \<open>fitz\<close> opens and \<open>pdfplumber\<close> cannot open, \<open>extract\<close> returns the record
  of the file with an empty list of tables and no field \<open>error\<close>.
\<close>

theorem extract_swallowed_counterexample:
  "pdfplumber_pages example_library ''in/table.pdf'' = Inl (LibraryError ''cannot open'')
   \<and> PDFConverter_extract example_runtime example_library ''in/table.pdf'' = Inr example_scan_record
   \<and> map_of example_scan_record (PStr ''error'') = None
   \<and> map_of example_scan_record (PStr ''tables'') = Some (PList [])"
  by (simp add: example_library_calls PDFConverter_extract_def pdf_try_def pdf_extract_tables_def
        pdf_get_metadata_def dict_get_def words_Name_Age example_scan_record_def
      del: split_ws.simps)


end
